theory Spec2Isabelle
  imports Complex_Main "HOL-Library.AList"
begin

section \<open>LOINC mapping validation and correction: a shallow embedding\<close>

text \<open>
  The development follows the JavaScript sources
  \<^verbatim>\<open>src/lib/loincUtils.js\<close>, \<^verbatim>\<open>src/lib/common.js\<close>,
  \<^verbatim>\<open>src/lib/loincPartSynonyms.js\<close>, \<^verbatim>\<open>src/lib/labNameParser.js\<close>,
  \<^verbatim>\<open>src/pcornetValidationMgr.js\<close> and \<^verbatim>\<open>src/altLoincSuggesterGen6.js\<close>.

  Conventions of the embedding.
  \<^item> A JavaScript string is a \<open>string\<close>; a value that may be \<^verbatim>\<open>undefined\<close>
    (the first element of a possibly empty array, a missing table entry) is a
    \<open>string option\<close> with \<open>None\<close> for \<^verbatim>\<open>undefined\<close>.
  \<^item> A plain object used as a dictionary is an association list in insertion order (the
    order of \<^verbatim>\<open>Object.entries\<close> for keys that are not array indices).  The two
    dictionaries that are read with keys taken from the input, \<^verbatim>\<open>loincToParts\<close> and the part
    index, are read with \<open>jsGet\<close>, which also finds the members inherited from
    \<^verbatim>\<open>Object.prototype\<close>.
  \<^item> A JavaScript \<^verbatim>\<open>Set\<close> is a duplicate-free list in insertion order.
  \<^item> A thrown exception is the left summand of a sum type.
\<close>

subsection \<open>Exceptions\<close>

datatype js_error = TypeError | ReferenceError | InvalidInput

definition bindE :: "js_error + 'a \<Rightarrow> ('a \<Rightarrow> js_error + 'b) \<Rightarrow> js_error + 'b" where
  "bindE x f = (case x of Inl e \<Rightarrow> Inl e | Inr v \<Rightarrow> f v)"

fun mapE :: "('a \<Rightarrow> js_error + 'b) \<Rightarrow> 'a list \<Rightarrow> js_error + 'b list" where
  "mapE f [] = Inr []"
| "mapE f (x # xs) =
     (case f x of
        Inl e \<Rightarrow> Inl e
      | Inr y \<Rightarrow> (case mapE f xs of Inl e \<Rightarrow> Inl e | Inr ys \<Rightarrow> Inr (y # ys)))"

fun foldE :: "('a \<Rightarrow> 'b \<Rightarrow> js_error + 'b) \<Rightarrow> 'a list \<Rightarrow> 'b \<Rightarrow> js_error + 'b" where
  "foldE f [] acc = Inr acc"
| "foldE f (x # xs) acc = bindE (f x acc) (foldE f xs)"

subsection \<open>Reading a property of a plain object\<close>

text \<open>The names of the members of \<^verbatim>\<open>Object.prototype\<close>, which every object created by
  \<^verbatim>\<open>{}\<close> inherits.  Each of them is a function, except \<^verbatim>\<open>__proto__\<close>, which reads as
  \<^verbatim>\<open>Object.prototype\<close> itself; all are truthy, none is a \<^verbatim>\<open>Set\<close>, an array or a string,
  and none has a property named after a LOINC part.  \<open>jsGet obj k\<close> is \<^verbatim>\<open>obj[k]\<close>: the own
  property, else the inherited member, else \<^verbatim>\<open>undefined\<close>.\<close>

definition objectPrototypeKeys :: "string list" where
  "objectPrototypeKeys =
     [''constructor'', ''__defineGetter__'', ''__defineSetter__'', ''hasOwnProperty'',
      ''__lookupGetter__'', ''__lookupSetter__'', ''isPrototypeOf'', ''propertyIsEnumerable'',
      ''toString'', ''valueOf'', ''__proto__'', ''toLocaleString'']"

datatype 'a js_prop = Own 'a | Inherited string | Undefined

definition jsGet :: "(string \<times> 'a) list \<Rightarrow> string \<Rightarrow> 'a js_prop" where
  "jsGet obj k =
     (case map_of obj k of
        Some v \<Rightarrow> Own v
      | None \<Rightarrow> if k \<in> set objectPrototypeKeys then Inherited k else Undefined)"

subsection \<open>Part types and the LOINC table (\<^verbatim>\<open>loincUtils.js\<close>)\<close>

datatype part_type = CLASS | COMPONENT | PROPERTY | TIME | SYSTEM | SCALE | METHOD

definition PartTypeList :: "part_type list" where
  "PartTypeList = [CLASS, COMPONENT, PROPERTY, TIME, SYSTEM, SCALE, METHOD]"

text \<open>One row of \<^verbatim>\<open>Loinc.csv\<close> as \<^verbatim>\<open>loadLoincTable\<close> delivers it: every column is a
  string, the empty string when the cell is empty.\<close>

record loinc_row =
  csv_LOINC_NUM :: string
  csv_LONG_COMMON_NAME :: string
  csv_STATUS :: string
  csv_EXAMPLE_UCUM_UNITS :: string
  csv_part :: "part_type \<Rightarrow> string"

text \<open>An entry of \<^verbatim>\<open>loincToParts\<close>: the copied columns, and for every part type a list
  with zero or one part name.\<close>

record loinc_info =
  LOINC_NUM :: string
  LONG_COMMON_NAME :: string
  STATUS :: string
  EXAMPLE_UCUM_UNITS :: string
  parts :: "part_type \<Rightarrow> string list"

type_synonym loinc_table = "(string \<times> loinc_info) list"

text \<open>The body of \<^verbatim>\<open>loincs.forEach(row => ...)\<close> in \<^verbatim>\<open>getLoincTableUtil\<close>: the entry of
  the row's LOINC number is created on first sight (\<^verbatim>\<open>copyFields\<close>) and its part lists are
  (re)assigned from the row.  This is what the code does for a LOINC number that does not
  name a member of \<^verbatim>\<open>Object.prototype\<close>.  For one that does, the code would take the
  inherited member for the entry and assign the part lists to that shared object; tables with
  such a number are not described by \<open>addLoincRow\<close>, and every statement below about
  \<open>loincToParts\<close> that depends on it says so (\<open>plainKeys\<close>).\<close>

definition addLoincRow :: "loinc_row \<Rightarrow> loinc_table \<Rightarrow> loinc_table" where
  "addLoincRow r tbl =
     (let base = (case map_of tbl (csv_LOINC_NUM r) of
                    Some p \<Rightarrow> p
                  | None \<Rightarrow> \<lparr>LOINC_NUM = csv_LOINC_NUM r,
                             LONG_COMMON_NAME = csv_LONG_COMMON_NAME r,
                             STATUS = csv_STATUS r,
                             EXAMPLE_UCUM_UNITS = csv_EXAMPLE_UCUM_UNITS r,
                             parts = (\<lambda>_. [])\<rparr>)
      in AList.update (csv_LOINC_NUM r)
           (base\<lparr>parts := (\<lambda>pt. if csv_part r pt \<noteq> [] then [csv_part r pt] else [])\<rparr>) tbl)"

definition loincToParts :: "loinc_row list \<Rightarrow> loinc_table" where
  "loincToParts loincs = fold addLoincRow loincs []"

definition plainKeys :: "loinc_row list \<Rightarrow> bool" where
  "plainKeys loincs = list_all (\<lambda>r. csv_LOINC_NUM r \<notin> set objectPrototypeKeys) loincs"

text \<open>\<^verbatim>\<open>partLists[pt] && partLists[pt][0] || ''\<close>: the value an entry holds for a part
  type, the empty string when the attribute is absent.\<close>

definition partValue :: "loinc_info \<Rightarrow> part_type \<Rightarrow> string" where
  "partValue info pt = (case parts info pt of [] \<Rightarrow> [] | x # _ \<Rightarrow> x)"

subsection \<open>Sets (\<^verbatim>\<open>common.js\<close>)\<close>

definition setAdd :: "'a \<Rightarrow> 'a list \<Rightarrow> 'a list" where
  "setAdd x s = (if x \<in> set s then s else s @ [x])"

text \<open>What \<^verbatim>\<open>setOR\<close> and \<^verbatim>\<open>setAND\<close> are given by \<^verbatim>\<open>getLoincForPartsInternal\<close>: a
  \<^verbatim>\<open>Set\<close> of LOINC numbers, or a member inherited from \<^verbatim>\<open>Object.prototype\<close>, which is not
  a \<^verbatim>\<open>Set\<close>: it has no \<^verbatim>\<open>size\<close>, cannot be iterated and has no method \<^verbatim>\<open>has\<close>,
  \<^verbatim>\<open>add\<close> or \<^verbatim>\<open>forEach\<close>.\<close>

datatype js_set = SetOf "string list" | NotASet string

definition elementsOf :: "js_set \<Rightarrow> js_error + string list" where
  "elementsOf s = (case s of SetOf xs \<Rightarrow> Inr xs | NotASet k \<Rightarrow> Inl TypeError)"

text \<open>\<^verbatim>\<open>sets.sort((s1, s2) => s1.size - s2.size)\<close> and its mirror image.  The difference is
  \<^verbatim>\<open>NaN\<close> when one of the two is not a \<^verbatim>\<open>Set\<close>, which the sort reads as equality.  The
  sort is stable; where the comparison is not consistent (a value that is not a \<^verbatim>\<open>Set\<close>
  among sets of different sizes) ECMAScript leaves the order to the implementation, and the
  order taken here is that of the insertion sort below.\<close>

definition sizeLess :: "js_set \<Rightarrow> js_set \<Rightarrow> bool" where
  "sizeLess x y =
     (case x of
        SetOf xs \<Rightarrow> (case y of SetOf ys \<Rightarrow> length xs < length ys | NotASet k \<Rightarrow> False)
      | NotASet k \<Rightarrow> False)"

fun insertBy :: "('a \<Rightarrow> 'a \<Rightarrow> bool) \<Rightarrow> 'a \<Rightarrow> 'a list \<Rightarrow> 'a list" where
  "insertBy before x [] = [x]"
| "insertBy before x (y # ys) = (if before y x then y # insertBy before x ys else x # y # ys)"

definition sortBy :: "('a \<Rightarrow> 'a \<Rightarrow> bool) \<Rightarrow> 'a list \<Rightarrow> 'a list" where
  "sortBy before xs = foldr (insertBy before) xs []"

text \<open>\<^verbatim>\<open>setOR(...sets)\<close>: no argument gives the empty set, one argument is returned as it is,
  otherwise the arguments are sorted by decreasing size, the first is copied
  (\<^verbatim>\<open>new Set(sets[0])\<close>) and the elements of the others are added; each argument is iterated,
  which throws for one that is not a \<^verbatim>\<open>Set\<close>.\<close>

definition setOR :: "js_set list \<Rightarrow> js_error + js_set" where
  "setOR sets =
     (case sets of
        [] \<Rightarrow> Inr (SetOf [])
      | [s] \<Rightarrow> Inr s
      | _ \<Rightarrow> bindE (mapE elementsOf (sortBy (\<lambda>x y. sizeLess y x) sets))
               (\<lambda>sorted. case sorted of
                            [] \<Rightarrow> Inr (SetOf [])
                          | s0 # rest \<Rightarrow> Inr (SetOf (fold (\<lambda>ss u. fold setAdd ss u) rest s0))))"

text \<open>\<^verbatim>\<open>setAND(...sets)\<close>: no argument gives the empty set, one argument is returned as it is,
  otherwise the arguments are sorted by increasing size and the elements of the first that
  all others have are kept.  \<^verbatim>\<open>every\<close> stops at the first argument that lacks the element;
  iterating the first argument and calling \<^verbatim>\<open>has\<close> throw for one that is not a
  \<^verbatim>\<open>Set\<close>.\<close>

fun allHave :: "string \<Rightarrow> js_set list \<Rightarrow> js_error + bool" where
  "allHave e [] = Inr True"
| "allHave e (s # ss) =
     (case s of
        NotASet k \<Rightarrow> Inl TypeError
      | SetOf ys \<Rightarrow> if e \<in> set ys then allHave e ss else Inr False)"

fun filterE :: "('a \<Rightarrow> js_error + bool) \<Rightarrow> 'a list \<Rightarrow> js_error + 'a list" where
  "filterE p [] = Inr []"
| "filterE p (x # xs) =
     bindE (p x) (\<lambda>keep. bindE (filterE p xs) (\<lambda>r. Inr (if keep then x # r else r)))"

definition setAND :: "js_set list \<Rightarrow> js_error + js_set" where
  "setAND sets =
     (case sets of
        [] \<Rightarrow> Inr (SetOf [])
      | [s] \<Rightarrow> Inr s
      | _ \<Rightarrow> (case sortBy sizeLess sets of
                [] \<Rightarrow> Inr (SetOf [])
              | s0 # rest \<Rightarrow>
                  bindE (elementsOf s0)
                    (\<lambda>xs. bindE (filterE (\<lambda>e. allHave e rest) xs) (\<lambda>ys. Inr (SetOf ys)))))"

subsection \<open>The part index (\<^verbatim>\<open>loincUtils.js\<close>)\<close>

text \<open>A property key made from an array is the array's string form: its elements joined
  by commas. \<^verbatim>\<open>rec[pt] || ''\<close> is always the array, an array being truthy.\<close>

fun jsArrayToString :: "string list \<Rightarrow> string" where
  "jsArrayToString [] = []"
| "jsArrayToString [x] = x"
| "jsArrayToString (x # y # ys) = x @ '','' @ jsArrayToString (y # ys)"

type_synonym part_index = "part_type \<Rightarrow> (string \<times> string list) list"

text \<open>\<^verbatim>\<open>(partIndexes[pt][partName] = partIndexes[pt][partName] || new Set()).add(loinc)\<close>:
  for a part name that names a member of \<^verbatim>\<open>Object.prototype\<close> the inherited member is taken
  for the set, and calling its \<^verbatim>\<open>add\<close> throws.\<close>

definition indexAdd :: "string \<Rightarrow> string \<Rightarrow> (string \<times> string list) list \<Rightarrow>
    js_error + (string \<times> string list) list" where
  "indexAdd partName loinc idx =
     (case jsGet idx partName of
        Own s \<Rightarrow> Inr (AList.update partName (setAdd loinc s) idx)
      | Inherited k \<Rightarrow> Inl TypeError
      | Undefined \<Rightarrow> Inr (AList.update partName [loinc] idx))"

definition indexForPart :: "loinc_table \<Rightarrow> part_type \<Rightarrow> js_error + (string \<times> string list) list" where
  "indexForPart l2p pt =
     foldE (\<lambda>(loinc, info) idx. indexAdd (jsArrayToString (parts info pt)) loinc idx) l2p []"

definition buildLoincPartsIndex :: "loinc_table \<Rightarrow> js_error + part_index" where
  "buildLoincPartsIndex l2p =
     bindE (mapE (indexForPart l2p) PartTypeList)
       (\<lambda>idxs. Inr (\<lambda>pt. case map_of (zip PartTypeList idxs) pt of Some idx \<Rightarrow> idx | None \<Rightarrow> []))"

text \<open>\<^verbatim>\<open>partIndexes[partType][partName] || new Set()\<close>: a set of the index is truthy, and so
  is an inherited member.\<close>

definition indexLookup :: "part_index \<Rightarrow> part_type \<Rightarrow> string \<Rightarrow> js_set" where
  "indexLookup partIndexes pt partName =
     (case jsGet (partIndexes pt) partName of
        Own s \<Rightarrow> SetOf s
      | Inherited k \<Rightarrow> NotASet k
      | Undefined \<Rightarrow> SetOf [])"

definition getLoincForPartsInternal :: "part_index \<Rightarrow> (part_type \<times> string list) list \<Rightarrow>
    js_error + js_set" where
  "getLoincForPartsInternal partIndexes partTypeNames =
     bindE (mapE (\<lambda>(partType, partNames).
                    setOR (map (indexLookup partIndexes partType) partNames))
              partTypeNames)
       setAND"

text \<open>\<^verbatim>\<open>hasLoincWithPart\<close> is \<^verbatim>\<open>!!loincPartIndexex[partType][partName]\<close>: true for a set
  of the index and for an inherited member.\<close>

definition hasLoincWithPartInternal :: "part_index \<Rightarrow> part_type \<Rightarrow> string \<Rightarrow> bool" where
  "hasLoincWithPartInternal partIndexes partType partName =
     (case jsGet (partIndexes partType) partName of
        Own s \<Rightarrow> True
      | Inherited k \<Rightarrow> True
      | Undefined \<Rightarrow> False)"

subsection \<open>Strings\<close>

text \<open>The string operations of JavaScript that the sources use.  Characters are bytes here;
  case folding and white space are those of ASCII.\<close>

definition toLowerChar :: "char \<Rightarrow> char" where
  "toLowerChar c =
     (case map_of (zip ''ABCDEFGHIJKLMNOPQRSTUVWXYZ'' ''abcdefghijklmnopqrstuvwxyz'') c of
        Some l \<Rightarrow> l | None \<Rightarrow> c)"

definition toUpperChar :: "char \<Rightarrow> char" where
  "toUpperChar c =
     (case map_of (zip ''abcdefghijklmnopqrstuvwxyz'' ''ABCDEFGHIJKLMNOPQRSTUVWXYZ'') c of
        Some u \<Rightarrow> u | None \<Rightarrow> c)"

definition toLowerCase :: "string \<Rightarrow> string" where
  "toLowerCase s = map toLowerChar s"

definition toUpperCase :: "string \<Rightarrow> string" where
  "toUpperCase s = map toUpperChar s"

fun startsWith :: "string \<Rightarrow> string \<Rightarrow> bool" where
  "startsWith s [] = True"
| "startsWith [] (p # ps) = False"
| "startsWith (c # cs) (p # ps) = (c = p \<and> startsWith cs ps)"

definition endsWith :: "string \<Rightarrow> string \<Rightarrow> bool" where
  "endsWith s p = startsWith (rev s) (rev p)"

text \<open>\<^verbatim>\<open>s.indexOf(p)\<close>: the first position where \<open>p\<close> occurs, \<open>None\<close> for \<open>-1\<close>.\<close>

fun indexOfFrom :: "nat \<Rightarrow> string \<Rightarrow> string \<Rightarrow> nat option" where
  "indexOfFrom i [] p = (if p = [] then Some i else None)"
| "indexOfFrom i (c # cs) p =
     (if startsWith (c # cs) p then Some i else indexOfFrom (Suc i) cs p)"

definition indexOf :: "string \<Rightarrow> string \<Rightarrow> nat option" where
  "indexOf s p = indexOfFrom 0 s p"

definition includesStr :: "string \<Rightarrow> string \<Rightarrow> bool" where
  "includesStr s p = (indexOf s p \<noteq> None)"

definition isSpace :: "char \<Rightarrow> bool" where
  "isSpace c = (c \<in> set [CHR '' '', CHR 0x09, CHR 0x0A, CHR 0x0B, CHR 0x0C, CHR 0x0D])"

definition trim :: "string \<Rightarrow> string" where
  "trim s = rev (dropWhile isSpace (rev (dropWhile isSpace s)))"

text \<open>\<^verbatim>\<open>s.slice(0, -n)\<close>.\<close>

definition sliceEnd :: "string \<Rightarrow> nat \<Rightarrow> string" where
  "sliceEnd s n = take (length s - n) s"

subsection \<open>Part synonyms (\<^verbatim>\<open>loincPartSynonyms.js\<close>)\<close>

text \<open>\<^verbatim>\<open>partSynonymsMap\<close> has an entry for SYSTEM only, so for the other part types nothing is
  looked up by part name.  For SYSTEM the map is read here as its own properties: a SYSTEM
  name that names a member of \<^verbatim>\<open>Object.prototype\<close> makes the code take that member for a
  synonym list and throw a \<^verbatim>\<open>TypeError\<close> (\<^verbatim>\<open>includes\<close> is not a function, or the member is
  not iterable), where \<open>getPartSynonyms\<close> and \<open>addPartSynonyms\<close> find no synonyms.  Such a
  name is not a SYSTEM of a table whose index could be built (\<open>indexAdd\<close> throws for it),
  and the names the inference adds come from fixed lists.\<close>

definition partSynonyms :: "(part_type \<times> string list list) list" where
  "partSynonyms =
     [(SYSTEM, [[''Ser'', ''Plas'', ''Ser/Plas''],
                [''Bld'', ''Ser/Plas/Bld''],
                [''xxxx-1'', ''xxxxx-2'']])]"

definition partSynonymsMap :: "(part_type \<times> (string \<times> string list) list) list" where
  "partSynonymsMap =
     map (\<lambda>(partType, groups).
            (partType, fold (\<lambda>grp m. fold (\<lambda>partName m'. AList.update partName grp m') grp m)
                         groups []))
         partSynonyms"

definition getPartSynonyms :: "part_type \<Rightarrow> string \<Rightarrow> string list option" where
  "getPartSynonyms partType partName =
     (case map_of partSynonymsMap partType of
        None \<Rightarrow> None
      | Some m \<Rightarrow> map_of m partName)"

text \<open>\<^verbatim>\<open>addPartSynonyms\<close> on a list (the \<^verbatim>\<open>null\<close> argument is handled by the caller): for
  each of the names present at the start, its synonyms are appended unless already there.\<close>

definition addPartSynonyms :: "part_type \<Rightarrow> string list \<Rightarrow> string list" where
  "addPartSynonyms partType partNames =
     (case map_of partSynonymsMap partType of
        None \<Rightarrow> partNames
      | Some m \<Rightarrow>
          fold (\<lambda>name acc. fold setAdd (case map_of m name of Some g \<Rightarrow> g | None \<Rightarrow> []) acc)
            partNames partNames)"

subsection \<open>The data row\<close>

text \<open>A cell of the input sheet as \<^verbatim>\<open>sheet_to_json\<close> delivers it with \<^verbatim>\<open>raw: true\<close>: a
  text, a number or a boolean.  A number is given by the text that JavaScript prints for it
  (\<^verbatim>\<open>String(n)\<close>), which is all the sources can read of it; it is falsy when it is zero or
  \<^verbatim>\<open>NaN\<close>.\<close>

datatype cell = Str string | Num string | Boo bool

definition cellTruthy :: "cell \<Rightarrow> bool" where
  "cellTruthy c =
     (case c of Str s \<Rightarrow> s \<noteq> [] | Num t \<Rightarrow> t \<noteq> ''0'' \<and> t \<noteq> ''NaN'' | Boo b \<Rightarrow> b)"

definition cellText :: "cell \<Rightarrow> string" where
  "cellText c =
     (case c of Str s \<Rightarrow> s | Num t \<Rightarrow> t | Boo b \<Rightarrow> if b then ''true'' else ''false'')"

text \<open>One record of the input file with the fields the algorithm reads and writes.
  \<open>rowPart r pt\<close> is \<^verbatim>\<open>row[pt]\<close>, \<open>example_ucum\<close> is \<^verbatim>\<open>row['example ucum']\<close>, and
  \<open>Inclusion_category\<close> is \<^verbatim>\<open>row['Inclusion category']\<close>.  A text field that is absent or
  cleared is the empty string.  \<open>RAW_UNIT\<close> is the cell as delivered: the code never
  rewrites it.  \<open>RAW_LAB_NAME\<close> is the name after the first statement of the preprocessing
  has turned it into a string, and \<open>LAB_LOINC\<close>, \<open>SPECIMEN_SOURCE\<close> and
  \<open>Inclusion_category\<close> are the texts of their cells: these three are taken to be text
  cells.  \<open>inferred\<close> maps a part type to its names and their infer
  types; \<open>ALGO_MAPPING_ISSUES\<close> is the issue list while the row is processed; both are
  \<open>None\<close> while absent or cleared.  \<open>TARGET_TERM\<close> is the list of the target terms tried.
  \<open>ALGO_MAPPING_ISSUES_string\<close> and \<open>TARGET_TERM_string\<close> are the values of these two fields
  once \<^verbatim>\<open>reformatValuesToString\<close> has turned them into strings.\<close>

record data_row =
  LAB_LOINC :: string
  RAW_LAB_NAME :: string
  RAW_UNIT :: cell
  SPECIMEN_SOURCE :: string
  Inclusion_category :: string
  rowPart :: "part_type \<Rightarrow> string"
  row_LONG_COMMON_NAME :: string
  example_ucum :: string
  ucum_converted :: string
  inferred :: "(part_type \<times> (string list \<times> string list)) list option"
  inferred_parts :: string
  parsed_parts :: string
  ALGO_MAPPING_ISSUES :: "string list option"
  ALGO_MAPPING_ISSUES_string :: string
  ALGO_JUDGEMENT :: string
  SGG_LOINC :: string
  SGG_LONG_COMMON_NAME :: string
  SGG_OTHER :: string
  RULE_RELAXED_BY :: string
  TARGET_TERM :: "string list"
  TARGET_TERM_string :: string

subsection \<open>Part compatibility (\<^verbatim>\<open>pcornetValidationMgr.js\<close>)\<close>

definition falsy :: "string option \<Rightarrow> bool" where
  "falsy p = (p = None \<or> p = Some [])"

definition bothInList :: "string list \<Rightarrow> string option \<Rightarrow> string option \<Rightarrow> bool" where
  "bothInList plist p1 p2 =
     (case p1 of None \<Rightarrow> False
      | Some a \<Rightarrow> (case p2 of None \<Rightarrow> False | Some b \<Rightarrow> a \<in> set plist \<and> b \<in> set plist))"

definition synonymsInclude :: "part_type \<Rightarrow> string option \<Rightarrow> string option \<Rightarrow> bool" where
  "synonymsInclude partType p q =
     (case p of None \<Rightarrow> False
      | Some a \<Rightarrow> (case q of None \<Rightarrow> False
         | Some b \<Rightarrow> (case getPartSynonyms partType a of None \<Rightarrow> False | Some g \<Rightarrow> b \<in> set g)))"

definition partsCompatible :: "part_type \<Rightarrow> string option \<Rightarrow> string option \<Rightarrow> data_row \<Rightarrow> bool" where
  "partsCompatible partType p1 p2 row =
     (let lnClass = rowPart row CLASS in
      if p1 = p2 \<or> (falsy p1 \<and> falsy p2) then True
      else if falsy p1 \<or> falsy p2 then False
      else if partType = SCALE \<and> bothInList [''Qn'', ''OrdQn''] p1 p2 then True
      else if partType = SYSTEM \<and> lnClass = ''UA'' \<and> bothInList [''Urine'', ''Urine sed''] p1 p2 then True
      else if partType = SYSTEM \<and> lnClass = ''COAG'' \<and> bothInList [''PPP'', ''Plas'', ''Ser/Plas''] p1 p2 then True
      else if partType = SYSTEM \<and> bothInList [''Ser'', ''Plas'', ''Ser/Plas'', ''Ser/Plas/Bld''] p1 p2 then True
      else if partType = SYSTEM \<and> bothInList [''Urine'', ''Urine+Ser'', ''Urine+Ser/Plas''] p1 p2 then True
      else if partType = SYSTEM \<and> bothInList [''CSF'', ''Ser+CSF'', ''Ser/Plas+CSF''] p1 p2 then True
      else synonymsInclude partType p1 p2 \<or> synonymsInclude partType p2 p1)"

subsection \<open>Default specimen (\<^verbatim>\<open>labNameParser.js\<close>)\<close>

definition defaultSpecimenPerClass :: "(string \<times> string) list" where
  "defaultSpecimenPerClass =
     [(''CHEM'', ''Ser/Plas''), (''DRUG/TOX'', ''Ser/Plas''), (''HEM/BC'', ''Bld''),
      (''COAG'', ''PPP''), (''MICRO'', ''Ser'')]"

definition getDefaultSpecimen :: "data_row \<Rightarrow> string option" where
  "getDefaultSpecimen row = map_of defaultSpecimenPerClass (rowPart row CLASS)"

subsection \<open>The tiered matcher (\<^verbatim>\<open>altLoincSuggesterGen6.js\<close>)\<close>

text \<open>\<^verbatim>\<open>xs[0]\<close>, and the string a value is converted to where a string is expected.\<close>

definition jsHead :: "string list \<Rightarrow> string option" where
  "jsHead xs = (case xs of [] \<Rightarrow> None | x # _ \<Rightarrow> Some x)"

definition jsString :: "string option \<Rightarrow> string" where
  "jsString v = (case v of None \<Rightarrow> ''undefined'' | Some s \<Rightarrow> s)"

text \<open>\<^verbatim>\<open>/pat/i.test(s)\<close> for a literal pattern, and the two replacements of
  \<^verbatim>\<open>relaxedComponentMatch\<close>: \<^verbatim>\<open>s.replace(/pat/i, '')\<close> for a literal pattern and
  \<^verbatim>\<open>s.replace(/[ ]?fragments/i, '')\<close>; both remove the leftmost match only.\<close>

definition testCI :: "string \<Rightarrow> string \<Rightarrow> bool" where
  "testCI pat s = includesStr (toLowerCase s) (toLowerCase pat)"

fun removeFirstCI :: "string \<Rightarrow> string \<Rightarrow> string" where
  "removeFirstCI pat [] = []"
| "removeFirstCI pat (c # cs) =
     (if startsWith (toLowerCase (c # cs)) (toLowerCase pat) then drop (length pat) (c # cs)
      else c # removeFirstCI pat cs)"

fun removeFragments :: "string \<Rightarrow> string" where
  "removeFragments [] = []"
| "removeFragments (c # cs) =
     (if c = CHR '' '' \<and> startsWith (toLowerCase cs) ''fragments'' then drop 9 cs
      else if startsWith (toLowerCase (c # cs)) ''fragments'' then drop 9 (c # cs)
      else c # removeFragments cs)"

text \<open>The body of \<^verbatim>\<open>shouldTryDefaultSpecimen\<close> starts with \<^verbatim>\<open>return false\<close>
  ("disabled for now"); the statements after it are never reached.\<close>

definition shouldTryDefaultSpecimen :: "data_row \<Rightarrow> bool" where
  "shouldTryDefaultSpecimen row = False"

type_synonym term_parts = "part_type \<Rightarrow> string list option"

text \<open>\<^verbatim>\<open>relaxedComponentMatch\<close>.  Reading a property of \<^verbatim>\<open>undefined\<close> or \<^verbatim>\<open>null\<close> throws a
  \<^verbatim>\<open>TypeError\<close>: the component of the target or of the candidate may be absent, and a part
  of the target may be \<^verbatim>\<open>null\<close>.  So does \<^verbatim>\<open>row.RAW_UNIT.indexOf\<close> when the raw unit is
  not a string.  The first definition is the \<^verbatim>\<open>else if\<close> branch of
  the first conditional.\<close>

definition relaxLeukocytes :: "term_parts \<Rightarrow> string option \<Rightarrow> string option \<Rightarrow> string list \<Rightarrow>
    js_error + (bool \<times> string list)" where
  "relaxLeukocytes targetLoincParts targetComp candidateComp relaxations =
     (case targetLoincParts PROPERTY of
        None \<Rightarrow> Inl TypeError
      | Some props \<Rightarrow>
          if ''NCnc'' \<in> set props \<and> Some (jsString candidateComp @ ''/100 leukocytes'') = targetComp
          then Inr (True, relaxations @ [''matchPart: NCnc ignoring '' @ [CHR 0x22] @ ''/100 leukocytes'' @ [CHR 0x22]])
          else Inr (False, relaxations))"

definition relaxDenominator :: "data_row \<Rightarrow> term_parts \<Rightarrow> string option \<Rightarrow> string option \<Rightarrow>
    string list \<Rightarrow> js_error + (bool \<times> string list)" where
  "relaxDenominator row targetLoincParts targetComp candidateComp relaxations =
     (case RAW_UNIT row of
        Num t \<Rightarrow> Inl TypeError
      | Boo b \<Rightarrow> Inl TypeError
      | Str rawUnit \<Rightarrow>
          if includesStr rawUnit ''%'' then
            (case targetComp of
               None \<Rightarrow> Inl TypeError
             | Some tc \<Rightarrow>
                 if includesStr tc ''/''
                 then relaxLeukocytes targetLoincParts targetComp candidateComp relaxations
                 else (case candidateComp of
                    None \<Rightarrow> Inl TypeError
                  | Some cc \<Rightarrow>
                      if (case indexOf cc ''/'' of None \<Rightarrow> False | Some i \<Rightarrow> 0 < i) then
                        (let relaxedTarget =
                           (if \<not> testCI ''crystal'' (RAW_LAB_NAME row) \<and> endsWith tc '' crystals'' \<and>
                               \<not> testCI ''crystal'' cc
                            then sliceEnd tc 9 else tc)
                         in if startsWith cc (relaxedTarget @ ''/'') \<or>
                               relaxedTarget @ '' actual/Normal'' = cc
                            then Inr (True, relaxations @
                                   [if relaxedTarget = tc then ''COMP-denom for %''
                                    else ''COMP-denom for %, dropping crystals''])
                            else Inr (False, relaxations))
                      else relaxLeukocytes targetLoincParts targetComp candidateComp relaxations))
          else relaxLeukocytes targetLoincParts targetComp candidateComp relaxations)"

definition relaxActualNormal :: "term_parts \<Rightarrow> string option \<Rightarrow> string option \<Rightarrow>
    bool \<times> string list \<Rightarrow> js_error + (bool \<times> string list)" where
  "relaxActualNormal targetLoincParts targetComp candidateComp st =
     (case st of (matched, relaxations) \<Rightarrow>
        if matched then Inr st
        else (case targetLoincParts PROPERTY of
           None \<Rightarrow> Inl TypeError
         | Some props \<Rightarrow>
             if list_ex (\<lambda>p. p \<noteq> [] \<and> endsWith p ''Cnc'') props then
               (case targetComp of
                  None \<Rightarrow> Inl TypeError
                | Some tc \<Rightarrow>
                    if endsWith tc '' actual/Normal'' \<and> Some (sliceEnd tc 14) = candidateComp
                    then Inr (True, relaxations @ [''matchPart: dropping actual/Normal for ACnc''])
                    else Inr st)
             else Inr st))"

definition relaxFragments :: "data_row \<Rightarrow> string option \<Rightarrow> string option \<Rightarrow>
    bool \<times> string list \<Rightarrow> bool \<times> string list" where
  "relaxFragments row targetComp candidateComp st =
     (case st of (matched, relaxations) \<Rightarrow>
        if \<not> matched \<and> \<not> testCI ''fragments'' (RAW_LAB_NAME row) \<and>
           testCI ''fragments'' (jsString targetComp) \<and>
           Some (trim (removeFragments (jsString targetComp))) = candidateComp
        then (True, relaxations @ [''matchPart: dropping fragments''])
        else st)"

definition relaxNucleated :: "data_row \<Rightarrow> string option \<Rightarrow> string option \<Rightarrow>
    bool \<times> string list \<Rightarrow> bool \<times> string list" where
  "relaxNucleated row targetComp candidateComp st =
     (case st of (matched, relaxations) \<Rightarrow>
        if \<not> matched \<and> \<not> testCI ''nucleated'' (RAW_LAB_NAME row) \<and>
           testCI ''.nucleated'' (jsString targetComp) \<and>
           Some (trim (removeFirstCI ''.nucleated'' (jsString targetComp))) = candidateComp
        then (True, relaxations @ [''matchPart: dropping .nucleated''])
        else st)"

definition relaxedComponentMatch :: "data_row \<Rightarrow> term_parts \<Rightarrow> loinc_info \<Rightarrow> string list \<Rightarrow>
    js_error + (bool \<times> string list)" where
  "relaxedComponentMatch row targetLoincParts candidateLoincParts relaxations =
     (case targetLoincParts COMPONENT of
        None \<Rightarrow> Inl TypeError
      | Some tcs \<Rightarrow>
          (let candidateComp = jsHead (parts candidateLoincParts COMPONENT);
               targetComp = jsHead tcs
           in case relaxDenominator row targetLoincParts targetComp candidateComp relaxations of
                Inl e \<Rightarrow> Inl e
              | Inr st1 \<Rightarrow>
                  (case relaxActualNormal targetLoincParts targetComp candidateComp st1 of
                     Inl e \<Rightarrow> Inl e
                   | Inr st2 \<Rightarrow>
                       Inr (relaxNucleated row targetComp candidateComp
                              (relaxFragments row targetComp candidateComp st2)))))"

text \<open>\<^verbatim>\<open>matchPart\<close>.  The result is the returned flag and the \<^verbatim>\<open>relaxations\<close> array after
  the call.  In the \<^verbatim>\<open>SYSTEM\<close> case the branch of the default specimen ends in a
  \<^verbatim>\<open>console.log\<close> of the variable \<^verbatim>\<open>defaultSys\<close>, which is not declared in that scope.\<close>

definition matchPart :: "data_row \<Rightarrow> part_type \<Rightarrow> term_parts \<Rightarrow> loinc_info \<Rightarrow> nat \<Rightarrow>
    string list \<Rightarrow> js_error + (bool \<times> string list)" where
  "matchPart row partType srcParts candidateLoincParts currRelaxLevel relaxations =
     (let candidates = parts candidateLoincParts partType in
      case srcParts partType of
        None \<Rightarrow> Inr (True, relaxations)
      | Some src \<Rightarrow>
          if (src = [] \<and> candidates = []) \<or> list_ex (\<lambda>e. e \<in> set candidates) src
          then Inr (True, relaxations)
          else (case partType of
             METHOD \<Rightarrow>
               if 0 < currRelaxLevel \<and> candidates = []
               then Inr (True, relaxations @ [''METHOD-empty-ok''])
               else if 1 < currRelaxLevel
               then Inr (True, relaxations @ [''METHOD-match-waived''])
               else Inr (False, relaxations)
           | CLASS \<Rightarrow>
               if 2 < currRelaxLevel
               then Inr (True, relaxations @ [''CLASS-match-waived''])
               else Inr (False, relaxations)
           | COMPONENT \<Rightarrow> relaxedComponentMatch row srcParts candidateLoincParts relaxations
           | SYSTEM \<Rightarrow>
               (let matched = list_ex (\<lambda>sys. partsCompatible SYSTEM (Some sys) (jsHead candidates) row) src
                in if \<not> matched \<and> shouldTryDefaultSpecimen row \<and>
                      partsCompatible SYSTEM (getDefaultSpecimen row) (jsHead candidates) row
                   then Inl ReferenceError
                   else if \<not> matched \<and> jsHead candidates = Some ''XXX''
                   then Inr (True, relaxations @ [''specimen-xxx-match-waived''])
                   else Inr (matched, relaxations))
           | _ \<Rightarrow> Inr (False, relaxations)))"

text \<open>The loop of \<^verbatim>\<open>isAltLoinc\<close> over the part types: the mismatched part types are
  collected (\<^verbatim>\<open>mismatches.count\<close> is the length of the list) and the loop is left as soon as
  there are more than two.\<close>

fun scanParts :: "data_row \<Rightarrow> term_parts \<Rightarrow> loinc_info \<Rightarrow> nat \<Rightarrow> part_type list \<Rightarrow>
    part_type list \<Rightarrow> string list \<Rightarrow> js_error + (part_type list \<times> string list)" where
  "scanParts row targetTermParts candidateLoincParts currRelaxLevel [] mismatches relaxations =
     Inr (mismatches, relaxations)"
| "scanParts row targetTermParts candidateLoincParts currRelaxLevel (partType # rest) mismatches relaxations =
     (case matchPart row partType targetTermParts candidateLoincParts currRelaxLevel relaxations of
        Inl e \<Rightarrow> Inl e
      | Inr (matched, relaxations') \<Rightarrow>
          if matched
          then scanParts row targetTermParts candidateLoincParts currRelaxLevel rest mismatches relaxations'
          else if 2 < length (mismatches @ [partType])
          then Inr (mismatches @ [partType], relaxations')
          else scanParts row targetTermParts candidateLoincParts currRelaxLevel rest
                 (mismatches @ [partType]) relaxations')"

record match_status =
  st_matched :: bool
  st_relaxations :: "string list option"

definition maxRelaxLevel :: nat where
  "maxRelaxLevel = 3"

text \<open>\<^verbatim>\<open>isAltLoinc\<close>.  Its parameters \<^verbatim>\<open>refLoincParts\<close> and \<^verbatim>\<open>partTypesAndAltNames\<close> are
  never read and are left out; of \<^verbatim>\<open>context\<close> only the row is read.\<close>

function isAltLoinc :: "data_row \<Rightarrow> term_parts \<Rightarrow> loinc_info \<Rightarrow> nat \<Rightarrow> js_error + match_status" where
  "isAltLoinc row targetTermParts candidateLoincParts currRelaxLevel =
     (case scanParts row targetTermParts candidateLoincParts currRelaxLevel PartTypeList [] [] of
        Inl e \<Rightarrow> Inl e
      | Inr (mismatches, relaxations) \<Rightarrow>
          if length mismatches = 0
          then Inr (if relaxations \<noteq> []
                    then \<lparr>st_matched = True, st_relaxations = Some relaxations\<rparr>
                    else \<lparr>st_matched = True, st_relaxations = None\<rparr>)
          else if currRelaxLevel < maxRelaxLevel \<and>
                  (length mismatches = 1 \<and> (METHOD \<in> set mismatches \<or> CLASS \<in> set mismatches) \<or>
                   length mismatches = 2 \<and> METHOD \<in> set mismatches \<and> CLASS \<in> set mismatches)
          then isAltLoinc row targetTermParts candidateLoincParts (currRelaxLevel + 1)
          else Inr \<lparr>st_matched = False, st_relaxations = None\<rparr>)"
  by pat_completeness auto
termination
  by (relation "measure (\<lambda>(row, t, c, lvl). maxRelaxLevel - lvl)") auto

declare isAltLoinc.simps [simp del]

subsection \<open>Vocabulary for the claims about the matcher\<close>

text \<open>Whether a part type matches at a relaxation level (\<open>None\<close> when the test throws),
  and the part types that mismatch at a level, in the order of \<^verbatim>\<open>PartTypeList\<close>.  The
  flag returned by \<^verbatim>\<open>matchPart\<close> does not depend on the tags collected before the call
  (lemma \<open>matchPart_rel\<close>).\<close>

definition partMatches :: "data_row \<Rightarrow> term_parts \<Rightarrow> loinc_info \<Rightarrow> nat \<Rightarrow> part_type \<Rightarrow> bool option" where
  "partMatches row T C lvl pt =
     (case matchPart row pt T C lvl [] of Inl e \<Rightarrow> None | Inr (m, r) \<Rightarrow> Some m)"

definition mismatchedParts :: "data_row \<Rightarrow> term_parts \<Rightarrow> loinc_info \<Rightarrow> nat \<Rightarrow> part_type list" where
  "mismatchedParts row T C lvl =
     filter (\<lambda>pt. partMatches row T C lvl pt = Some False) PartTypeList"

definition appR :: "string list \<Rightarrow> js_error + (bool \<times> string list) \<Rightarrow> js_error + (bool \<times> string list)" where
  "appR rel x = (case x of Inl e \<Rightarrow> Inl e | Inr (m, r) \<Rightarrow> Inr (m, rel @ r))"

subsection \<open>Example data\<close>

text \<open>A record mapped to a serum glucose term whose name mentions urine, the target term
  built for it, and candidates that differ from the target in one part.\<close>

definition exTarget :: term_parts where
  "exTarget = (\<lambda>pt. Some (case pt of CLASS \<Rightarrow> [''CHEM''] | COMPONENT \<Rightarrow> [''Glucose'']
                 | PROPERTY \<Rightarrow> [''MCnc''] | TIME \<Rightarrow> [''Pt''] | SYSTEM \<Rightarrow> [''Urine'']
                 | SCALE \<Rightarrow> [''Qn''] | METHOD \<Rightarrow> []))"

definition exCandidate :: "string \<Rightarrow> string list \<Rightarrow> string list \<Rightarrow> string list \<Rightarrow> loinc_info" where
  "exCandidate num sys scale method =
     \<lparr>LOINC_NUM = num, LONG_COMMON_NAME = ''Glucose'', STATUS = ''ACTIVE'',
      EXAMPLE_UCUM_UNITS = ''mg/dL'',
      parts = (\<lambda>pt. case pt of CLASS \<Rightarrow> [''CHEM''] | COMPONENT \<Rightarrow> [''Glucose'']
                 | PROPERTY \<Rightarrow> [''MCnc''] | TIME \<Rightarrow> [''Pt''] | SYSTEM \<Rightarrow> sys
                 | SCALE \<Rightarrow> scale | METHOD \<Rightarrow> method)\<rparr>"

definition exRow :: data_row where
  "exRow =
     \<lparr>LAB_LOINC = ''2345-7'', RAW_LAB_NAME = ''GLUCOSE URINE'', RAW_UNIT = Str ''mg/dL'',
      SPECIMEN_SOURCE = ''Ser'', Inclusion_category = [],
      rowPart = (\<lambda>pt. case pt of CLASS \<Rightarrow> ''CHEM'' | COMPONENT \<Rightarrow> ''Glucose''
                 | PROPERTY \<Rightarrow> ''MCnc'' | TIME \<Rightarrow> ''Pt'' | SYSTEM \<Rightarrow> ''Ser/Plas''
                 | SCALE \<Rightarrow> ''Qn'' | METHOD \<Rightarrow> []),
      row_LONG_COMMON_NAME = ''Glucose [Mass/volume] in Serum or Plasma'', example_ucum = ''mg/dL'',
      ucum_converted = ''mg/dL'', inferred = None, inferred_parts = [], parsed_parts = [],
      ALGO_MAPPING_ISSUES = None, ALGO_MAPPING_ISSUES_string = [], ALGO_JUDGEMENT = [],
      SGG_LOINC = [], SGG_LONG_COMMON_NAME = [], SGG_OTHER = [], RULE_RELAXED_BY = [],
      TARGET_TERM = [], TARGET_TERM_string = []\<rparr>"

subsection \<open>The best-match selector (\<^verbatim>\<open>altLoincSuggesterGen6.js\<close>)\<close>

text \<open>A match collected by \<^verbatim>\<open>replaceAndFind\<close>: a copy of the candidate's table entry with the
  relaxation tags (present only when there are some) and, once \<^verbatim>\<open>selectBestMatch\<close> has
  scored it, the score.  Scores are real numbers here: \<^verbatim>\<open>Math.pow(n, 0.25)\<close> is the fourth
  root, and the rounding of floating-point arithmetic is not modelled.  The fields
  \<^verbatim>\<open>altLoincParts\<close> and \<^verbatim>\<open>RULE_NUM\<close>, which are written and never read, are left out.\<close>

record alt_loinc = loinc_info +
  relaxations :: "string list option"
  score :: "real option"

text \<open>\<^verbatim>\<open>row.inferred && row.inferred[part] && row.inferred[part].names\<close>.\<close>

definition inferredNames :: "data_row \<Rightarrow> part_type \<Rightarrow> string list option" where
  "inferredNames row part =
     (case inferred row of
        None \<Rightarrow> None
      | Some infd \<Rightarrow> (case map_of infd part of None \<Rightarrow> None | Some (names, tys) \<Rightarrow> Some names))"

definition partCounts :: "data_row \<Rightarrow> alt_loinc \<Rightarrow> part_type \<Rightarrow> bool" where
  "partCounts row m part =
     (let plain = ((rowPart row part = [] \<and> falsy (jsHead (parts m part))) \<or>
                   Some (rowPart row part) = jsHead (parts m part))
      in case inferredNames row part of
           None \<Rightarrow> plain
         | Some inferredParts \<Rightarrow>
             if inferredParts \<noteq> []
             then list_ex (\<lambda>name. Some name = jsHead (parts m part)) inferredParts
             else plain)"

definition countMatchedParts :: "data_row \<Rightarrow> alt_loinc \<Rightarrow> nat" where
  "countMatchedParts row m = length (filter (partCounts row m) PartTypeList)"

text \<open>The body of \<^verbatim>\<open>candidates.forEach(m => ...)\<close>, statement by statement.\<close>

definition scoreCandidate :: "data_row \<Rightarrow> alt_loinc \<Rightarrow> alt_loinc" where
  "scoreCandidate row m =
     (let s0 = 50;
          s1 = (case relaxations m of
                  None \<Rightarrow> s0
                | Some rs \<Rightarrow> s0 - 25 * root 4 (real (length rs)));
          s2 = (if STATUS m = ''DEPRECATED'' then s1 - 20 else s1);
          s3 = (if STATUS m = ''DISCOURAGED'' then s2 - 10 else s2);
          s4 = (if rowPart row SYSTEM = ''XXX'' \<and> inferredNames row SYSTEM = None
                then (if partsCompatible SYSTEM (jsHead (parts m SYSTEM)) (Some (SPECIMEN_SOURCE row)) row \<or>
                         partsCompatible SYSTEM (jsHead (parts m SYSTEM)) (getDefaultSpecimen row) row
                      then s3 + 35 else s3)
                else s3);
          count = countMatchedParts row m;
          s5 = (if cellTruthy (RAW_UNIT row) \<and> RAW_UNIT row = Str (EXAMPLE_UCUM_UNITS m)
                then s4 + 10 else s4);
          s6 = (if count = length PartTypeList then s5 + 50 else s5)
      in m\<lparr>score := Some s6\<rparr>)"

text \<open>The sort key of \<^verbatim>\<open>getSort([m => m.score, true])\<close>: higher score first.  Every
  candidate has a score when the list is sorted.\<close>

definition scoreKey :: "alt_loinc \<Rightarrow> real" where
  "scoreKey m = (case score m of None \<Rightarrow> 0 | Some s \<Rightarrow> - s)"

text \<open>The loop that removes the candidates whose LOINC number was seen before.\<close>

fun dedupLoinc :: "string list \<Rightarrow> alt_loinc list \<Rightarrow> alt_loinc list" where
  "dedupLoinc loincSeen [] = []"
| "dedupLoinc loincSeen (c # cs) =
     (if LOINC_NUM c \<in> set loincSeen then dedupLoinc loincSeen cs
      else c # dedupLoinc (loincSeen @ [LOINC_NUM c]) cs)"

text \<open>\<^verbatim>\<open>selectBestMatch\<close>: the pair of the best match and the other matches, both
  \<^verbatim>\<open>null\<close> when there is no match.  The sort is modelled as a stable sort.\<close>

definition selectBestMatch :: "data_row \<Rightarrow> alt_loinc list \<Rightarrow> alt_loinc option \<times> alt_loinc list option" where
  "selectBestMatch row allMatches =
     (case allMatches of
        [] \<Rightarrow> (None, None)
      | [m] \<Rightarrow> (Some m, Some [])
      | _ \<Rightarrow>
          (case sort_key scoreKey (map (scoreCandidate row) allMatches) of
             [] \<Rightarrow> (None, None)
           | c0 # cs \<Rightarrow> (Some c0, Some (dedupLoinc [LOINC_NUM c0] cs))))"

text \<open>The score as the specification words it: as \<^verbatim>\<open>scoreCandidate\<close> computes it, except
  that the ten points for the unit are given whenever the record's raw unit equals the
  candidate's example unit.\<close>

definition specScore :: "data_row \<Rightarrow> alt_loinc \<Rightarrow> real" where
  "specScore row m =
     50 - 25 * root 4 (real (case relaxations m of None \<Rightarrow> 0 | Some rs \<Rightarrow> length rs))
        - (if STATUS m = ''DEPRECATED'' then 20 else 0)
        - (if STATUS m = ''DISCOURAGED'' then 10 else 0)
        + (if rowPart row SYSTEM = ''XXX'' \<and> inferredNames row SYSTEM = None \<and>
              (partsCompatible SYSTEM (jsHead (parts m SYSTEM)) (Some (SPECIMEN_SOURCE row)) row \<or>
               partsCompatible SYSTEM (jsHead (parts m SYSTEM)) (getDefaultSpecimen row) row)
           then 35 else 0)
        + (if RAW_UNIT row = Str (EXAMPLE_UCUM_UNITS m) then 10 else 0)
        + (if countMatchedParts row m = 7 then 50 else 0)"

definition exMatch :: "string \<Rightarrow> string \<Rightarrow> string \<Rightarrow> string list \<Rightarrow> string list option \<Rightarrow> alt_loinc" where
  "exMatch num status unit sys rel =
     \<lparr>LOINC_NUM = num, LONG_COMMON_NAME = ''Glucose'', STATUS = status,
      EXAMPLE_UCUM_UNITS = unit,
      parts = (\<lambda>pt. case pt of CLASS \<Rightarrow> [''CHEM''] | COMPONENT \<Rightarrow> [''Glucose'']
                 | PROPERTY \<Rightarrow> [''MCnc''] | TIME \<Rightarrow> [''Pt''] | SYSTEM \<Rightarrow> sys
                 | SCALE \<Rightarrow> [''Qn''] | METHOD \<Rightarrow> []),
      relaxations = rel, score = None\<rparr>"

subsection \<open>Regular expressions of the sources\<close>

text \<open>The regular expressions of the sources that search for one of several literal
  alternatives, optionally between word boundaries: \<open>Regex lb as tb ci\<close> stands for
  \<^verbatim>\<open>/\b(a1|a2|...)\b/\<close>, with the leading \<^verbatim>\<open>\b\<close> present iff \<open>lb\<close>, the trailing one iff
  \<open>tb\<close>, and the flag \<^verbatim>\<open>i\<close> iff \<open>ci\<close>.  A search returns the text of the leftmost match; at
  one position the alternatives are tried in order.\<close>

datatype regex = Regex bool "string list" bool bool

definition isWordChar :: "char \<Rightarrow> bool" where
  "isWordChar c =
     (c \<in> set ''ABCDEFGHIJKLMNOPQRSTUVWXYZabcdefghijklmnopqrstuvwxyz0123456789_'')"

definition isWordOpt :: "char option \<Rightarrow> bool" where
  "isWordOpt c = (case c of None \<Rightarrow> False | Some x \<Rightarrow> isWordChar x)"

definition wordBoundary :: "char option \<Rightarrow> char option \<Rightarrow> bool" where
  "wordBoundary p n = (isWordOpt p \<noteq> isWordOpt n)"

definition headChar :: "string \<Rightarrow> char option" where
  "headChar s = (case s of [] \<Rightarrow> None | c # _ \<Rightarrow> Some c)"

definition lastChar :: "char option \<Rightarrow> string \<Rightarrow> char option" where
  "lastChar prev s = (case rev s of [] \<Rightarrow> prev | c # _ \<Rightarrow> Some c)"

definition matchAltHere :: "bool \<Rightarrow> bool \<Rightarrow> bool \<Rightarrow> char option \<Rightarrow> string \<Rightarrow> string \<Rightarrow> bool" where
  "matchAltHere lb tb ci prev text a =
     ((if ci then startsWith (toLowerCase text) (toLowerCase a) else startsWith text a) \<and>
      (if lb then wordBoundary prev (headChar text) else True) \<and>
      (if tb then wordBoundary (lastChar prev (take (length a) text)) (headChar (drop (length a) text))
       else True))"

fun regexFindFrom :: "regex \<Rightarrow> char option \<Rightarrow> string \<Rightarrow> (string \<times> string \<times> string) option" where
  "regexFindFrom (Regex lb as tb ci) prev [] =
     (case find (matchAltHere lb tb ci prev []) as of
        Some a \<Rightarrow> Some ([], [], [])
      | None \<Rightarrow> None)"
| "regexFindFrom (Regex lb as tb ci) prev (c # cs) =
     (case find (matchAltHere lb tb ci prev (c # cs)) as of
        Some a \<Rightarrow> Some ([], take (length a) (c # cs), drop (length a) (c # cs))
      | None \<Rightarrow>
          (case regexFindFrom (Regex lb as tb ci) (Some c) cs of
             None \<Rightarrow> None
           | Some (before, matched, after) \<Rightarrow> Some (c # before, matched, after)))"

text \<open>\<^verbatim>\<open>regex.test(s)\<close>, the matched text of \<^verbatim>\<open>s.match(regex)\<close>, and
  \<^verbatim>\<open>s.replace(regex, r)\<close>, which replaces the leftmost match.\<close>

definition regexTest :: "regex \<Rightarrow> string \<Rightarrow> bool" where
  "regexTest r s = (regexFindFrom r None s \<noteq> None)"

definition regexMatch :: "regex \<Rightarrow> string \<Rightarrow> string option" where
  "regexMatch r s = (case regexFindFrom r None s of None \<Rightarrow> None | Some (b, m, a) \<Rightarrow> Some m)"

definition regexReplace :: "regex \<Rightarrow> string \<Rightarrow> string \<Rightarrow> string" where
  "regexReplace r rep s =
     (case regexFindFrom r None s of None \<Rightarrow> s | Some (b, m, a) \<Rightarrow> b @ rep @ a)"

text \<open>\<^verbatim>\<open>s.replace(p, r)\<close> for a string \<open>p\<close>: the first occurrence is replaced.\<close>

fun replaceFirst :: "string \<Rightarrow> string \<Rightarrow> string \<Rightarrow> string" where
  "replaceFirst p r [] = (if p = [] then r else [])"
| "replaceFirst p r (c # cs) =
     (if startsWith (c # cs) p then r @ drop (length p) (c # cs)
      else c # replaceFirst p r cs)"

fun jsJoin :: "string \<Rightarrow> string list \<Rightarrow> string" where
  "jsJoin sep [] = []"
| "jsJoin sep [x] = x"
| "jsJoin sep (x # y # ys) = x @ sep @ jsJoin sep (y # ys)"

subsection \<open>Component modifiers (\<^verbatim>\<open>labNameParser.js\<close>)\<close>

text \<open>An entry of \<^verbatim>\<open>componentModifiers\<close> as written in the table, and as completed by the
  \<^verbatim>\<open>map\<close> that follows the table: the class list defaults to CHEM and DRUG/TOX except for
  the token \<^verbatim>\<open>panel\<close>; the name pattern defaults to the token between word boundaries, a
  token with a space also being found with a hyphen for its first space or without it; the
  modifier is the connector followed by the token.  A name pattern is a list of regular
  expressions of which one has to match.\<close>

record modifier_config =
  token :: string
  connector :: string
  mclass :: "string list option"
  nameRegex :: "regex list option"

record modifier_entry = modifier_config +
  modifier :: string

definition componentModifiersConfig :: "modifier_config list" where
  "componentModifiersConfig =
     [\<lparr>token = ''bioavailable'', connector = ''.'', mclass = None, nameRegex = None\<rparr>,
      \<lparr>token = ''bound'', connector = ''.'', mclass = None, nameRegex = None\<rparr>,
      \<lparr>token = ''free'', connector = ''.'', mclass = None,
         nameRegex = Some [Regex True [''fr''] False True, Regex False [''free''] True True]\<rparr>,
      \<lparr>token = ''total'', connector = ''.'', mclass = None, nameRegex = None\<rparr>,
      \<lparr>token = ''nucleated'', connector = ''.'',
         mclass = Some [''CHEM'', ''DRUG/TOX'', ''HEM/BC''], nameRegex = None\<rparr>,
      \<lparr>token = ''panel'', connector = '' '', mclass = None, nameRegex = None\<rparr>,
      \<lparr>token = ''trough'', connector = ''^'', mclass = None, nameRegex = None\<rparr>,
      \<lparr>token = ''peak'', connector = ''^'', mclass = None, nameRegex = None\<rparr>,
      \<lparr>token = ''post dialysis'', connector = ''^'', mclass = None, nameRegex = None\<rparr>,
      \<lparr>token = ''pre dialysis'', connector = ''^'', mclass = None, nameRegex = None\<rparr>,
      \<lparr>token = ''standard'', connector = ''^^'', mclass = None, nameRegex = None\<rparr>]"

definition completeModifier :: "modifier_config \<Rightarrow> modifier_entry" where
  "completeModifier entry =
     (let m = token entry;
          cls = (if mclass entry = None \<and> m \<noteq> ''panel'' then Some [''CHEM'', ''DRUG/TOX'']
                 else mclass entry);
          rx = (case nameRegex entry of
                  Some r \<Rightarrow> r
                | None \<Rightarrow>
                    (if (case indexOf m '' '' of None \<Rightarrow> False | Some i \<Rightarrow> 0 < i)
                     then [Regex True [m, replaceFirst '' '' ''-'' m, replaceFirst '' '' [] m] True True]
                     else [Regex True [m] True True]))
      in \<lparr>token = m, connector = connector entry, mclass = cls, nameRegex = Some rx,
          modifier = connector entry @ m\<rparr>)"

definition componentModifiers :: "modifier_entry list" where
  "componentModifiers = map completeModifier componentModifiersConfig"

definition isInName :: "modifier_entry \<Rightarrow> string \<Rightarrow> bool" where
  "isInName m name =
     (case nameRegex m of None \<Rightarrow> False | Some rs \<Rightarrow> list_ex (\<lambda>r. regexTest r name) rs)"

definition isInComponent :: "modifier_entry \<Rightarrow> string \<Rightarrow> bool" where
  "isInComponent m component = includesStr component (modifier m)"

text \<open>The result of the adjustment: \<^verbatim>\<open>{status, modifier, component}\<close>, the last two being
  optional.\<close>

record adjust_status =
  adj_status :: string
  adj_modifier :: "string option"
  adj_component :: "string option"

fun adjustByModifiers :: "modifier_entry list \<Rightarrow> data_row \<Rightarrow> adjust_status" where
  "adjustByModifiers [] row = \<lparr>adj_status = ''none'', adj_modifier = None, adj_component = None\<rparr>"
| "adjustByModifiers (m # ms) row =
     (let rawName = RAW_LAB_NAME row; mappedComponent = rowPart row COMPONENT in
      if (case mclass m of None \<Rightarrow> False | Some cls \<Rightarrow> rowPart row CLASS \<notin> set cls)
      then adjustByModifiers ms row
      else if isInName m rawName \<and> \<not> isInComponent m mappedComponent
      then \<lparr>adj_status = ''name'', adj_modifier = Some (modifier m),
             adj_component = Some (mappedComponent @ modifier m)\<rparr>
      else if \<not> isInName m rawName \<and> isInComponent m mappedComponent
      then \<lparr>adj_status = ''component'', adj_modifier = Some (modifier m),
             adj_component = Some (take (length mappedComponent - length (modifier m)) mappedComponent)\<rparr>
      else if isInName m rawName \<and> isInComponent m mappedComponent
      then \<lparr>adj_status = ''both'', adj_modifier = Some (modifier m), adj_component = None\<rparr>
      else adjustByModifiers ms row)"

definition getAdjustedComponentByModifierPredefinedRules :: "data_row \<Rightarrow> adjust_status" where
  "getAdjustedComponentByModifierPredefinedRules row =
     (if RAW_LAB_NAME row = [] \<or> rowPart row COMPONENT = []
      then \<lparr>adj_status = ''blank'', adj_modifier = None, adj_component = None\<rparr>
      else adjustByModifiers componentModifiers row)"

text \<open>\<^verbatim>\<open>extractIgX\<close>: the leftmost of IgA, IgE, IgG, IgG1 to IgG4 and IgM between word
  boundaries, in any letter case, returned in its standard spelling.\<close>

definition extractIgX :: "string \<Rightarrow> string option" where
  "extractIgX name =
     (if name = [] then None
      else (case regexMatch (Regex True [''IgA'', ''IgE'', ''IgG1'', ''IgG2'', ''IgG3'', ''IgG4'',
                                          ''IgG'', ''IgM''] True True) name of
              None \<Rightarrow> None
            | Some m \<Rightarrow> Some (toUpperCase (take 1 m) @ toLowerCase (take 1 (drop 1 m)) @
                             toUpperCase (take 1 (drop 2 m)) @ drop 3 m)))"

definition getAdjustedComponentByModifierIgX :: "data_row \<Rightarrow> adjust_status" where
  "getAdjustedComponentByModifierIgX row =
     (case extractIgX (RAW_LAB_NAME row) of
        None \<Rightarrow> \<lparr>adj_status = ''none'', adj_modifier = None, adj_component = None\<rparr>
      | Some igxInName \<Rightarrow>
          (case extractIgX (rowPart row COMPONENT) of
             None \<Rightarrow> \<lparr>adj_status = ''none'', adj_modifier = None, adj_component = None\<rparr>
           | Some igxInComp \<Rightarrow>
               if igxInName \<noteq> igxInComp
               then \<lparr>adj_status = ''fixed'', adj_modifier = Some ''IgX'',
                      adj_component = Some (replaceFirst igxInComp igxInName (rowPart row COMPONENT))\<rparr>
               else \<lparr>adj_status = ''none'', adj_modifier = None, adj_component = None\<rparr>))"

definition getAdjustedComponentByModifier :: "data_row \<Rightarrow> adjust_status" where
  "getAdjustedComponentByModifier row =
     (let result = getAdjustedComponentByModifierPredefinedRules row in
      if \<not> falsy (adj_component result) \<or> adj_status result = ''blank'' then result
      else getAdjustedComponentByModifierIgX row)"

subsection \<open>The extraction framework (\<^verbatim>\<open>labNameParser.js\<close>)\<close>

text \<open>A configuration entry as written in the tables: a pattern (one string or a list of
  strings), an optional part name, class list, \<^verbatim>\<open>unless\<close> expression and selector, and
  whether it brings its own \<^verbatim>\<open>extract\<close> function.  The only own function of the tables is
  that of the hours pattern \<^verbatim>\<open>/\/\s*([0-9]+)\s*(h|hr|hrs|hour|hours)\s*$/i\<close>.\<close>

datatype pattern = PString string | PList "string list"

record extractor_config =
  cfg_pattern :: "pattern option"
  cfg_regex :: "regex option"
  cfg_partName :: "string option"
  cfg_mapToClass :: "string list option"
  cfg_unless :: "regex option"
  cfg_selector :: "string option"
  cfg_hours :: bool

record extractor =
  x_type :: part_type
  x_regex :: regex
  x_partName :: string
  x_mapToClassIncl :: "string list option"
  x_mapToClassExcl :: "string list option"
  x_unless :: "regex option"
  x_selector :: "string option"
  x_hours :: bool

text \<open>\<^verbatim>\<open>defaultLoincPartExtractionConfigMapper\<close>; the two \<^verbatim>\<open>throw\<close> statements give
  \<open>InvalidInput\<close>.  The patterns of the tables consist of letters and spaces, so that joining
  them with \<^verbatim>\<open>|\<close> gives a plain alternative.\<close>

definition defaultLoincPartExtractionConfigMapper :: "part_type \<Rightarrow> extractor_config \<Rightarrow> js_error + extractor" where
  "defaultLoincPartExtractionConfigMapper partType rawRuleConfig =
     (if cfg_regex rawRuleConfig = None \<and> cfg_pattern rawRuleConfig = None then Inl InvalidInput
      else case (case cfg_partName rawRuleConfig of
                   Some n \<Rightarrow> Some n
                 | None \<Rightarrow> (case cfg_pattern rawRuleConfig of
                               Some (PString p) \<Rightarrow> Some p
                             | _ \<Rightarrow> None)) of
             None \<Rightarrow> Inl InvalidInput
           | Some partName \<Rightarrow>
               Inr \<lparr>x_type = partType,
                    x_regex = (case cfg_regex rawRuleConfig of
                                 Some r \<Rightarrow> r
                               | None \<Rightarrow> Regex True
                                   (case cfg_pattern rawRuleConfig of
                                      Some (PString p) \<Rightarrow> [p]
                                    | Some (PList ps) \<Rightarrow> ps
                                    | None \<Rightarrow> []) True True),
                    x_partName = partName,
                    x_mapToClassIncl =
                      (case cfg_mapToClass rawRuleConfig of
                         None \<Rightarrow> None
                       | Some cs \<Rightarrow> if startsWith (jsString (jsHead cs)) ''!'' then None else Some cs),
                    x_mapToClassExcl =
                      (case cfg_mapToClass rawRuleConfig of
                         None \<Rightarrow> None
                       | Some cs \<Rightarrow> if startsWith (jsString (jsHead cs)) ''!''
                                    then Some (map (\<lambda>x. trim (drop 1 x)) cs) else None),
                    x_unless = cfg_unless rawRuleConfig,
                    x_selector = cfg_selector rawRuleConfig,
                    x_hours = cfg_hours rawRuleConfig\<rparr>)"

definition plainConfig :: "pattern \<Rightarrow> string option \<Rightarrow> string list option \<Rightarrow> regex option \<Rightarrow> extractor_config" where
  "plainConfig p n cls u =
     \<lparr>cfg_pattern = Some p, cfg_regex = None, cfg_partName = n, cfg_mapToClass = cls,
      cfg_unless = u, cfg_selector = None, cfg_hours = False\<rparr>"

definition specimenExtractorsConfig :: "extractor_config list" where
  "specimenExtractorsConfig =
     [plainConfig (PList [''CSF'', ''CEREBROSPINAL FLUID'']) (Some ''CSF'') None None,
      plainConfig (PList [''Urine'', ''UA'', ''Ur'', ''urn'']) (Some ''Urine'') (Some [''!ALLERGY'']) None,
      plainConfig (PList [''saliva'', ''oral fld'', ''oral fluid'']) (Some ''Saliva'') None None,
      plainConfig (PList [''plasma'', ''plas'']) (Some ''Ser/Plas'') (Some [''!CELLMARK'', ''!HEM/BC'']) None,
      plainConfig (PList [''red blood cell'', ''red blood cells'', ''RBC'', ''RBCs'']) (Some ''RBC'')
        (Some [''CHEM'', ''DRUG/TOX'']) None,
      plainConfig (PList [''white blood cell'', ''white blood cells'', ''WBC'']) (Some ''WBC'')
        (Some [''NEVER'']) None,
      plainConfig (PList [''leukocyte'', ''leukocytes'', ''leucocyte'', ''leucocytes'']) (Some ''WBC'')
        (Some [''CHEM'']) None,
      plainConfig (PList [''platelet'', ''platelets'']) (Some ''Platelets'') (Some [''NEVER''])
        (Some (Regex True [''poor plasma'', ''rich plasma''] True True)),
      plainConfig (PString ''Bld'') None None None,
      plainConfig (PString ''whole blood'') (Some ''Bld'') None None,
      plainConfig (PList [''Stool'', ''feces'', ''fecal'']) (Some ''Stool'') None None,
      plainConfig (PString ''serum'') (Some ''Ser/Plas'') None None,
      plainConfig (PString ''tissue'') (Some ''Tiss'') None None,
      plainConfig (PString ''pleural fluid'') (Some ''Plr fld'') None None,
      plainConfig (PString ''pericardial fluid'') (Some ''Pericard fld'') None None,
      plainConfig (PString ''peritoneal fluid'') (Some ''Periton fld'') None None,
      plainConfig (PString ''dialysis fluid'') (Some ''Dial fld'') None None,
      plainConfig (PList [''Body fluid'', ''Body fld'']) (Some ''Body fld'') (Some [''!UA'']) None,
      plainConfig (PList [''Amniotic Fluid'', ''Amnio fld'']) (Some ''Amnio fld'') None None,
      plainConfig (PList [''fluid'']) (Some ''Body fld'') (Some [''!UA''])
        (Some (Regex True [''influenz''] False True)),
      plainConfig (PList [''fld'']) (Some ''Body fld'') (Some [''!UA''])
        (Some (Regex True [''flu'', ''influenz''] False True)),
      plainConfig (PString ''adrenal vein'') (Some ''Adrenal vein'') None None,
      plainConfig (PString ''renal vein'') (Some ''Renal vein'') None None,
      plainConfig (PList [''DBS'', ''Dried blood spot'']) (Some ''Bld.dot'') None None,
      plainConfig (PString ''Hair'') (Some ''Hair'') None
        (Some (Regex True [''animal'', ''horse'', ''cow''] True True)),
      plainConfig (PString ''breath'') (Some ''Exhl gas'') None None,
      plainConfig (PList [''inferior vena cava'', ''IVC'']) (Some ''Vena cava.inferior'') None None,
      plainConfig (PList [''Right adrenal vein'', ''R adrenal Vein'']) (Some ''Adrenal vein.right'') None None,
      plainConfig (PList [''Left adrenal vein'', ''L adrenal Vein'']) (Some ''Adrenal vein.left'') None None,
      plainConfig (PList [''blood capillary'', ''capillary blood'']) (Some ''BldC'') None None,
      plainConfig (PString ''Semen'') (Some ''Semen'') None None,
      plainConfig (PString ''POC'') (Some ''Bld'') (Some [''NEVER'']) None]"

definition specimenExtractors :: "js_error + extractor list" where
  "specimenExtractors = mapE (defaultLoincPartExtractionConfigMapper SYSTEM) specimenExtractorsConfig"

text \<open>The third entry of \<^verbatim>\<open>timeExtractors\<close> has a regular expression that is not a list of
  literal alternatives; its own \<^verbatim>\<open>extract\<close> function is \<open>extractHours\<close> below, and the
  expression recorded for it here is not used.\<close>

definition timeExtractorsConfig :: "extractor_config list" where
  "timeExtractorsConfig =
     [(plainConfig (PString ''random'') (Some ''Pt'') None None)\<lparr>cfg_selector := Some ''RAW_LAB_NAME''\<rparr>,
      (plainConfig (PString ''spot'') (Some ''Pt'') (Some [''NEVER'']) None)\<lparr>cfg_selector := Some ''RAW_LAB_NAME''\<rparr>,
      \<lparr>cfg_pattern = None, cfg_regex = Some (Regex False [] False True), cfg_partName = Some ''N/A'',
         cfg_mapToClass = None, cfg_unless = None, cfg_selector = Some ''RAW_UNIT'', cfg_hours = True\<rparr>]"

definition timeExtractors :: "js_error + extractor list" where
  "timeExtractors = mapE (defaultLoincPartExtractionConfigMapper TIME) timeExtractorsConfig"

text \<open>The match of \<^verbatim>\<open>/\/\s*([0-9]+)\s*(h|hr|hrs|hour|hours)\s*$/i\<close>: after a slash come
  optional white space, digits, optional white space, one of the hour words and optional
  white space up to the end; the leftmost slash that is followed in this way counts, and the
  digits are returned.\<close>

definition isDigit :: "char \<Rightarrow> bool" where
  "isDigit c = (c \<in> set ''0123456789'')"

definition hoursAfterSlash :: "string \<Rightarrow> string option" where
  "hoursAfterSlash s =
     (let s1 = dropWhile isSpace s;
          digits = takeWhile isDigit s1;
          s2 = dropWhile isSpace (dropWhile isDigit s1);
          word = toLowerCase (rev (dropWhile isSpace (rev s2)))
      in if digits \<noteq> [] \<and> word \<in> set [''h'', ''hr'', ''hrs'', ''hour'', ''hours'']
         then Some digits else None)"

fun hoursMatch :: "string \<Rightarrow> string option" where
  "hoursMatch [] = None"
| "hoursMatch (c # cs) =
     (if c = CHR ''/'' then (case hoursAfterSlash cs of Some d \<Rightarrow> Some d | None \<Rightarrow> hoursMatch cs)
      else hoursMatch cs)"

definition extractHours :: "string \<Rightarrow> string option" where
  "extractHours unit = (case hoursMatch unit of None \<Rightarrow> None | Some d \<Rightarrow> Some (d @ ''H''))"

text \<open>\<^verbatim>\<open>toFilterOut\<close> (the flag \<^verbatim>\<open>applyRestrictions\<close> is constantly true) and the default
  \<^verbatim>\<open>extract\<close> function (\<open>extractWith\<close>, which also dispatches to the entry's own
  function).  The class of the row is \<open>None\<close> when the caller passes no row.\<close>

definition toFilterOut :: "extractor \<Rightarrow> string \<Rightarrow> string option \<Rightarrow> bool" where
  "toFilterOut rule text rowClass =
     ((case x_mapToClassIncl rule of
         None \<Rightarrow> False
       | Some incl \<Rightarrow> (case rowClass of None \<Rightarrow> True | Some c \<Rightarrow> c \<notin> set incl)) \<or>
      (case x_mapToClassExcl rule of
         None \<Rightarrow> False
       | Some excl \<Rightarrow> (case rowClass of None \<Rightarrow> False | Some c \<Rightarrow> c \<in> set excl)) \<or>
      (case x_unless rule of None \<Rightarrow> False | Some u \<Rightarrow> regexTest u text))"

definition extractWith :: "extractor \<Rightarrow> string \<Rightarrow> string option \<Rightarrow> string option" where
  "extractWith rule text rowClass =
     (if x_hours rule then extractHours text
      else if text \<noteq> [] \<and> regexTest (x_regex rule) text \<and> \<not> toFilterOut rule text rowClass
      then Some (x_partName rule) else None)"

text \<open>\<^verbatim>\<open>runExtractors\<close>; of each result only the extracted value is kept, the only field
  the callers read.\<close>

definition runExtractors :: "string \<Rightarrow> extractor list \<Rightarrow> string option \<Rightarrow> string option \<Rightarrow> string list" where
  "runExtractors sourceValue extractors rowClass selector =
     (if sourceValue = [] then []
      else concat (map (\<lambda>x.
             if selector = None \<or> selector = x_selector x
             then (case extractWith x sourceValue rowClass of
                     None \<Rightarrow> []
                   | Some extractedName \<Rightarrow> if extractedName \<noteq> [] then [extractedName] else [])
             else []) extractors))"

definition extractSpecimen :: "data_row \<Rightarrow> js_error + string list" where
  "extractSpecimen row =
     (case specimenExtractors of
        Inl e \<Rightarrow> Inl e
      | Inr xs \<Rightarrow>
          if RAW_LAB_NAME row = [] then Inr []
          else Inr (runExtractors (RAW_LAB_NAME row) xs (Some (rowPart row CLASS)) None))"

definition extractTime :: "string \<Rightarrow> string \<Rightarrow> js_error + string list" where
  "extractTime sourceValue selector =
     (case timeExtractors of
        Inl e \<Rightarrow> Inl e
      | Inr xs \<Rightarrow> Inr (runExtractors sourceValue xs None (Some selector)))"

subsection \<open>The environment\<close>

text \<open>What is loaded once before the records are processed: the rows of the LOINC table, and
  the collaborators that depend on the mapping sheets and on the UCUM validator, taken as
  parameters: \<open>getUnitProperties\<close> maps a unit to its properties, \<open>mapToUcum unit loinc isCI\<close>
  and \<open>mapWith mapper unit isCI loinc\<close> give the \<^verbatim>\<open>ucum\<close> field of the result of the unit
  mapper manager, and \<open>getMapperNames\<close> lists its mappers.\<close>

record env =
  loincTable :: "loinc_row list"
  getUnitProperties :: "string \<Rightarrow> string list"
  getMapperNames :: "string list"
  mapWith :: "string \<Rightarrow> string \<Rightarrow> bool \<Rightarrow> string \<Rightarrow> string option"
  mapToUcum :: "string \<Rightarrow> string \<Rightarrow> bool \<Rightarrow> string option"

text \<open>The two functions of the table utility that read the part index.  The index is built
  once, when the utility is created; when that throws the tool does not start, which shows
  here as the same exception at each use.\<close>

definition hasLoincWithPart :: "env \<Rightarrow> part_type \<Rightarrow> string \<Rightarrow> js_error + bool" where
  "hasLoincWithPart e partType partName =
     bindE (buildLoincPartsIndex (loincToParts (loincTable e)))
       (\<lambda>idx. Inr (hasLoincWithPartInternal idx partType partName))"

definition getLoincForParts :: "env \<Rightarrow> (part_type \<times> string list) list \<Rightarrow> js_error + js_set" where
  "getLoincForParts e partTypeNames =
     bindE (buildLoincPartsIndex (loincToParts (loincTable e)))
       (\<lambda>idx. getLoincForPartsInternal idx partTypeNames)"

text \<open>\<^verbatim>\<open>partLowerToName\<close> and \<^verbatim>\<open>getStdPartName\<close> of \<^verbatim>\<open>getLoincTableUtil\<close>, read as own
  properties (the names looked up are the tokens of a specimen source, see
  \<open>normalizeSPECIMEN_SOURCE\<close>).\<close>

definition partLowerToName :: "env \<Rightarrow> part_type \<Rightarrow> (string \<times> string) list" where
  "partLowerToName e pt =
     fold (\<lambda>r m. if csv_part r pt \<noteq> [] then AList.update (toLowerCase (csv_part r pt)) (csv_part r pt) m
                   else m) (loincTable e) []"

definition getStdPartName :: "env \<Rightarrow> string \<Rightarrow> part_type \<Rightarrow> string" where
  "getStdPartName e name pt =
     (if name = [] then []
      else if toLowerCase (trim name) = [] then []
      else (case map_of (partLowerToName e pt) (toLowerCase (trim name)) of
              None \<Rightarrow> [] | Some n \<Rightarrow> n))"

text \<open>\<^verbatim>\<open>getFuncForPctUnitPropertiesByClass\<close>: the properties of the unit \<^verbatim>\<open>%\<close> found in
  the table, by class; the statement that removes ACnc from the class COAG throws when the
  table has no such class.\<close>

definition pctPropsByClass :: "env \<Rightarrow> js_error + (string \<times> string list) list" where
  "pctPropsByClass e =
     (let pctProps = getUnitProperties e ''%'';
          propsByClass =
            fold (\<lambda>r m. if csv_part r PROPERTY \<in> set pctProps
                          then AList.update (csv_part r CLASS)
                                 (setAdd (csv_part r PROPERTY)
                                    (case map_of m (csv_part r CLASS) of None \<Rightarrow> [] | Some ps \<Rightarrow> ps)) m
                          else m) (loincTable e) []
      in case map_of propsByClass ''COAG'' of
           None \<Rightarrow> Inl TypeError
         | Some ps \<Rightarrow> Inr (AList.update ''COAG'' (filter (\<lambda>p. p \<noteq> ''ACnc'') ps) propsByClass))"

definition getPctUnitPropertiesByClass :: "env \<Rightarrow> string \<Rightarrow> js_error + string list" where
  "getPctUnitPropertiesByClass e lnClass =
     (case pctPropsByClass e of
        Inl err \<Rightarrow> Inl err
      | Inr m \<Rightarrow> Inr (case map_of m lnClass of None \<Rightarrow> [] | Some ps \<Rightarrow> ps))"

subsection \<open>Inference and validation (\<^verbatim>\<open>pcornetValidationMgr.js\<close>)\<close>

definition partTypeName :: "part_type \<Rightarrow> string" where
  "partTypeName pt =
     (case pt of CLASS \<Rightarrow> ''CLASS'' | COMPONENT \<Rightarrow> ''COMPONENT'' | PROPERTY \<Rightarrow> ''PROPERTY''
      | TIME \<Rightarrow> ''TIME'' | SYSTEM \<Rightarrow> ''SYSTEM'' | SCALE \<Rightarrow> ''SCALE'' | METHOD \<Rightarrow> ''METHOD'')"

text \<open>\<^verbatim>\<open>addAlgoMappingIssue\<close>, that is \<^verbatim>\<open>addRowUpdates\<close> on \<^verbatim>\<open>ALGO_MAPPING_ISSUES\<close> with
  unique values.\<close>

definition addAlgoMappingIssue :: "data_row \<Rightarrow> string \<Rightarrow> data_row" where
  "addAlgoMappingIssue row issue =
     row\<lparr>ALGO_MAPPING_ISSUES :=
           Some (setAdd issue (case ALGO_MAPPING_ISSUES row of None \<Rightarrow> [] | Some xs \<Rightarrow> xs))\<rparr>"

text \<open>\<^verbatim>\<open>addAlgoIssueAndJudgementIfPartsDisagree\<close>: the returned flag and the row after the
  call.  The confidence argument is not used by the source.\<close>

definition addAlgoIssueAndJudgementIfPartsDisagree ::
    "data_row \<Rightarrow> part_type \<Rightarrow> string list \<Rightarrow> bool \<Rightarrow> bool \<times> data_row" where
  "addAlgoIssueAndJudgementIfPartsDisagree row partType inferredPartNames absenceOK =
     (if inferredPartNames = [] \<or> (absenceOK \<and> rowPart row partType = []) then (False, row)
      else
        (let inferredWithSynonyms = addPartSynonyms partType inferredPartNames in
         if rowPart row partType = [] \<or>
            \<not> list_ex (\<lambda>partName. partsCompatible partType (Some partName)
                                   (Some (rowPart row partType)) row) inferredWithSynonyms
         then (True, (addAlgoMappingIssue row (partTypeName partType))\<lparr>ALGO_JUDGEMENT := ''INCORRECT_aj''\<rparr>)
         else (False, row)))"

text \<open>\<^verbatim>\<open>addInferredLoincParts\<close>; the part type is always one of the list, and an empty list
  of names makes it throw.\<close>

definition addInferredLoincParts :: "data_row \<Rightarrow> part_type \<Rightarrow> string list \<Rightarrow> string \<Rightarrow> js_error + data_row" where
  "addInferredLoincParts row loincPart newPartNames inferType =
     (if newPartNames = [] then Inl InvalidInput
      else
        (let infd = (case inferred row of None \<Rightarrow> [] | Some i \<Rightarrow> i);
             entry = (case map_of infd loincPart of None \<Rightarrow> ([], []) | Some en \<Rightarrow> en);
             entry' = fold (\<lambda>partName (names, tys).
                              if partName \<in> set names then (names, tys)
                              else (names @ [partName], tys @ [inferType])) newPartNames entry
         in Inr (row\<lparr>inferred := Some (AList.update loincPart entry' infd)\<rparr>)))"

text \<open>Adding inferred names and then flagging a disagreement, as most checks do.\<close>

definition inferAndFlag :: "data_row \<Rightarrow> part_type \<Rightarrow> string list \<Rightarrow> string \<Rightarrow> js_error + data_row" where
  "inferAndFlag row partType names inferType =
     bindE (addInferredLoincParts row partType names inferType)
       (\<lambda>r. Inr (snd (addAlgoIssueAndJudgementIfPartsDisagree r partType names True)))"

definition inferComponentByModifier :: "env \<Rightarrow> data_row \<Rightarrow> js_error + data_row" where
  "inferComponentByModifier e row =
     (let status = getAdjustedComponentByModifier row in
      case adj_component status of
        None \<Rightarrow> Inr row
      | Some component \<Rightarrow>
          if component \<noteq> [] then
            bindE (hasLoincWithPart e COMPONENT component)
              (\<lambda>found. if found then inferAndFlag row COMPONENT [component] ''inferred''
                        else Inr row)
          else Inr row)"

definition inferLoincSystem :: "data_row \<Rightarrow> js_error + data_row" where
  "inferLoincSystem row =
     (let sysUpper = toUpperCase (rowPart row SYSTEM) in
      bindE (extractSpecimen row)
        (\<lambda>parsed.
           let useBld = (parsed = [] \<and> sysUpper \<noteq> [] \<and> startsWith sysUpper ''BLD'' \<and>
                         sysUpper \<noteq> ''BLD'' \<and> rowPart row CLASS = ''HEM/BC'');
               inferType = (if useBld then ''inferred'' else ''parsed'');
               inferredSystem = (if useBld then [''Bld''] else parsed)
           in if inferredSystem \<noteq> [] then inferAndFlag row SYSTEM inferredSystem inferType
              else Inr row))"

text \<open>\<^verbatim>\<open>/^[0-9]+H$/\<close>.\<close>

definition isHoursName :: "string \<Rightarrow> bool" where
  "isHoursName s =
     (case rev s of
        [] \<Rightarrow> False
      | c # ds \<Rightarrow> c = CHR ''H'' \<and> ds \<noteq> [] \<and> list_all isDigit ds)"

text \<open>\<^verbatim>\<open>inferLoincTime\<close>.  \<^verbatim>\<open>runExtractors\<close> returns at once for a falsy source value and
  turns any other into a string.\<close>

definition inferLoincTime :: "data_row \<Rightarrow> js_error + data_row" where
  "inferLoincTime row =
     (let mappedToProp = rowPart row PROPERTY in
      bindE (extractTime (if cellTruthy (RAW_UNIT row) then cellText (RAW_UNIT row) else [])
               ''RAW_UNIT'')
        (\<lambda>fromUnit.
           bindE (if fromUnit \<noteq> [] then Inr fromUnit
                  else extractTime (RAW_LAB_NAME row) ''RAW_LAB_NAME'')
             (\<lambda>inferredTime.
                let inferredProperty =
                      (if fromUnit \<noteq> [] then
                         (if isHoursName (jsString (jsHead inferredTime)) \<and> endsWith mappedToProp ''Cnc''
                          then Some [sliceEnd mappedToProp 3 @ ''Rat''] else None)
                       else if inferredTime \<noteq> [] then
                         (if jsHead inferredTime = Some ''Pt'' \<and> endsWith mappedToProp ''Rat''
                          then Some [sliceEnd mappedToProp 3 @ ''Cnc''] else None)
                       else None)
                in bindE (if inferredTime \<noteq> [] then inferAndFlag row TIME inferredTime ''parsed''
                          else Inr row)
                     (\<lambda>r. case inferredProperty of
                             None \<Rightarrow> Inr r
                           | Some prop \<Rightarrow> inferAndFlag r PROPERTY prop ''inferred''))))"

text \<open>In \<^verbatim>\<open>inferScaleAndProperty\<close> the names are added only when the disagreement check
  flags an issue.  Its first statement calls \<^verbatim>\<open>row.RAW_UNIT.indexOf\<close>, which throws when the
  raw unit is not a string.\<close>

definition flagThenInfer :: "data_row \<Rightarrow> part_type \<Rightarrow> string list \<Rightarrow> js_error + data_row" where
  "flagThenInfer row partType names =
     (case addAlgoIssueAndJudgementIfPartsDisagree row partType names True of
        (flagged, r) \<Rightarrow> if flagged then addInferredLoincParts r partType names ''inferred'' else Inr r)"

definition inferScaleAndProperty :: "env \<Rightarrow> data_row \<Rightarrow> string list \<Rightarrow> string list \<Rightarrow> js_error + data_row" where
  "inferScaleAndProperty e row altUnits unitProperties0 =
     bindE (case RAW_UNIT row of
              Str rawUnit \<Rightarrow>
                if includesStr rawUnit ''%'' then getPctUnitPropertiesByClass e (rowPart row CLASS)
                else Inr unitProperties0
            | Num t \<Rightarrow> Inl TypeError
            | Boo b \<Rightarrow> Inl TypeError)
       (\<lambda>unitProperties.
          let isInterpretation = includesStr (toUpperCase (RAW_LAB_NAME row)) ''INTERPRETATION'';
              scale = (if isInterpretation then Some [''Nom'', ''Nar'', ''Ord'', ''Doc'']
                       else if cellTruthy (RAW_UNIT row) then Some [''Qn''] else None);
              property = (if isInterpretation then Some [''Imp'']
                          else if unitProperties \<noteq> [] then Some unitProperties else None)
          in bindE (case scale of None \<Rightarrow> Inr row | Some sc \<Rightarrow> flagThenInfer row SCALE sc)
               (\<lambda>r. case property of None \<Rightarrow> Inr r | Some pr \<Rightarrow> flagThenInfer r PROPERTY pr))"

text \<open>\<^verbatim>\<open>extractHpfLpf\<close>; \<open>stripBracket\<close> is \<^verbatim>\<open>replace(/\s*]\s*$/, '')\<close>.\<close>

definition stripBracket :: "string \<Rightarrow> string" where
  "stripBracket s =
     (case dropWhile isSpace (rev s) of
        [] \<Rightarrow> s
      | c # cs \<Rightarrow> if c = CHR '']'' then rev (dropWhile isSpace cs) else s)"

definition extractHpfLpf :: "string \<Rightarrow> string option" where
  "extractHpfLpf unitOrMethod =
     (if unitOrMethod = [] then None
      else (let u = stripBracket (toUpperCase unitOrMethod) in
            if endsWith u ''HPF'' then Some ''HPF''
            else if endsWith u ''LPF'' then Some ''LPF'' else None))"

text \<open>\<^verbatim>\<open>extractHpfLpf\<close> applied to the raw unit: a falsy value gives \<^verbatim>\<open>null\<close>, and
  \<^verbatim>\<open>toUpperCase\<close> throws for any other value that is not a string.\<close>

definition extractHpfLpfCell :: "cell \<Rightarrow> js_error + string option" where
  "extractHpfLpfCell c =
     (case c of
        Str s \<Rightarrow> Inr (extractHpfLpf s)
      | Num t \<Rightarrow> if cellTruthy c then Inl TypeError else Inr None
      | Boo b \<Rightarrow> if cellTruthy c then Inl TypeError else Inr None)"

definition firstXpf :: "string list \<Rightarrow> string option" where
  "firstXpf altUnits =
     fold (\<lambda>unit acc. if \<not> falsy acc then acc else extractHpfLpf unit) altUnits None"

definition inferWithHfpLpf :: "data_row \<Rightarrow> string list \<Rightarrow> js_error + data_row" where
  "inferWithHfpLpf row altUnits =
     (case firstXpf altUnits of
        None \<Rightarrow> Inr row
      | Some rawXpf \<Rightarrow>
          (let methodXpf = extractHpfLpf (rowPart row METHOD);
               mappedXpf = (case methodXpf of Some x \<Rightarrow> Some x | None \<Rightarrow> extractHpfLpf (example_ucum row))
           in case mappedXpf of
                None \<Rightarrow> Inr row
              | Some mx \<Rightarrow>
                  if mx \<noteq> rawXpf then
                    (let r = (addAlgoMappingIssue row (mx @ ''-'' @ rawXpf))\<lparr>ALGO_JUDGEMENT := ''INCORRECT_aj''\<rparr>
                     in case methodXpf of
                          None \<Rightarrow> Inr r
                        | Some _ \<Rightarrow> addInferredLoincParts r METHOD
                                     [replaceFirst mx rawXpf (rowPart row METHOD)] ''inferred'')
                  else Inr row))"

definition inferLoincPartsUAxPF :: "data_row \<Rightarrow> js_error + data_row" where
  "inferLoincPartsUAxPF row =
     bindE (extractHpfLpfCell (RAW_UNIT row))
       (\<lambda>rawXpf.
          let mappedXpf = (case extractHpfLpf (rowPart row METHOD) of
                             Some x \<Rightarrow> Some x | None \<Rightarrow> extractHpfLpf (example_ucum row));
              methodWrong = (rawXpf \<noteq> mappedXpf \<and>
                             (mappedXpf \<noteq> None \<or> startsWith (rowPart row METHOD) ''Microscopy.light''))
          in case rawXpf of
               None \<Rightarrow> Inr row
             | Some rx \<Rightarrow>
                 if rowPart row CLASS = ''UA'' \<and>
                    (rowPart row SCALE \<noteq> ''Qn'' \<or> rowPart row PROPERTY \<noteq> ''Naric'' \<or> methodWrong)
                 then
                   bindE (addInferredLoincParts row SYSTEM [''Urine'', ''Urine sed''] ''inferred'')
                     (\<lambda>r1. bindE (if rowPart r1 SCALE \<noteq> ''Qn''
                                   then inferAndFlag r1 SCALE [''Qn''] ''inferred'' else Inr r1)
                       (\<lambda>r2. bindE (if rowPart r2 PROPERTY \<noteq> ''Naric''
                                     then inferAndFlag r2 PROPERTY [''Naric''] ''inferred'' else Inr r2)
                         (\<lambda>r3. if methodWrong
                                then inferAndFlag r3 METHOD [''Microscopy.light.'' @ rx] ''inferred''
                                else Inr r3)))
                 else Inr row)"

text \<open>\<^verbatim>\<open>/^CD([0-9]+) ANTIBODY$/i\<close>: the digits, when the name has this form.\<close>

definition cdAntibodyMatch :: "string \<Rightarrow> string option" where
  "cdAntibodyMatch name =
     (let l = toLowerCase name; digits = takeWhile isDigit (drop 2 l) in
      if startsWith l ''cd'' \<and> digits \<noteq> [] \<and> dropWhile isDigit (drop 2 l) = '' antibody''
      then Some digits else None)"

fun inferEach :: "data_row \<Rightarrow> (part_type \<times> string) list \<Rightarrow> js_error + data_row" where
  "inferEach row [] = Inr row"
| "inferEach row ((partType, v) # rest) =
     bindE (if rowPart row partType \<noteq> v then inferAndFlag row partType [v] ''inferred'' else Inr row)
       (\<lambda>r. inferEach r rest)"

definition inferLoincPartsCDxAntibody :: "data_row \<Rightarrow> js_error + data_row" where
  "inferLoincPartsCDxAntibody row =
     (case (if RAW_LAB_NAME row = [] then None else cdAntibodyMatch (RAW_LAB_NAME row)) of
        None \<Rightarrow> Inr row
      | Some n \<Rightarrow>
          if rowPart row CLASS \<noteq> ''CELLMARK'' \<and>
             SPECIMEN_SOURCE row \<noteq> [] \<and> toUpperCase (SPECIMEN_SOURCE row) = ''BLD'' \<and>
             cellTruthy (RAW_UNIT row)
          then (case RAW_UNIT row of
                  Str rawUnit \<Rightarrow>
                    if includesStr rawUnit ''%''
                    then inferEach row
                           [(COMPONENT, ''Cells.CD'' @ n @ ''/100 cells''), (CLASS, ''CELLMARK''),
                            (PROPERTY, ''NFr''), (SCALE, ''Qn''), (TIME, ''Pt''), (SYSTEM, ''Bld'')]
                    else Inr row
                | Num t \<Rightarrow> Inl TypeError
                | Boo b \<Rightarrow> Inl TypeError)
          else Inr row)"

text \<open>The block of \<^verbatim>\<open>inferAndValidate\<close> for a ratio to creatinine in urine.\<close>

definition inferCreatinineRatio :: "env \<Rightarrow> data_row \<Rightarrow> js_error + data_row" where
  "inferCreatinineRatio e row =
     (let props = (case inferredNames row PROPERTY of Some ns \<Rightarrow> ns | None \<Rightarrow> [rowPart row PROPERTY]) in
      if rowPart row SYSTEM = ''Urine'' \<and> ''SRto'' \<in> set props \<and>
         \<not> endsWith (rowPart row COMPONENT) ''/Creatinine''
      then (let component = rowPart row COMPONENT @ ''/Creatinine'' in
            bindE (hasLoincWithPart e COMPONENT component)
              (\<lambda>found. if found then inferAndFlag row COMPONENT [component] ''inferred''
                        else Inr row))
      else Inr row)"

text \<open>\<^verbatim>\<open>combineInferredParts\<close>; \<^verbatim>\<open>names.sort()\<close> orders strings by their character codes.\<close>

fun strLe :: "string \<Rightarrow> string \<Rightarrow> bool" where
  "strLe [] ys = True"
| "strLe (x # xs) [] = False"
| "strLe (x # xs) (y # ys) =
     (if (of_char x :: nat) < of_char y then True
      else if x = y then strLe xs ys else False)"

fun insertString :: "string \<Rightarrow> string list \<Rightarrow> string list" where
  "insertString x [] = [x]"
| "insertString x (y # ys) = (if strLe x y then x # y # ys else y # insertString x ys)"

definition sortStrings :: "string list \<Rightarrow> string list" where
  "sortStrings xs = foldr insertString xs []"

definition mergedParts :: "(part_type \<times> (string list \<times> string list)) list \<Rightarrow> string \<Rightarrow> string list" where
  "mergedParts infd inferType =
     concat (map (\<lambda>(partType, (names, tys)).
               (let ns = map fst (filter (\<lambda>(n, t). t = inferType) (zip names tys)) in
                if ns = [] then []
                else [partTypeName partType @ ''=['' @ jsJoin '','' (sortStrings ns) @ '']''])) infd)"

definition combineInferredParts :: "data_row \<Rightarrow> data_row" where
  "combineInferredParts row =
     (case inferred row of
        None \<Rightarrow> row
      | Some infd \<Rightarrow>
          (let r1 = (if mergedParts infd ''parsed'' \<noteq> []
                     then row\<lparr>parsed_parts := jsJoin ''; '' (mergedParts infd ''parsed'')\<rparr> else row)
           in if mergedParts infd ''inferred'' \<noteq> []
              then r1\<lparr>inferred_parts := jsJoin ''; '' (mergedParts infd ''inferred'')\<rparr> else r1))"

text \<open>The guard at the start of \<^verbatim>\<open>inferAndValidate\<close> compares the boolean
  \<^verbatim>\<open>!row.ALGO_JUDGEMENT\<close> with a string by \<^verbatim>\<open>===\<close>, which is false for every row.\<close>

definition jsBoolEqString :: "bool \<Rightarrow> string \<Rightarrow> bool" where
  "jsBoolEqString b s = False"

definition defaultJudgement :: "data_row \<Rightarrow> data_row" where
  "defaultJudgement row =
     (if jsBoolEqString (ALGO_JUDGEMENT row = []) ''NON_QN'' \<and> \<not> startsWith (ALGO_JUDGEMENT row) ''WACKO''
      then row\<lparr>ALGO_JUDGEMENT := ''CORRECT_aj''\<rparr> else row)"

text \<open>The statements of \<^verbatim>\<open>inferAndValidate\<close> in their order, each a step from the row to the
  row after it, and their execution one after the other; an exception ends it.\<close>

definition propsOfUnits :: "env \<Rightarrow> string list \<Rightarrow> string list" where
  "propsOfUnits e altUnits = fold (\<lambda>unit acc. fold setAdd (getUnitProperties e unit) acc) altUnits []"

definition inferSteps :: "env \<Rightarrow> string list \<Rightarrow> (data_row \<Rightarrow> js_error + data_row) list" where
  "inferSteps e altUnits =
     [\<lambda>row. Inr (defaultJudgement row),
      inferComponentByModifier e,
      inferLoincSystem,
      inferLoincTime,
      \<lambda>row. inferScaleAndProperty e row altUnits (propsOfUnits e altUnits),
      \<lambda>row. inferWithHfpLpf row altUnits,
      inferLoincPartsUAxPF,
      inferLoincPartsCDxAntibody,
      inferCreatinineRatio e,
      \<lambda>row. Inr (combineInferredParts row)]"

fun runSteps :: "(data_row \<Rightarrow> js_error + data_row) list \<Rightarrow> data_row \<Rightarrow> js_error + data_row" where
  "runSteps [] row = Inr row"
| "runSteps (s # ss) row = bindE (s row) (runSteps ss)"

definition inferAndValidate :: "env \<Rightarrow> data_row \<Rightarrow> string list \<Rightarrow> js_error + data_row" where
  "inferAndValidate e row altUnits = runSteps (inferSteps e altUnits) row"

text \<open>\<^verbatim>\<open>getXformedRawUnit\<close>.  \<^verbatim>\<open>row.RAW_UNIT || ''\<close> is the empty string for a falsy cell.
  For a truthy cell that is not a string the test of \<^verbatim>\<open>/\bIU\b/\<close> reads its text, and then
  \<^verbatim>\<open>rawUnit.replace\<close> or \<^verbatim>\<open>rawUnit.endsWith\<close> throws.\<close>

definition getXformedRawUnit :: "data_row \<Rightarrow> js_error + string" where
  "getXformedRawUnit row =
     (if cellTruthy (RAW_UNIT row) then
        (case RAW_UNIT row of
           Str rawUnit \<Rightarrow>
             if regexTest (Regex True [''IU''] True False) rawUnit \<and>
                regexTest (Regex False [''ase''] True True) (RAW_LAB_NAME row)
             then Inr (regexReplace (Regex True [''IU''] True False) ''U'' rawUnit)
             else if endsWith rawUnit '' Cr'' then Inr (trim (sliceEnd rawUnit 3))
             else Inr rawUnit
         | Num t \<Rightarrow> Inl TypeError
         | Boo b \<Rightarrow> Inl TypeError)
      else Inr [])"

subsection \<open>Preprocessing of a row (\<^verbatim>\<open>altLoincSuggesterGen6.js\<close>)\<close>

text \<open>\<^verbatim>\<open>delimitedToList\<close> for a one-character delimiter.\<close>

fun splitOn :: "char \<Rightarrow> string \<Rightarrow> string list" where
  "splitOn d [] = [[]]"
| "splitOn d (c # cs) =
     (if c = d then [] # splitOn d cs
      else (case splitOn d cs of [] \<Rightarrow> [[c]] | h # t \<Rightarrow> (c # h) # t))"

definition delimitedToList :: "string \<Rightarrow> char \<Rightarrow> string list" where
  "delimitedToList v d = filter (\<lambda>x. x \<noteq> []) (map trim (splitOn d v))"

text \<open>The body of \<^verbatim>\<open>pcnRows.forEach\<close> in \<^verbatim>\<open>addLoincPartsFillMissingColumns\<close>.  When
  \<^verbatim>\<open>loincToParts[row.LAB_LOINC]\<close> is a member inherited from \<^verbatim>\<open>Object.prototype\<close> it is
  truthy, \<^verbatim>\<open>copyFields\<close> finds none of the fields in it, and \<^verbatim>\<open>loinc[part][0]\<close> throws,
  the member having no property named after a part.\<close>

definition addLoincPartsFillMissingColumns :: "loinc_table \<Rightarrow> data_row \<Rightarrow> js_error + data_row" where
  "addLoincPartsFillMissingColumns tbl row =
     (case jsGet tbl (LAB_LOINC row) of
        Undefined \<Rightarrow> Inr row
      | Inherited k \<Rightarrow> Inl TypeError
      | Own loinc \<Rightarrow>
          Inr (row\<lparr>row_LONG_COMMON_NAME := LONG_COMMON_NAME loinc,
                   example_ucum := EXAMPLE_UCUM_UNITS loinc,
                   rowPart := (\<lambda>part. partValue loinc part)\<rparr>))"

text \<open>The loop over \<^verbatim>\<open>COMPUTED_FIELDS\<close> at the start of the processing of a row.\<close>

definition clearComputedFields :: "data_row \<Rightarrow> data_row" where
  "clearComputedFields row =
     row\<lparr>SGG_LOINC := [], SGG_LONG_COMMON_NAME := [], SGG_OTHER := [],
         inferred := None, inferred_parts := [], parsed_parts := [], ucum_converted := [],
         ALGO_MAPPING_ISSUES := None, ALGO_MAPPING_ISSUES_string := [], ALGO_JUDGEMENT := [],
         RULE_RELAXED_BY := [], TARGET_TERM := [], TARGET_TERM_string := []\<rparr>"

definition pcnSpcmMapping :: "(string \<times> string) list" where
  "pcnSpcmMapping =
     [(''SER_PLAS'', ''Ser/Plas''), (''BODY_FLD'', ''Body fld''), (''PLR_FLD'', ''Plr fld''),
      (''RESPIRATOR'', ''Respiratory''), (''UN'', [])]"

text \<open>\<^verbatim>\<open>normalizeSPECIMEN_SOURCE\<close>, for a specimen source that is a text.  Its tokens are
  looked up in \<^verbatim>\<open>pcnSpcmMapping\<close> and \<^verbatim>\<open>partLowerToName\<close>, which are read here as their own
  properties: a token that names a member of \<^verbatim>\<open>Object.prototype\<close> would be replaced by that
  member, which is not a string.\<close>

definition normalizeSPECIMEN_SOURCE :: "env \<Rightarrow> data_row \<Rightarrow> data_row" where
  "normalizeSPECIMEN_SOURCE e row =
     (let spcList =
            fold (\<lambda>spcm acc.
                    let mapped = (case map_of pcnSpcmMapping spcm of None \<Rightarrow> [] | Some v \<Rightarrow> v);
                        stdPartName = (if mapped \<noteq> [] then mapped else getStdPartName e spcm SYSTEM)
                    in if stdPartName = [] then acc else setAdd stdPartName acc)
                 (delimitedToList (SPECIMEN_SOURCE row) (CHR '';'')) []
      in row\<lparr>SPECIMEN_SOURCE := (case spcList of [x] \<Rightarrow> x | _ \<Rightarrow> [])\<rparr>)"

definition convertToUcum :: "env \<Rightarrow> data_row \<Rightarrow> js_error + data_row" where
  "convertToUcum e row =
     bindE (getXformedRawUnit row)
       (\<lambda>rawUnit.
          Inr (row\<lparr>ucum_converted :=
                 (if rawUnit \<noteq> [] then
                    (let u1 = mapToUcum e rawUnit (LAB_LOINC row) False in
                     if \<not> falsy u1 then jsString u1
                     else (let u2 = mapToUcum e rawUnit (LAB_LOINC row) True in
                           if \<not> falsy u2 then jsString u2 else []))
                  else [])\<rparr>))"

text \<open>\<^verbatim>\<open>/^[^a-zA-Z]+$/\<close> matches a non-empty name without a letter.\<close>

definition isLetter :: "char \<Rightarrow> bool" where
  "isLetter c = (c \<in> set ''ABCDEFGHIJKLMNOPQRSTUVWXYZabcdefghijklmnopqrstuvwxyz'')"

text \<open>\<^verbatim>\<open>getInitialRowStatus\<close>; \<^verbatim>\<open>!loincToParts[row.LAB_LOINC]\<close> is false for an entry of the
  table and for an inherited member.\<close>

definition getInitialRowStatus :: "loinc_table \<Rightarrow> data_row \<Rightarrow> string" where
  "getInitialRowStatus tbl row =
     (if LAB_LOINC row = [] \<or> jsGet tbl (LAB_LOINC row) = Undefined then ''WACKO_INVALID_LOINC''
      else if RAW_LAB_NAME row = [] \<or> \<not> list_ex isLetter (RAW_LAB_NAME row) then ''WACKO_NUMERIC_RAW_NAME''
      else if Inclusion_category row = ''non qn'' then ''NON_QN''
      else ''CORRECT_aj'')"

definition isExcludeStatus :: "data_row \<Rightarrow> bool" where
  "isExcludeStatus row =
     (ALGO_JUDGEMENT row \<in> set [''WACKO_INVALID_LOINC'', ''WACKO_NUMERIC_RAW_NAME'', ''NON_QN''])"

text \<open>\<^verbatim>\<open>getAllPossibleUnits\<close>: the keys of \<^verbatim>\<open>uniqUnits\<close> in the order of their insertion.
  (The callers use each unit for one more round of the same search, so their order does not
  show in the result.)\<close>

definition getAllPossibleUnits :: "env \<Rightarrow> data_row \<Rightarrow> js_error + string list" where
  "getAllPossibleUnits e row =
     (let u0 = (if RAW_UNIT row = Str ''nm'' then [''nmol/mL'', ''nmol''] else []);
          u1 = (if ucum_converted row \<noteq> [] then setAdd (ucum_converted row) u0 else u0)
      in bindE (getXformedRawUnit row)
           (\<lambda>unit.
              if unit \<noteq> [] then
                Inr (fold (\<lambda>mapper acc.
                        fold (\<lambda>isCI acc'.
                                (let ucum = mapWith e mapper unit isCI (LAB_LOINC row) in
                                 if \<not> falsy ucum then setAdd (jsString ucum) acc' else acc'))
                             [False, True] acc)
                     (getMapperNames e) (setAdd unit u1))
              else Inr u1))"

text \<open>The body of the second \<^verbatim>\<open>pcnRows.forEach\<close> in \<^verbatim>\<open>preProcessAndValidate\<close>, which runs
  after the parts of the mapped-to terms have been copied into all the rows.\<close>

definition preProcessRow :: "env \<Rightarrow> data_row \<Rightarrow> js_error + data_row" where
  "preProcessRow e row =
     (let r2 = clearComputedFields row;
          r3 = normalizeSPECIMEN_SOURCE e r2
      in bindE (convertToUcum e r3)
           (\<lambda>r4. let r5 = r4\<lparr>ALGO_JUDGEMENT := getInitialRowStatus (loincToParts (loincTable e)) r4\<rparr>
                 in if \<not> isExcludeStatus r5
                    then bindE (getAllPossibleUnits e r5) (\<lambda>units. inferAndValidate e r5 units)
                    else Inr r5))"

definition preProcessAndValidate :: "env \<Rightarrow> data_row list \<Rightarrow> js_error + data_row list" where
  "preProcessAndValidate e pcnRows =
     bindE (mapE (addLoincPartsFillMissingColumns (loincToParts (loincTable e))) pcnRows)
       (mapE (preProcessRow e))"

subsection \<open>Searching for alternative terms (\<^verbatim>\<open>altLoincSuggesterGen6.js\<close>)\<close>

definition getAltPartsFromInferred :: "data_row \<Rightarrow> (part_type \<times> string list) list" where
  "getAltPartsFromInferred row =
     concat (map (\<lambda>(partType, (partNames, tys)).
                    if partNames \<noteq> [rowPart row partType] then [(partType, partNames)] else [])
               (case inferred row of None \<Rightarrow> [] | Some infd \<Rightarrow> infd))"

text \<open>The result of \<^verbatim>\<open>replaceAndFind\<close>: the matches (absent when the term of the row is
  unknown) and the target term as a string.\<close>

record find_result =
  altLoincs :: "alt_loinc list option"
  targetTerm :: "string option"

text \<open>The target term: for each part type \<^verbatim>\<open>null\<close> when the replacement asks to skip it,
  else the replacement names, else the names of the term of the row, with the synonyms
  added.\<close>

definition targetTermOf :: "(part_type \<times> string list option) list \<Rightarrow> (part_type \<Rightarrow> string list) \<Rightarrow>
    term_parts" where
  "targetTermOf replacementParts refParts =
     (\<lambda>partType. case map_of replacementParts partType of
                    Some None \<Rightarrow> None
                  | Some (Some names) \<Rightarrow> Some (addPartSynonyms partType names)
                  | None \<Rightarrow> Some (addPartSynonyms partType (refParts partType)))"

text \<open>\<^verbatim>\<open>addPartSynonyms\<close> appends to the array it is given.  Where the target takes the names
  of the term of the row, that array is the one of the entry in \<^verbatim>\<open>loincToParts\<close>, so the
  entry itself receives the synonyms.\<close>

definition refAfterSynonyms :: "(part_type \<times> string list option) list \<Rightarrow> loinc_info \<Rightarrow> loinc_info" where
  "refAfterSynonyms replacementParts refPartsInfo =
     refPartsInfo\<lparr>parts := (\<lambda>partType.
        case map_of replacementParts partType of
          None \<Rightarrow> addPartSynonyms partType (parts refPartsInfo partType)
        | Some _ \<Rightarrow> parts refPartsInfo partType)\<rparr>"

definition filterPartsOf :: "term_parts \<Rightarrow> (part_type \<times> string list) list" where
  "filterPartsOf targetTermParts =
     concat (map (\<lambda>part.
        case targetTermParts part of
          None \<Rightarrow> []
        | Some names \<Rightarrow>
            (let a1 = (if names = [] then [[]] else names);
                 a2 = (if part = SYSTEM then a1 @ [''XXX''] else a1);
                 a3 = (if part = SYSTEM \<and> list_ex (\<lambda>n. n \<in> set [''Urine'', ''CSF'']) a2
                       then a2 @ (if ''Urine'' \<in> set a2 then [''Urine+Ser'', ''Urine+Ser/Plas'']
                                  else [''Ser+CSF'', ''Ser/Plas+CSF''])
                       else a2)
             in [(part, a3)])) [PROPERTY, TIME, SYSTEM, SCALE])"

definition targetTermString :: "term_parts \<Rightarrow> string" where
  "targetTermString targetTermParts =
     jsJoin ''; '' (map (\<lambda>pt. case targetTermParts pt of
                                 None \<Rightarrow> ''*''
                               | Some names \<Rightarrow> if jsJoin '','' names = [] then ''-'' else jsJoin '','' names)
                      PartTypeList)"

definition toAltLoinc :: "loinc_info \<Rightarrow> string list option \<Rightarrow> alt_loinc" where
  "toAltLoinc info rel =
     \<lparr>LOINC_NUM = LOINC_NUM info, LONG_COMMON_NAME = LONG_COMMON_NAME info, STATUS = STATUS info,
      EXAMPLE_UCUM_UNITS = EXAMPLE_UCUM_UNITS info, parts = parts info,
      relaxations = rel, score = None\<rparr>"

text \<open>The loop over \<^verbatim>\<open>loincsToCheck\<close>.  The numbers come from the index, so they are keys of
  the table; for any other the candidate would be \<^verbatim>\<open>undefined\<close> or an inherited member,
  and reading its part list for the first part type throws.\<close>

fun checkCandidates :: "loinc_table \<Rightarrow> data_row \<Rightarrow> term_parts \<Rightarrow> string option \<Rightarrow> string list \<Rightarrow>
    js_error + alt_loinc list" where
  "checkCandidates tbl row targetTermParts refNum [] = Inr []"
| "checkCandidates tbl row targetTermParts refNum (loinc # rest) =
     (if Some loinc = refNum then checkCandidates tbl row targetTermParts refNum rest
      else (case jsGet tbl loinc of
              Undefined \<Rightarrow> Inl TypeError
            | Inherited k \<Rightarrow> Inl TypeError
            | Own candidateLoincPartsInfo \<Rightarrow>
                bindE (isAltLoinc row targetTermParts candidateLoincPartsInfo 0)
                  (\<lambda>status.
                     bindE (checkCandidates tbl row targetTermParts refNum rest)
                       (\<lambda>more. Inr (if st_matched status
                                     then toAltLoinc candidateLoincPartsInfo (st_relaxations status) # more
                                     else more)))))"

text \<open>\<^verbatim>\<open>replaceAndFind\<close>: the table after the call and the result.  Its first argument is
  \<^verbatim>\<open>undefined\<close> when the caller read the LOINC number of an inherited member; as a key
  that is the string \<^verbatim>\<open>undefined\<close>.  When \<^verbatim>\<open>loincToParts[loinc]\<close> is itself an inherited
  member it has neither part lists nor a LOINC number: the target takes fresh empty lists
  where no replacement is given, and no candidate is skipped as the term itself.
  \<^verbatim>\<open>loincsToCheck.forEach\<close> throws when the result of the query is not a \<^verbatim>\<open>Set\<close>.\<close>

definition replaceAndFind :: "env \<Rightarrow> loinc_table \<Rightarrow> string option \<Rightarrow> (part_type \<times> string list) list \<Rightarrow>
    data_row \<Rightarrow> js_error + (loinc_table \<times> find_result)" where
  "replaceAndFind e tbl loinc replacementParts0 row =
     (let given = map (\<lambda>(k, v). (k, Some v)) replacementParts0;
          replacementParts =
            (if map_of given SYSTEM = None \<and> rowPart row SYSTEM = ''XXX''
             then (SYSTEM, None) # given else given);
          search = (\<lambda>refParts refNum tbl'.
            (let targetTermParts = targetTermOf replacementParts refParts in
             bindE (getLoincForParts e (filterPartsOf targetTermParts))
               (\<lambda>loincsToCheck.
                  bindE (elementsOf loincsToCheck)
                    (\<lambda>loincs.
                       bindE (checkCandidates tbl' row targetTermParts refNum loincs)
                         (\<lambda>found. Inr (tbl', \<lparr>altLoincs = Some found,
                                              targetTerm = Some (targetTermString targetTermParts)\<rparr>))))))
      in case jsGet tbl (jsString loinc) of
           Undefined \<Rightarrow> Inr (tbl, \<lparr>altLoincs = None, targetTerm = None\<rparr>)
         | Inherited k \<Rightarrow> search (\<lambda>partType. []) None tbl
         | Own refPartsInfo \<Rightarrow>
             search (parts refPartsInfo) (Some (LOINC_NUM refPartsInfo))
               (AList.update (jsString loinc) (refAfterSynonyms replacementParts refPartsInfo) tbl))"

text \<open>\<^verbatim>\<open>executeGeneralRule\<close>; \<^verbatim>\<open>recLnParts\<close> is \<^verbatim>\<open>loincToParts[row.LAB_LOINC]\<close> as
  \<^verbatim>\<open>executeRules\<close> read it.\<close>

definition executeGeneralRule :: "env \<Rightarrow> loinc_table \<Rightarrow> loinc_info js_prop \<Rightarrow> data_row \<Rightarrow>
    js_error + (loinc_table \<times> find_result option)" where
  "executeGeneralRule e tbl recLnParts row =
     (let altParts = getAltPartsFromInferred row in
      if altParts = [] \<and> \<not> shouldTryDefaultSpecimen row then Inr (tbl, None)
      else (case recLnParts of
              Undefined \<Rightarrow> Inl TypeError
            | Inherited k \<Rightarrow>
                bindE (replaceAndFind e tbl None altParts row)
                  (\<lambda>(tbl', res). Inr (tbl', Some res))
            | Own p \<Rightarrow>
                bindE (replaceAndFind e tbl (Some (LOINC_NUM p)) altParts row)
                  (\<lambda>(tbl', res). Inr (tbl', Some res))))"

text \<open>\<^verbatim>\<open>executeRulesForRecord\<close> for the one rule there is (rule 99999, a general
  replacement): the table and the row after the call, and the matches.\<close>

definition executeRulesForRecord :: "env \<Rightarrow> loinc_table \<Rightarrow> loinc_info js_prop \<Rightarrow> data_row \<Rightarrow>
    js_error + (loinc_table \<times> data_row \<times> alt_loinc list)" where
  "executeRulesForRecord e tbl recLnParts row =
     (if shouldTryDefaultSpecimen row \<or> ALGO_MAPPING_ISSUES row \<noteq> None then
        bindE (executeGeneralRule e tbl recLnParts row)
          (\<lambda>(tbl', result).
             case result of
               None \<Rightarrow> Inr (tbl', row, [])
             | Some res \<Rightarrow>
                 (let row' = (case targetTerm res of
                                None \<Rightarrow> row
                              | Some t \<Rightarrow> row\<lparr>TARGET_TERM := TARGET_TERM row @ [t]\<rparr>)
                  in Inr (tbl', row', case altLoincs res of None \<Rightarrow> [] | Some ms \<Rightarrow> ms)))
      else Inr (tbl, row, []))"

fun executeForUnits :: "env \<Rightarrow> loinc_info js_prop \<Rightarrow> string list \<Rightarrow>
    loinc_table \<times> data_row \<times> alt_loinc list \<Rightarrow> js_error + (loinc_table \<times> data_row \<times> alt_loinc list)" where
  "executeForUnits e recLoincParts [] st = Inr st"
| "executeForUnits e recLoincParts (unit # units) (tbl, row, allMatches) =
     bindE (executeRulesForRecord e tbl recLoincParts row)
       (\<lambda>(tbl', row', altLoincs4Unit).
          executeForUnits e recLoincParts units (tbl', row', allMatches @ altLoincs4Unit))"

text \<open>The body of \<^verbatim>\<open>pcnRows.forEach\<close> in \<^verbatim>\<open>executeRules\<close>.\<close>

definition executeRulesRow :: "env \<Rightarrow> loinc_table \<Rightarrow> data_row \<Rightarrow> js_error + (loinc_table \<times> data_row)" where
  "executeRulesRow e tbl row =
     (if isExcludeStatus row then Inr (tbl, row)
      else
        bindE (getAllPossibleUnits e row)
          (\<lambda>units0.
             let recLoincParts = jsGet tbl (LAB_LOINC row);
                 units = (if units0 \<noteq> [] then units0 else [''NA-NA''])
             in bindE (executeForUnits e recLoincParts units (tbl, row, []))
                  (\<lambda>(tbl', row', allMatches).
                     if allMatches = [] then Inr (tbl', row')
                     else (case selectBestMatch row' allMatches of
                             (Some bestMatch, Some rest) \<Rightarrow>
                               Inr (tbl',
                                    row'\<lparr>SGG_LOINC := LOINC_NUM bestMatch,
                                         SGG_LONG_COMMON_NAME := LONG_COMMON_NAME bestMatch,
                                         RULE_RELAXED_BY :=
                                           jsJoin ''; '' (fold setAdd
                                             (case relaxations bestMatch of None \<Rightarrow> [] | Some rs \<Rightarrow> rs) []),
                                         ALGO_JUDGEMENT := ''FIXED'',
                                         SGG_OTHER :=
                                           jsJoin ''; '' (map (\<lambda>m. LOINC_NUM m @ '':{'' @ LONG_COMMON_NAME m @ ''}'')
                                                           rest)\<rparr>)
                           | _ \<Rightarrow> Inl TypeError))))"

fun executeRules :: "env \<Rightarrow> loinc_table \<Rightarrow> data_row list \<Rightarrow> js_error + (loinc_table \<times> data_row list)" where
  "executeRules e tbl [] = Inr (tbl, [])"
| "executeRules e tbl (row # pcnRows) =
     bindE (executeRulesRow e tbl row)
       (\<lambda>(tbl', row').
          bindE (executeRules e tbl' pcnRows) (\<lambda>(tbl'', rows'). Inr (tbl'', row' # rows')))"

text \<open>\<^verbatim>\<open>reformatValuesToString\<close>: the two structured fields become strings.\<close>

definition reformatValuesToString :: "data_row \<Rightarrow> data_row" where
  "reformatValuesToString row =
     row\<lparr>ALGO_MAPPING_ISSUES_string :=
           jsJoin ''; '' (case ALGO_MAPPING_ISSUES row of None \<Rightarrow> [] | Some xs \<Rightarrow> xs),
         TARGET_TERM_string := jsJoin ''; '' (fold setAdd (TARGET_TERM row) [])\<rparr>"

definition validateAndSuggest :: "env \<Rightarrow> data_row list \<Rightarrow> js_error + data_row list" where
  "validateAndSuggest e pcnRows =
     bindE (preProcessAndValidate e pcnRows)
       (\<lambda>rows1. bindE (executeRules e (loincToParts (loincTable e)) rows1)
          (\<lambda>(tbl, rows2). Inr (map reformatValuesToString rows2)))"

subsection \<open>Vocabulary for the claims about the processing of a row\<close>

text \<open>The names inferred so far for a part type; and the steps of one pass over a row that
  follow the assignment of the initial status: the statements of \<^verbatim>\<open>inferAndValidate\<close>, then
  the search for alternative terms, then the final formatting.  The trace of a pass lists
  the Judgment after each step, up to an exception.\<close>

definition namesOf :: "data_row \<Rightarrow> part_type \<Rightarrow> string list" where
  "namesOf row pt = (case inferredNames row pt of None \<Rightarrow> [] | Some ns \<Rightarrow> ns)"

definition passSteps :: "env \<Rightarrow> loinc_table \<Rightarrow> string list \<Rightarrow> (data_row \<Rightarrow> js_error + data_row) list" where
  "passSteps e tbl altUnits =
     inferSteps e altUnits @
     [\<lambda>row. bindE (executeRulesRow e tbl row) (\<lambda>(tbl', row'). Inr row'),
      \<lambda>row. Inr (reformatValuesToString row)]"

fun judgementTrace :: "(data_row \<Rightarrow> js_error + data_row) list \<Rightarrow> data_row \<Rightarrow> string list" where
  "judgementTrace [] row = []"
| "judgementTrace (s # ss) row =
     (case s row of Inl e \<Rightarrow> [] | Inr r \<Rightarrow> ALGO_JUDGEMENT r # judgementTrace ss r)"

definition exLoincRow :: "string \<Rightarrow> string \<Rightarrow> string \<Rightarrow> loinc_row" where
  "exLoincRow num cname sys =
     \<lparr>csv_LOINC_NUM = num, csv_LONG_COMMON_NAME = cname @ '' in '' @ sys, csv_STATUS = ''ACTIVE'',
      csv_EXAMPLE_UCUM_UNITS = ''mg/dL'',
      csv_part = (\<lambda>pt. case pt of CLASS \<Rightarrow> ''CHEM'' | COMPONENT \<Rightarrow> cname
                 | PROPERTY \<Rightarrow> ''MCnc'' | TIME \<Rightarrow> ''Pt'' | SYSTEM \<Rightarrow> sys
                 | SCALE \<Rightarrow> ''Qn'' | METHOD \<Rightarrow> [])\<rparr>"

definition exEnv :: env where
  "exEnv =
     \<lparr>loincTable = [exLoincRow ''2345-7'' ''Glucose'' ''Ser/Plas'',
                exLoincRow ''2350-7'' ''Glucose'' ''Urine'',
                exLoincRow ''3026-2'' ''Thyroxine'' ''Ser/Plas'',
                exLoincRow ''3024-7'' ''Thyroxine.free'' ''Ser/Plas''],
      getUnitProperties = (\<lambda>u. if u = ''mg/dL'' then [''MCnc''] else []),
      getMapperNames = [],
      mapWith = (\<lambda>mapper unit isCI loinc. None),
      mapToUcum = (\<lambda>unit loinc isCI. None)\<rparr>"

text \<open>A row mapped to total thyroxine whose name says \<^verbatim>\<open>FREE\<close>, and a glucose row whose
  name says \<^verbatim>\<open>FREE\<close>: the table of \<open>exEnv\<close> has free thyroxine and no free glucose.\<close>

definition exRowT4 :: data_row where
  "exRowT4 = exRow\<lparr>LAB_LOINC := ''3026-2'', RAW_LAB_NAME := ''FREE T4'',
                    rowPart := (rowPart exRow)(COMPONENT := ''Thyroxine'')\<rparr>"

definition exRowFG :: data_row where
  "exRowFG = exRow\<lparr>RAW_LAB_NAME := ''FREE GLUCOSE''\<rparr>"

text \<open>The Judgment \<open>b\<close> is the Judgment \<open>a\<close> or one that a check or the search can put in its
  place: \<^verbatim>\<open>INCORRECT_aj\<close> (set by the checks of the inference) or \<^verbatim>\<open>FIXED\<close> (set when an
  alternative term is found).\<close>

definition laterJudgement :: "string \<Rightarrow> string \<Rightarrow> bool" where
  "laterJudgement a b = (b = a \<or> b = ''INCORRECT_aj'' \<or> b = ''FIXED'')"

text \<open>A row whose LOINC number is not in the table of \<open>exEnv\<close>; and a row without a unit whose
  method counts per low power field.\<close>

definition exRowBad :: data_row where
  "exRowBad = exRow\<lparr>LAB_LOINC := ''999-9''\<rparr>"

definition exRowLPF :: data_row where
  "exRowLPF = exRow\<lparr>RAW_UNIT := Str [], rowPart := (rowPart exRow)(METHOD := ''Microscopy.light.LPF'')\<rparr>"

text \<open>A record mapped to the urine glucose term whose name says serum, before and after the
  inference has taken the system from the name; a table with glucose in serum or plasma, in
  urine, in serum and in plasma; and the target term that the search builds for the record.\<close>

definition exRowSerum0 :: data_row where
  "exRowSerum0 = exRow\<lparr>LAB_LOINC := ''2350-7'', RAW_LAB_NAME := ''GLUCOSE SERUM'',
                        rowPart := (rowPart exRow)(SYSTEM := ''Urine'')\<rparr>"

definition exRowSerum :: data_row where
  "exRowSerum = exRowSerum0\<lparr>inferred := Some [(SYSTEM, ([''Ser/Plas''], [''parsed'']))],
                            ALGO_MAPPING_ISSUES := Some [''SYSTEM''],
                            ALGO_JUDGEMENT := ''INCORRECT_aj''\<rparr>"

definition exEnvSerum :: env where
  "exEnvSerum =
     exEnv\<lparr>loincTable :=
             map (\<lambda>(num, sys). (exLoincRow num ''Glucose'' sys)\<lparr>csv_LONG_COMMON_NAME := ''Glucose''\<rparr>)
               [(''2345-7'', ''Ser/Plas''), (''2350-7'', ''Urine''), (''9101-1'', ''Ser''),
                (''9102-9'', ''Plas'')]\<rparr>"

definition exTargetSerum :: term_parts where
  "exTargetSerum =
     targetTermOf [(SYSTEM, Some [''Ser/Plas''])] (parts (exCandidate ''2350-7'' [''Urine''] [''Qn''] []))"

text \<open>The table of \<open>exEnv\<close> with one more term, whose component is \<^verbatim>\<open>constructor.free\<close>,
  and a row mapped to that term whose name does not say \<^verbatim>\<open>FREE\<close>.  A row whose LOINC number
  is \<^verbatim>\<open>constructor\<close>, which is not in the table of \<open>exEnv\<close>; and a row whose LOINC number is
  not in the table either and whose unit cell holds the number 5.\<close>

definition exEnvProto :: env where
  "exEnvProto =
     exEnv\<lparr>loincTable := loincTable exEnv @ [exLoincRow ''9001-1'' ''constructor.free'' ''Ser/Plas'']\<rparr>"

definition exRowProto :: data_row where
  "exRowProto = exRow\<lparr>LAB_LOINC := ''9001-1'', RAW_LAB_NAME := ''CONSTRUCTOR'',
                       rowPart := (rowPart exRow)(COMPONENT := ''constructor.free'')\<rparr>"

definition exRowCtor :: data_row where
  "exRowCtor = exRow\<lparr>LAB_LOINC := ''constructor''\<rparr>"

definition exRowNumUnit :: data_row where
  "exRowNumUnit = exRowBad\<lparr>RAW_UNIT := Num ''5''\<rparr>"

section \<open>Properties of the part index\<close>

lemma bindE_Inr: "bindE x f = Inr y \<Longrightarrow> \<exists>v. x = Inr v \<and> f v = Inr y"
  by (cases x) (simp_all add: bindE_def)

lemma bindE_InrE:
  assumes "bindE x f = Inr y"
  obtains v where "x = Inr v" and "f v = Inr y"
  using assms by (cases x) (simp_all add: bindE_def)

lemma bindE_simps [simp]: "bindE (Inr v) f = f v" "bindE (Inl err) f = Inl err"
  by (simp_all add: bindE_def)

lemma mapE_zip:
  "mapE f xs = Inr ys \<Longrightarrow> x \<in> set xs \<Longrightarrow> \<exists>y. map_of (zip xs ys) x = Some y \<and> f x = Inr y"
proof (induction xs arbitrary: ys)
  case Nil
  then show ?case by simp
next
  case (Cons a xs)
  from Cons.prems(1) obtain b bs where b: "f a = Inr b" and bs: "mapE f xs = Inr bs"
    and ys: "ys = b # bs"
    by (auto split: sum.splits)
  show ?case
  proof (cases "x = a")
    case True
    with b ys show ?thesis by simp
  next
    case False
    with Cons.prems(2) have "x \<in> set xs" by simp
    from Cons.IH [OF bs this] False ys show ?thesis by simp
  qed
qed

lemma distinct_keys_addLoincRow:
  "distinct (map fst tbl) \<Longrightarrow> distinct (map fst (addLoincRow r tbl))"
  by (simp add: addLoincRow_def Let_def distinct_update)

lemma distinct_keys_fold_addLoincRow:
  "distinct (map fst tbl) \<Longrightarrow> distinct (map fst (fold addLoincRow rs tbl))"
  by (induction rs arbitrary: tbl) (simp_all add: distinct_keys_addLoincRow)

lemma distinct_keys_loincToParts: "distinct (map fst (loincToParts loincs))"
  by (simp add: loincToParts_def distinct_keys_fold_addLoincRow)

lemma set_setAdd: "set (setAdd x s) = insert x (set s)"
  by (auto simp: setAdd_def)

lemma indexAdd_Inr:
  "indexAdd k loinc idx = Inr idx' \<Longrightarrow>
   k \<notin> set objectPrototypeKeys \<or> map_of idx k \<noteq> None"
  by (auto simp: indexAdd_def jsGet_def split: option.splits if_splits)

lemma map_of_indexAdd:
  "indexAdd k loinc idx = Inr idx' \<Longrightarrow>
   map_of idx' k' =
     (if k' = k then Some (setAdd loinc (case map_of idx k of Some s \<Rightarrow> s | None \<Rightarrow> []))
      else map_of idx k')"
  by (auto simp: indexAdd_def jsGet_def update_conv' setAdd_def split: option.splits if_splits)

lemma index_fold_lookup:
  "foldE (\<lambda>(loinc, info) idx. indexAdd (f info) loinc idx) l2p idx0 = Inr idx \<Longrightarrow>
   (case map_of idx k of Some s \<Rightarrow> set s | None \<Rightarrow> {}) =
   (case map_of idx0 k of Some s \<Rightarrow> set s | None \<Rightarrow> {}) \<union>
     {loinc. \<exists>info. (loinc, info) \<in> set l2p \<and> f info = k}"
proof (induction l2p arbitrary: idx0)
  case Nil
  then show ?case by simp
next
  case (Cons a l2p)
  obtain loinc info where a: "a = (loinc, info)" by (cases a)
  from Cons.prems obtain idx1 where 1: "indexAdd (f info) loinc idx0 = Inr idx1"
    and 2: "foldE (\<lambda>(loinc, info) idx. indexAdd (f info) loinc idx) l2p idx1 = Inr idx"
    unfolding a by (auto elim!: bindE_InrE)
  have "(case map_of idx1 k of Some s \<Rightarrow> set s | None \<Rightarrow> {}) =
        (case map_of idx0 k of Some s \<Rightarrow> set s | None \<Rightarrow> {}) \<union> (if f info = k then {loinc} else {})"
    by (simp add: map_of_indexAdd [OF 1] set_setAdd split: option.splits)
  with Cons.IH [OF 2] show ?case unfolding a by auto
qed

lemma index_fold_dom:
  "foldE (\<lambda>(loinc, info) idx. indexAdd (f info) loinc idx) l2p idx0 = Inr idx \<Longrightarrow>
   (map_of idx k \<noteq> None) =
   (map_of idx0 k \<noteq> None \<or> (\<exists>loinc info. (loinc, info) \<in> set l2p \<and> f info = k))"
proof (induction l2p arbitrary: idx0)
  case Nil
  then show ?case by simp
next
  case (Cons a l2p)
  obtain loinc info where a: "a = (loinc, info)" by (cases a)
  from Cons.prems obtain idx1 where 1: "indexAdd (f info) loinc idx0 = Inr idx1"
    and 2: "foldE (\<lambda>(loinc, info) idx. indexAdd (f info) loinc idx) l2p idx1 = Inr idx"
    unfolding a by (auto elim!: bindE_InrE)
  have "(map_of idx1 k \<noteq> None) = (map_of idx0 k \<noteq> None \<or> f info = k)"
    by (simp add: map_of_indexAdd [OF 1])
  with Cons.IH [OF 2] show ?case unfolding a by auto
qed

lemma build_part:
  assumes "buildLoincPartsIndex l2p = Inr idx"
  shows "indexForPart l2p pt = Inr (idx pt)"
proof -
  from assms obtain idxs where m: "mapE (indexForPart l2p) PartTypeList = Inr idxs"
    and i: "idx = (\<lambda>pt. case map_of (zip PartTypeList idxs) pt of Some x \<Rightarrow> x | None \<Rightarrow> [])"
    unfolding buildLoincPartsIndex_def by (auto elim!: bindE_InrE)
  have "pt \<in> set PartTypeList" by (cases pt) (simp_all add: PartTypeList_def)
  from mapE_zip [OF m this] show ?thesis unfolding i by auto
qed

lemma set_indexLookup_build:
  assumes "buildLoincPartsIndex l2p = Inr idx" and "k \<notin> set objectPrototypeKeys"
  shows "\<exists>s. indexLookup idx pt k = SetOf s \<and>
             set s = {loinc. \<exists>info. (loinc, info) \<in> set l2p \<and> jsArrayToString (parts info pt) = k}"
proof -
  from build_part [OF assms(1), of pt]
  have "foldE (\<lambda>(loinc, info) idx. indexAdd (jsArrayToString (parts info pt)) loinc idx) l2p [] =
          Inr (idx pt)"
    by (simp add: indexForPart_def)
  from index_fold_lookup [OF this, of k] assms(2) show ?thesis
    by (auto simp: indexLookup_def jsGet_def split: option.splits)
qed

lemma parts_addLoincRow:
  "map_of (addLoincRow r tbl) k = Some info \<Longrightarrow>
   (\<forall>i. map_of tbl k = Some i \<longrightarrow> jsArrayToString (parts i pt) = partValue i pt) \<Longrightarrow>
   jsArrayToString (parts info pt) = partValue info pt"
  by (auto simp: addLoincRow_def Let_def update_conv' partValue_def split: if_splits option.splits)

lemma parts_fold_addLoincRow:
  "map_of (fold addLoincRow rs tbl) k = Some info \<Longrightarrow>
   (\<forall>k i. map_of tbl k = Some i \<longrightarrow> jsArrayToString (parts i pt) = partValue i pt) \<Longrightarrow>
   jsArrayToString (parts info pt) = partValue info pt"
proof (induction rs arbitrary: tbl)
  case Nil
  then show ?case by simp
next
  case (Cons r rs)
  have "\<forall>k i. map_of (addLoincRow r tbl) k = Some i \<longrightarrow>
          jsArrayToString (parts i pt) = partValue i pt"
    using Cons.prems(2) parts_addLoincRow by blast
  with Cons.IH [of "addLoincRow r tbl"] Cons.prems(1) show ?case by simp
qed

lemma key_is_partValue:
  "map_of (loincToParts loincs) k = Some info \<Longrightarrow>
   jsArrayToString (parts info pt) = partValue info pt"
  using parts_fold_addLoincRow [of loincs "[]" k info pt]
  by (simp add: loincToParts_def)

text \<open>
  For a part value that does not name a member of \<open>Object.prototype\<close>, and a catalog whose
  index can be built, the query with the single constraint \<open>{t: [v]}\<close> returns the set of
  the identifiers of the catalog entries whose value for \<open>t\<close> is \<open>v\<close>, an entry without the
  attribute being found under the empty string.
\<close>

lemma single_constraint_exact:
  assumes "plainKeys loincs"
    and "buildLoincPartsIndex (loincToParts loincs) = Inr idx"
    and "v \<notin> set objectPrototypeKeys"
  shows "\<exists>s. getLoincForPartsInternal idx [(t, [v])] = Inr (SetOf s) \<and>
           set s = {loinc. \<exists>info. map_of (loincToParts loincs) loinc = Some info \<and>
                                  partValue info t = v}"
proof -
  have d: "distinct (map fst (loincToParts loincs))"
    by (rule distinct_keys_loincToParts)
  from set_indexLookup_build [OF assms(2,3), of t] obtain s where
    s: "indexLookup idx t v = SetOf s"
    and e: "set s = {loinc. \<exists>info. (loinc, info) \<in> set (loincToParts loincs) \<and>
                       jsArrayToString (parts info t) = v}"
    by blast
  have g: "getLoincForPartsInternal idx [(t, [v])] = Inr (SetOf s)"
    by (simp add: getLoincForPartsInternal_def setAND_def setOR_def s)
  have "set s = {loinc. \<exists>info. map_of (loincToParts loincs) loinc = Some info \<and>
                       partValue info t = v}"
    unfolding e using d key_is_partValue [of loincs _ _ t]
    by (auto simp: map_of_eq_Some_iff)
  with g show ?thesis by blast
qed

lemmas index_eval_defs =
  hasLoincWithPart_def getLoincForParts_def hasLoincWithPartInternal_def buildLoincPartsIndex_def
  indexForPart_def loincToParts_def addLoincRow_def exEnv_def exLoincRow_def indexAdd_def
  jsGet_def objectPrototypeKeys_def setAdd_def PartTypeList_def Let_def



section \<open>Properties of part compatibility\<close>

lemma bothInList_commute: "bothInList plist p1 p2 = bothInList plist p2 p1"
  by (auto simp: bothInList_def split: option.splits)

text \<open>
  Claim C10.  The part-compatibility test is reflexive and symmetric: for every part type,
  every part value (absent and empty included) and every record, a value is compatible with
  itself, and the test gives the same answer when its two part arguments are swapped.
\<close>

theorem C10_partsCompatible_reflexive_symmetric:
  "partsCompatible t p p row \<and> partsCompatible t p1 p2 row = partsCompatible t p2 p1 row"
proof
  show "partsCompatible t p p row"
    by (simp add: partsCompatible_def)
  have c: "\<And>l. bothInList l p1 p2 = bothInList l p2 p1"
    by (rule bothInList_commute)
  show "partsCompatible t p1 p2 row = partsCompatible t p2 p1 row"
    unfolding partsCompatible_def Let_def c [symmetric]
    by (auto simp: eq_commute [of p1 p2])
qed

section \<open>Properties of the tiered matcher\<close>

lemma appR_simps [simp]:
  "appR rel (Inl e) = Inl e"
  "appR rel (Inr (m, r)) = Inr (m, rel @ r)"
  by (simp_all add: appR_def)

lemma relaxLeukocytes_rel:
  "relaxLeukocytes T tc cc rel = appR rel (relaxLeukocytes T tc cc [])"
  by (simp add: relaxLeukocytes_def split: option.splits)

lemma relaxDenominator_rel:
  "relaxDenominator row T tc cc rel = appR rel (relaxDenominator row T tc cc [])"
  by (cases "RAW_UNIT row")
     (simp_all add: relaxDenominator_def Let_def relaxLeukocytes_rel [of _ _ _ rel] split: option.splits)

lemma relaxActualNormal_rel:
  "relaxActualNormal T tc cc (m, rel @ r) = appR rel (relaxActualNormal T tc cc (m, r))"
  by (simp add: relaxActualNormal_def split: option.splits)

lemma relaxFragments_rel:
  "relaxFragments row tc cc (m, rel @ r) =
     (case relaxFragments row tc cc (m, r) of (m', r') \<Rightarrow> (m', rel @ r'))"
  by (simp add: relaxFragments_def)

lemma relaxNucleated_rel:
  "relaxNucleated row tc cc (m, rel @ r) =
     (case relaxNucleated row tc cc (m, r) of (m', r') \<Rightarrow> (m', rel @ r'))"
  by (simp add: relaxNucleated_def)

lemma relaxedComponentMatch_rel:
  "relaxedComponentMatch row T C rel = appR rel (relaxedComponentMatch row T C [])"
proof (cases "T COMPONENT")
  case None
  then show ?thesis by (simp add: relaxedComponentMatch_def)
next
  case (Some tcs)
  show ?thesis
  proof (cases "relaxDenominator row T (jsHead tcs) (jsHead (parts C COMPONENT)) []")
    case (Inl e)
    then show ?thesis
      by (simp add: relaxedComponentMatch_def Some relaxDenominator_rel [of _ _ _ _ rel])
  next
    case (Inr st1)
    obtain m1 r1 where st1: "st1 = (m1, r1)" by (cases st1)
    show ?thesis
    proof (cases "relaxActualNormal T (jsHead tcs) (jsHead (parts C COMPONENT)) (m1, r1)")
      case (Inl e)
      then show ?thesis
        using Inr st1
        by (simp add: relaxedComponentMatch_def Some relaxDenominator_rel [of _ _ _ _ rel]
            relaxActualNormal_rel)
    next
      case (Inr st2)
      obtain m2 r2 where st2: "st2 = (m2, r2)" by (cases st2)
      obtain m3 r3 where st3: "relaxFragments row (jsHead tcs) (jsHead (parts C COMPONENT)) (m2, r2) = (m3, r3)"
        by (cases "relaxFragments row (jsHead tcs) (jsHead (parts C COMPONENT)) (m2, r2)")
      obtain m4 r4 where st4: "relaxNucleated row (jsHead tcs) (jsHead (parts C COMPONENT)) (m3, r3) = (m4, r4)"
        by (cases "relaxNucleated row (jsHead tcs) (jsHead (parts C COMPONENT)) (m3, r3)")
      show ?thesis
        using \<open>relaxDenominator row T (jsHead tcs) (jsHead (parts C COMPONENT)) [] = Inr st1\<close> st1 Inr st2 st3 st4
        by (simp add: relaxedComponentMatch_def Some relaxDenominator_rel [of _ _ _ _ rel]
            relaxActualNormal_rel relaxFragments_rel relaxNucleated_rel)
    qed
  qed
qed

lemma matchPart_rel:
  "matchPart row pt T C lvl rel = appR rel (matchPart row pt T C lvl [])"
proof (cases "T pt")
  case None
  then show ?thesis by (simp add: matchPart_def)
next
  case (Some src)
  show ?thesis
  proof (cases "(src = [] \<and> parts C pt = []) \<or> list_ex (\<lambda>e. e \<in> set (parts C pt)) src")
    case True
    then show ?thesis using Some by (simp add: matchPart_def)
  next
    case False
    then show ?thesis
      using Some
      by (cases pt)
        (auto simp: matchPart_def Let_def shouldTryDefaultSpecimen_def
          relaxedComponentMatch_rel [of _ _ _ rel])
  qed
qed

lemma matchPart_partMatches:
  "matchPart row pt T C lvl rel = Inr (m, rel') \<Longrightarrow> partMatches row T C lvl pt = Some m"
  by (subst (asm) matchPart_rel) (auto simp: partMatches_def appR_def split: sum.splits)

lemma partMatches_matchPart:
  "partMatches row T C lvl pt = Some m \<Longrightarrow> \<exists>rel'. matchPart row pt T C lvl rel = Inr (m, rel')"
  by (subst matchPart_rel) (auto simp: partMatches_def appR_def split: sum.splits)

lemma partMatches_None:
  "partMatches row T C lvl pt = None \<Longrightarrow> \<exists>e. matchPart row pt T C lvl rel = Inl e"
  by (subst matchPart_rel) (auto simp: partMatches_def appR_def split: sum.splits)


lemma scanParts_total:
  "\<forall>pt\<in>set pts. partMatches row T C lvl pt \<noteq> None \<Longrightarrow> length mism \<le> 2 \<Longrightarrow>
   \<exists>rel'. scanParts row T C lvl pts mism rel =
     Inr (take 3 (mism @ filter (\<lambda>pt. partMatches row T C lvl pt = Some False) pts), rel')"
proof (induction pts arbitrary: mism rel)
  case Nil
  then show ?case by simp
next
  case (Cons pt pts)
  from Cons.prems(1) obtain m where m: "partMatches row T C lvl pt = Some m" by auto
  then obtain rel1 where r: "matchPart row pt T C lvl rel = Inr (m, rel1)"
    using partMatches_matchPart by blast
  show ?case
  proof (cases m)
    case True
    with Cons.IH [of mism rel1] Cons.prems m r show ?thesis by simp
  next
    case False
    show ?thesis
    proof (cases "length mism = 2")
      case True
      with False m r show ?thesis by simp
    next
      case F2: False
      with Cons.prems(2) have "length (mism @ [pt]) \<le> 2" by simp
      with Cons.IH [of "mism @ [pt]" rel1] Cons.prems(1) False m r F2 show ?thesis by simp
    qed
  qed
qed

lemma scanParts_Inr:
  "scanParts row T C lvl pts mism rel = Inr (mism', rel') \<Longrightarrow> length mism \<le> 2 \<Longrightarrow>
   mism' = take 3 (mism @ filter (\<lambda>pt. partMatches row T C lvl pt = Some False) pts) \<and>
   (length mism' \<le> 2 \<longrightarrow> (\<forall>pt\<in>set pts. partMatches row T C lvl pt \<noteq> None))"
proof (induction pts arbitrary: mism rel)
  case Nil
  then show ?case by simp
next
  case (Cons pt pts)
  from Cons.prems(1) obtain m rel1 where r: "matchPart row pt T C lvl rel = Inr (m, rel1)"
    by (auto split: sum.splits)
  then have m: "partMatches row T C lvl pt = Some m" by (rule matchPart_partMatches)
  show ?case
  proof (cases m)
    case True
    with Cons.IH [of mism rel1] Cons.prems m r show ?thesis by auto
  next
    case False
    show ?thesis
    proof (cases "length mism = 2")
      case True
      with False m r Cons.prems show ?thesis by auto
    next
      case F2: False
      with Cons.prems(2) have "length (mism @ [pt]) \<le> 2" by simp
      with Cons.IH [of "mism @ [pt]" rel1] Cons.prems False m r F2 show ?thesis by auto
    qed
  qed
qed

lemma partMatches_METHOD:
  "partMatches row T C lvl METHOD \<noteq> None"
  "1 < lvl \<Longrightarrow> partMatches row T C lvl METHOD = Some True"
  by (auto simp: partMatches_def matchPart_def Let_def split: option.splits)

lemma partMatches_CLASS:
  "partMatches row T C lvl CLASS \<noteq> None"
  "2 < lvl \<Longrightarrow> partMatches row T C lvl CLASS = Some True"
  by (auto simp: partMatches_def matchPart_def Let_def split: option.splits)

lemma partMatches_level_independent:
  "pt \<noteq> METHOD \<Longrightarrow> pt \<noteq> CLASS \<Longrightarrow> partMatches row T C lvl pt = partMatches row T C lvl' pt"
  by (cases pt; cases "T pt") (simp_all add: partMatches_def matchPart_def Let_def)

lemma distinct_mismatchedParts: "distinct (mismatchedParts row T C lvl)"
  by (simp add: mismatchedParts_def PartTypeList_def)

lemma set_mismatchedParts:
  "set (mismatchedParts row T C lvl) = {pt. partMatches row T C lvl pt = Some False}"
proof -
  have "set PartTypeList = UNIV"
  proof -
    have "pt \<in> set PartTypeList" for pt by (cases pt) (simp_all add: PartTypeList_def)
    then show ?thesis by blast
  qed
  then show ?thesis by (auto simp: mismatchedParts_def)
qed

lemma two_in_MC:
  assumes "distinct ms" "length ms = 2" "set ms \<subseteq> {METHOD, CLASS}"
  shows "METHOD \<in> set ms \<and> CLASS \<in> set ms"
proof -
  from assms(2) obtain a b where ms: "ms = [a, b]"
    by (cases ms; cases "tl ms") auto
  with assms show ?thesis by auto
qed

lemma two_MC_only:
  assumes "distinct ms" "length ms = 2" "METHOD \<in> set ms" "CLASS \<in> set ms"
  shows "set ms \<subseteq> {METHOD, CLASS}"
proof -
  from assms(2) obtain a b where ms: "ms = [a, b]"
    by (cases ms; cases "tl ms") auto
  with assms show ?thesis by auto
qed

lemma isAltLoinc_by_mismatches:
  assumes ret: "\<forall>pt. partMatches row T C lvl pt \<noteq> None"
  shows "(mismatchedParts row T C lvl = [] \<longrightarrow>
            (\<exists>r. isAltLoinc row T C lvl = Inr r \<and> st_matched r)) \<and>
         (mismatchedParts row T C lvl \<noteq> [] \<and> length (mismatchedParts row T C lvl) \<le> 2 \<and>
          set (mismatchedParts row T C lvl) \<subseteq> {METHOD, CLASS} \<and> lvl < 3 \<longrightarrow>
            isAltLoinc row T C lvl = isAltLoinc row T C (lvl + 1)) \<and>
         (2 < length (mismatchedParts row T C lvl) \<or>
          \<not> set (mismatchedParts row T C lvl) \<subseteq> {METHOD, CLASS} \<longrightarrow>
            isAltLoinc row T C lvl = Inr \<lparr>st_matched = False, st_relaxations = None\<rparr>)"
proof -
  let ?ms = "mismatchedParts row T C lvl"
  from ret have "\<forall>pt\<in>set PartTypeList. partMatches row T C lvl pt \<noteq> None" by simp
  from scanParts_total [OF this, of "[]" "[]"]
  obtain rel where scan: "scanParts row T C lvl PartTypeList [] [] = Inr (take 3 ?ms, rel)"
    by (auto simp: mismatchedParts_def)
  have d: "distinct ?ms" by (rule distinct_mismatchedParts)
  have a: "?ms = [] \<longrightarrow> (\<exists>r. isAltLoinc row T C lvl = Inr r \<and> st_matched r)"
    using scan by (subst isAltLoinc.simps) auto
  have b: "?ms \<noteq> [] \<and> length ?ms \<le> 2 \<and> set ?ms \<subseteq> {METHOD, CLASS} \<and> lvl < 3 \<longrightarrow>
            isAltLoinc row T C lvl = isAltLoinc row T C (lvl + 1)"
  proof (intro impI, elim conjE)
    assume ne: "?ms \<noteq> []" and le: "length ?ms \<le> 2" and sub: "set ?ms \<subseteq> {METHOD, CLASS}"
      and lv: "lvl < 3"
    from ne have "0 < length ?ms" by simp
    with le have "length ?ms = 1 \<or> length ?ms = 2" by arith
    then have cond: "length ?ms = 1 \<and> (METHOD \<in> set ?ms \<or> CLASS \<in> set ?ms) \<or>
                     length ?ms = 2 \<and> METHOD \<in> set ?ms \<and> CLASS \<in> set ?ms"
    proof
      assume l1: "length ?ms = 1"
      then obtain a where "?ms = [a]" by (cases ?ms) auto
      with sub l1 show ?thesis by auto
    next
      assume l2: "length ?ms = 2"
      with two_in_MC [OF d l2 sub] show ?thesis by simp
    qed
    from le have tk: "take 3 ?ms = ?ms" by simp
    show "isAltLoinc row T C lvl = isAltLoinc row T C (lvl + 1)"
      using scan ne lv cond unfolding tk
      by (subst isAltLoinc.simps) (simp add: maxRelaxLevel_def)
  qed
  have c: "2 < length ?ms \<or> \<not> set ?ms \<subseteq> {METHOD, CLASS} \<longrightarrow>
            isAltLoinc row T C lvl = Inr \<lparr>st_matched = False, st_relaxations = None\<rparr>"
  proof (intro impI)
    assume h: "2 < length ?ms \<or> \<not> set ?ms \<subseteq> {METHOD, CLASS}"
    show "isAltLoinc row T C lvl = Inr \<lparr>st_matched = False, st_relaxations = None\<rparr>"
    proof (cases "2 < length ?ms")
      case True
      then have "length (take 3 ?ms) = 3" by simp
      with scan obtain ms' where "scanParts row T C lvl PartTypeList [] [] = Inr (ms', rel)"
        and "length ms' = 3" by blast
      then show ?thesis
        by (subst isAltLoinc.simps) auto
    next
      case False
      with h have ns: "\<not> set ?ms \<subseteq> {METHOD, CLASS}" by simp
      from False have tk: "take 3 ?ms = ?ms" by simp
      have ne: "?ms \<noteq> []" using ns by auto
      have n1: "\<not> (length ?ms = 1 \<and> (METHOD \<in> set ?ms \<or> CLASS \<in> set ?ms))"
      proof
        assume l1: "length ?ms = 1 \<and> (METHOD \<in> set ?ms \<or> CLASS \<in> set ?ms)"
        then obtain a where "?ms = [a]" by (cases ?ms) auto
        with l1 ns show False by auto
      qed
      have n2: "\<not> (length ?ms = 2 \<and> METHOD \<in> set ?ms \<and> CLASS \<in> set ?ms)"
        using two_MC_only [OF d] ns by blast
      show ?thesis
        using scan ne n1 n2 unfolding tk
        by (subst isAltLoinc.simps) auto
    qed
  qed
  from a b c show ?thesis by blast
qed


lemma accept_imp_others_match:
  "isAltLoinc row T C n = Inr r \<Longrightarrow> st_matched r \<Longrightarrow> pt \<noteq> METHOD \<Longrightarrow> pt \<noteq> CLASS \<Longrightarrow>
   partMatches row T C 0 pt = Some True"
proof (induction "maxRelaxLevel - n" arbitrary: n rule: less_induct)
  case less
  from less.prems(1) obtain ms rel where
    scan: "scanParts row T C n PartTypeList [] [] = Inr (ms, rel)"
    by (subst (asm) isAltLoinc.simps) (auto split: sum.splits)
  from scanParts_Inr [OF scan]
  have ms: "ms = take 3 (mismatchedParts row T C n)"
    and all: "length ms \<le> 2 \<longrightarrow> (\<forall>pt\<in>set PartTypeList. partMatches row T C n pt \<noteq> None)"
    by (simp_all add: mismatchedParts_def)
  show ?case
  proof (cases "ms = []")
    case True
    with ms have e: "mismatchedParts row T C n = []" by simp
    have "pt \<in> set PartTypeList" by (cases pt) (simp_all add: PartTypeList_def)
    with all True have "partMatches row T C n pt \<noteq> None" by simp
    moreover from e have "partMatches row T C n pt \<noteq> Some False"
      using set_mismatchedParts [of row T C n] by auto
    ultimately have "partMatches row T C n pt = Some True" by (cases "partMatches row T C n pt") auto
    with partMatches_level_independent [OF less.prems(3,4), of row T C n 0] show ?thesis by simp
  next
    case False
    show ?thesis
    proof (cases "n < maxRelaxLevel \<and>
                  (length ms = 1 \<and> (METHOD \<in> set ms \<or> CLASS \<in> set ms) \<or>
                   length ms = 2 \<and> METHOD \<in> set ms \<and> CLASS \<in> set ms)")
      case True
      with scan False less.prems(1) have "isAltLoinc row T C (n + 1) = Inr r"
        by (subst (asm) isAltLoinc.simps) auto
      moreover from True have "n < maxRelaxLevel" by simp
      then have "maxRelaxLevel - (n + 1) < maxRelaxLevel - n" by arith
      ultimately show ?thesis using less.hyps less.prems(2,3,4) by blast
    next
      case F: False
      with scan False less.prems(1) have "r = \<lparr>st_matched = False, st_relaxations = None\<rparr>"
        by (subst (asm) isAltLoinc.simps) auto
      with less.prems(2) show ?thesis by simp
    qed
  qed
qed

lemma others_match_imp_accept:
  assumes oth: "\<And>pt. pt \<noteq> METHOD \<Longrightarrow> pt \<noteq> CLASS \<Longrightarrow> partMatches row T C 0 pt = Some True"
  shows "\<exists>r. isAltLoinc row T C n = Inr r \<and> st_matched r"
proof (induction "maxRelaxLevel - n" arbitrary: n rule: less_induct)
  case less
  have oth_n: "partMatches row T C n pt = Some True" if "pt \<noteq> METHOD" "pt \<noteq> CLASS" for pt
    using oth [OF that] partMatches_level_independent [OF that, of row T C n 0] by simp
  have ret: "\<forall>pt. partMatches row T C n pt \<noteq> None"
  proof
    fix pt show "partMatches row T C n pt \<noteq> None"
      using oth_n [of pt] partMatches_METHOD(1) [of row T C n] partMatches_CLASS(1) [of row T C n]
      by (cases "pt = METHOD"; cases "pt = CLASS") auto
  qed
  let ?ms = "mismatchedParts row T C n"
  have sub: "set ?ms \<subseteq> {METHOD, CLASS}"
    using oth_n by (fastforce simp: set_mismatchedParts)
  have "card (set ?ms) \<le> card {METHOD, CLASS}"
    by (rule card_mono) (use sub in simp_all)
  then have le: "length ?ms \<le> 2"
    using distinct_card [OF distinct_mismatchedParts [of row T C n]] by simp
  note byms = isAltLoinc_by_mismatches [OF ret]
  show ?case
  proof (cases "?ms = []")
    case True
    with byms show ?thesis by blast
  next
    case False
    have lt: "n < 3"
    proof (rule ccontr)
      assume "\<not> n < 3"
      then have "partMatches row T C n METHOD = Some True" "partMatches row T C n CLASS = Some True"
        by (simp_all add: partMatches_METHOD partMatches_CLASS)
      with sub have "set ?ms = {}" by (auto simp: set_mismatchedParts)
      with False show False by simp
    qed
    with byms False le sub have "isAltLoinc row T C n = isAltLoinc row T C (n + 1)" by blast
    moreover from lt have "maxRelaxLevel - (n + 1) < maxRelaxLevel - n"
      by (simp add: maxRelaxLevel_def)
    ultimately show ?thesis using less.hyps by metis
  qed
qed

lemma not_compatible_XXX:
  "sys \<noteq> ''XXX'' \<Longrightarrow> \<not> partsCompatible SYSTEM (Some sys) (Some ''XXX'') row"
  by (auto simp: partsCompatible_def Let_def falsy_def bothInList_def synonymsInclude_def
      getPartSynonyms_def partSynonymsMap_def partSynonyms_def split: if_splits)

lemma ex_pm_exact:
  "partMatches exRow exTarget (exCandidate n [''Urine''] [''Qn''] []) 0 pt = Some True"
  by (cases pt) (simp_all add: partMatches_def matchPart_def exTarget_def exCandidate_def)

lemma ex_pm_method:
  "partMatches exRow exTarget (exCandidate n [''Urine''] [''Qn''] [''Test strip'']) 0 pt = Some (pt \<noteq> METHOD)"
  by (cases pt) (simp_all add: partMatches_def matchPart_def exTarget_def exCandidate_def)

lemma ex_pm_scale:
  "partMatches exRow exTarget (exCandidate n [''Urine''] [''Ord''] []) 0 pt = Some (pt \<noteq> SCALE)"
  by (cases pt) (simp_all add: partMatches_def matchPart_def exTarget_def exCandidate_def)

lemma ex_accept0:
  "isAltLoinc exRow exTarget (exCandidate ''5792-7'' [''Urine''] [''Qn''] [''Test strip'']) 0 =
     Inr \<lparr>st_matched = True, st_relaxations = Some [''METHOD-match-waived'']\<rparr>"
  by (simp add: isAltLoinc.simps PartTypeList_def matchPart_def exTarget_def exCandidate_def maxRelaxLevel_def)

text \<open>
  Claim C2.  For every record, target term and candidate on which the seven part tests
  return: with no mismatched part type at the current level the candidate is accepted; with
  one or two mismatches, all among METHOD and CLASS, and a level below 3, the result is that
  of the matcher at the next level; with more than two mismatches, or with a mismatch
  outside METHOD and CLASS, the candidate is rejected at once, whatever the level.  From
  level 3 on neither METHOD nor CLASS can mismatch, so no retry is left.
\<close>

theorem C2_tiered_matcher:
  assumes "\<forall>pt. partMatches row T C lvl pt \<noteq> None"
  shows "(mismatchedParts row T C lvl = [] \<longrightarrow>
            (\<exists>r. isAltLoinc row T C lvl = Inr r \<and> st_matched r)) \<and>
         (mismatchedParts row T C lvl \<noteq> [] \<and> length (mismatchedParts row T C lvl) \<le> 2 \<and>
          set (mismatchedParts row T C lvl) \<subseteq> {METHOD, CLASS} \<and> lvl < 3 \<longrightarrow>
            isAltLoinc row T C lvl = isAltLoinc row T C (lvl + 1)) \<and>
         (2 < length (mismatchedParts row T C lvl) \<or>
          \<not> set (mismatchedParts row T C lvl) \<subseteq> {METHOD, CLASS} \<longrightarrow>
            isAltLoinc row T C lvl = Inr \<lparr>st_matched = False, st_relaxations = None\<rparr>) \<and>
         (3 \<le> lvl \<longrightarrow> METHOD \<notin> set (mismatchedParts row T C lvl) \<and>
                      CLASS \<notin> set (mismatchedParts row T C lvl))"
proof -
  have "METHOD \<notin> set (mismatchedParts row T C lvl) \<and> CLASS \<notin> set (mismatchedParts row T C lvl)"
    if "3 \<le> lvl"
    using that partMatches_METHOD(2) [of lvl row T C] partMatches_CLASS(2) [of lvl row T C]
    by (simp add: set_mismatchedParts)
  with isAltLoinc_by_mismatches [OF assms] show ?thesis by blast
qed

theorem C2_witness:
  "(\<forall>pt. partMatches exRow exTarget (exCandidate ''2350-7'' [''Urine''] [''Qn''] []) 0 pt \<noteq> None) \<and>
   mismatchedParts exRow exTarget (exCandidate ''2350-7'' [''Urine''] [''Qn''] []) 0 = [] \<and>
   (\<exists>r. isAltLoinc exRow exTarget (exCandidate ''2350-7'' [''Urine''] [''Qn''] []) 0 = Inr r \<and> st_matched r) \<and>
   (\<forall>pt. partMatches exRow exTarget (exCandidate ''5792-7'' [''Urine''] [''Qn''] [''Test strip'']) 0 pt \<noteq> None) \<and>
   mismatchedParts exRow exTarget (exCandidate ''5792-7'' [''Urine''] [''Qn''] [''Test strip'']) 0 = [METHOD] \<and>
   isAltLoinc exRow exTarget (exCandidate ''5792-7'' [''Urine''] [''Qn''] [''Test strip'']) 0 =
     isAltLoinc exRow exTarget (exCandidate ''5792-7'' [''Urine''] [''Qn''] [''Test strip'']) 1 \<and>
   (\<forall>pt. partMatches exRow exTarget (exCandidate ''2349-9'' [''Urine''] [''Ord''] []) 0 pt \<noteq> None) \<and>
   mismatchedParts exRow exTarget (exCandidate ''2349-9'' [''Urine''] [''Ord''] []) 0 = [SCALE] \<and>
   isAltLoinc exRow exTarget (exCandidate ''2349-9'' [''Urine''] [''Ord''] []) 0 =
     Inr \<lparr>st_matched = False, st_relaxations = None\<rparr>"
proof -
  have h1: "\<forall>pt. partMatches exRow exTarget (exCandidate ''2350-7'' [''Urine''] [''Qn''] []) 0 pt \<noteq> None"
    by (simp add: ex_pm_exact)
  have m1: "mismatchedParts exRow exTarget (exCandidate ''2350-7'' [''Urine''] [''Qn''] []) 0 = []"
    by (simp add: mismatchedParts_def ex_pm_exact)
  have h2: "\<forall>pt. partMatches exRow exTarget (exCandidate ''5792-7'' [''Urine''] [''Qn''] [''Test strip'']) 0 pt \<noteq> None"
    by (simp add: ex_pm_method)
  have m2: "mismatchedParts exRow exTarget (exCandidate ''5792-7'' [''Urine''] [''Qn''] [''Test strip'']) 0 = [METHOD]"
    by (simp add: mismatchedParts_def ex_pm_method PartTypeList_def)
  have h3: "\<forall>pt. partMatches exRow exTarget (exCandidate ''2349-9'' [''Urine''] [''Ord''] []) 0 pt \<noteq> None"
    by (simp add: ex_pm_scale)
  have m3: "mismatchedParts exRow exTarget (exCandidate ''2349-9'' [''Urine''] [''Ord''] []) 0 = [SCALE]"
    by (simp add: mismatchedParts_def ex_pm_scale PartTypeList_def)
  show ?thesis
    using C2_tiered_matcher [OF h1] C2_tiered_matcher [OF h2] C2_tiered_matcher [OF h3]
      h1 h2 h3 m1 m2 m3
    by simp
qed

text \<open>
  Claim C3.  Relaxation is monotone in the level: a candidate that the matcher accepts when
  invoked at level \<open>n\<close> is accepted when it is invoked at any greater level.
\<close>

theorem C3_relaxation_monotone:
  "isAltLoinc row T C n = Inr r \<Longrightarrow> st_matched r \<Longrightarrow> n < n' \<Longrightarrow>
   \<exists>r'. isAltLoinc row T C n' = Inr r' \<and> st_matched r'"
  using accept_imp_others_match others_match_imp_accept by blast

theorem C3_relaxation_monotone_witness:
  "isAltLoinc exRow exTarget (exCandidate ''5792-7'' [''Urine''] [''Qn''] [''Test strip'']) 0 =
     Inr \<lparr>st_matched = True, st_relaxations = Some [''METHOD-match-waived'']\<rparr> \<and>
   (0::nat) < 2 \<and>
   (\<exists>r'. isAltLoinc exRow exTarget (exCandidate ''5792-7'' [''Urine''] [''Qn''] [''Test strip'']) 2 = Inr r' \<and>
         st_matched r')"
  using C3_relaxation_monotone [OF ex_accept0, of 2] ex_accept0 by simp

text \<open>
  Claim C8, as stated, fails.  The record below has class CHEM (default specimen Ser/Plas)
  and specimen hint Ser; the target asks for Urine and the candidate's system is Ser.  The
  candidate's system is compatible with the record's specimen hint and with the default
  specimen of the class, and yet the SYSTEM part is a mismatch.
\<close>

theorem C8_counterexample:
  "exTarget SYSTEM = Some [''Urine''] \<and>
   parts (exCandidate ''2339-0'' [''Ser''] [''Qn''] []) SYSTEM = [''Ser''] \<and>
   partsCompatible SYSTEM (Some (SPECIMEN_SOURCE exRow))
     (jsHead (parts (exCandidate ''2339-0'' [''Ser''] [''Qn''] []) SYSTEM)) exRow \<and>
   partsCompatible SYSTEM (getDefaultSpecimen exRow)
     (jsHead (parts (exCandidate ''2339-0'' [''Ser''] [''Qn''] []) SYSTEM)) exRow \<and>
   matchPart exRow SYSTEM exTarget (exCandidate ''2339-0'' [''Ser''] [''Qn''] []) 0 [] = Inr (False, [])"
  by (simp add: exTarget_def exCandidate_def exRow_def matchPart_def partsCompatible_def
      getDefaultSpecimen_def defaultSpecimenPerClass_def jsHead_def falsy_def bothInList_def
      synonymsInclude_def getPartSynonyms_def partSynonymsMap_def partSynonyms_def
      shouldTryDefaultSpecimen_def)

text \<open>
  Claim C8, amended.  When the SYSTEM part fails the exact-match rule, \<^verbatim>\<open>matchPart\<close> still
  accepts it, with no tag, if one of the target's system values is compatible
  (\<^verbatim>\<open>partsCompatible\<close>) with the candidate's system; otherwise it accepts it with the tag
  \<^verbatim>\<open>specimen-xxx-match-waived\<close> if the candidate's system is XXX; otherwise the part is a
  mismatch.  Neither the record's specimen hint nor the default specimen of the class is
  consulted (the default-specimen test is switched off), and whenever the candidate's system
  is XXX the part is accepted with the waiver tag.
\<close>

theorem C8_system_relaxation:
  assumes "T SYSTEM = Some src"
    and "\<not> ((src = [] \<and> parts C SYSTEM = []) \<or> list_ex (\<lambda>e. e \<in> set (parts C SYSTEM)) src)"
  shows "matchPart row SYSTEM T C lvl rel =
           (if list_ex (\<lambda>sys. partsCompatible SYSTEM (Some sys) (jsHead (parts C SYSTEM)) row) src
            then Inr (True, rel)
            else if jsHead (parts C SYSTEM) = Some ''XXX''
            then Inr (True, rel @ [''specimen-xxx-match-waived''])
            else Inr (False, rel)) \<and>
         (jsHead (parts C SYSTEM) = Some ''XXX'' \<longrightarrow>
            matchPart row SYSTEM T C lvl rel = Inr (True, rel @ [''specimen-xxx-match-waived'']))"
proof -
  have m: "matchPart row SYSTEM T C lvl rel =
           (if list_ex (\<lambda>sys. partsCompatible SYSTEM (Some sys) (jsHead (parts C SYSTEM)) row) src
            then Inr (True, rel)
            else if jsHead (parts C SYSTEM) = Some ''XXX''
            then Inr (True, rel @ [''specimen-xxx-match-waived''])
            else Inr (False, rel))"
    using assms by (auto simp: matchPart_def Let_def shouldTryDefaultSpecimen_def)
  have "\<not> list_ex (\<lambda>sys. partsCompatible SYSTEM (Some sys) (jsHead (parts C SYSTEM)) row) src"
    if x: "jsHead (parts C SYSTEM) = Some ''XXX''"
  proof -
    from x have "''XXX'' \<in> set (parts C SYSTEM)"
      by (auto simp: jsHead_def split: list.splits)
    with assms(2) have nx: "''XXX'' \<notin> set src" by (auto simp: list_ex_iff)
    have "\<not> partsCompatible SYSTEM (Some sys) (Some ''XXX'') row" if "sys \<in> set src" for sys
      using that nx not_compatible_XXX [of sys row] by auto
    then show ?thesis
      by (simp add: list_ex_iff x)
  qed
  with m show ?thesis by simp
qed

theorem C8_system_relaxation_witness:
  "exTarget SYSTEM = Some [''Urine''] \<and>
   matchPart exRow SYSTEM exTarget (exCandidate ''2348-1'' [''XXX''] [''Qn''] []) 3 [''METHOD-empty-ok''] =
     Inr (True, [''METHOD-empty-ok'', ''specimen-xxx-match-waived''])"
proof -
  have a: "exTarget SYSTEM = Some [''Urine'']"
    by (simp add: exTarget_def)
  have b: "\<not> (([''Urine''] = [] \<and> parts (exCandidate ''2348-1'' [''XXX''] [''Qn''] []) SYSTEM = []) \<or>
             list_ex (\<lambda>e. e \<in> set (parts (exCandidate ''2348-1'' [''XXX''] [''Qn''] []) SYSTEM)) [''Urine''])"
    by (simp add: exCandidate_def)
  have c: "jsHead (parts (exCandidate ''2348-1'' [''XXX''] [''Qn''] []) SYSTEM) = Some ''XXX''"
    by (simp add: exCandidate_def jsHead_def)
  have "jsHead (parts (exCandidate ''2348-1'' [''XXX''] [''Qn''] []) SYSTEM) = Some ''XXX'' \<longrightarrow>
        matchPart exRow SYSTEM exTarget (exCandidate ''2348-1'' [''XXX''] [''Qn''] []) 3 [''METHOD-empty-ok''] =
          Inr (True, [''METHOD-empty-ok''] @ [''specimen-xxx-match-waived''])"
    using C8_system_relaxation [of exTarget "[''Urine'']" "exCandidate ''2348-1'' [''XXX''] [''Qn''] []"
      exRow 3 "[''METHOD-empty-ok'']", OF a b]
    by (rule conjunct2)
  with a c show ?thesis by simp
qed

section \<open>Properties of the best-match selector\<close>

lemma set_dedupLoinc: "set (dedupLoinc seen cs) \<subseteq> set cs"
  by (induction cs arbitrary: seen) auto

lemma dedupLoinc_disjoint: "LOINC_NUM ` set (dedupLoinc seen cs) \<inter> set seen = {}"
proof (induction cs arbitrary: seen)
  case Nil
  then show ?case by simp
next
  case (Cons c cs)
  from Cons.IH [of seen] Cons.IH [of "seen @ [LOINC_NUM c]"] show ?case by auto
qed

lemma dedupLoinc_not_seen: "c \<in> set (dedupLoinc seen cs) \<Longrightarrow> LOINC_NUM c \<notin> set seen"
  using dedupLoinc_disjoint [of seen cs] by blast

lemma distinct_dedupLoinc: "distinct (map LOINC_NUM (dedupLoinc seen cs))"
proof (induction cs arbitrary: seen)
  case Nil
  then show ?case by simp
next
  case (Cons c cs)
  have "LOINC_NUM c \<notin> LOINC_NUM ` set (dedupLoinc (seen @ [LOINC_NUM c]) cs)"
    using dedupLoinc_disjoint [of "seen @ [LOINC_NUM c]" cs] by auto
  with Cons.IH show ?case by simp
qed

lemma sort_key_head_least:
  "sort_key f xs = c0 # cs \<Longrightarrow> c \<in> set cs \<Longrightarrow> f c0 \<le> f c"
proof -
  assume a: "sort_key f xs = c0 # cs" and c: "c \<in> set cs"
  have "sorted (map f (sort_key f xs))" by (rule sorted_sort_key)
  with a c show ?thesis by auto
qed

lemma score_scoreCandidate: "\<exists>s. score (scoreCandidate row m) = Some s"
  by (simp add: scoreCandidate_def Let_def)

lemma scoreCandidate_formula:
  "scoreCandidate row m = m\<lparr>score := Some (
     50 - 25 * root 4 (real (case relaxations m of None \<Rightarrow> 0 | Some rs \<Rightarrow> length rs))
        - (if STATUS m = ''DEPRECATED'' then 20 else 0)
        - (if STATUS m = ''DISCOURAGED'' then 10 else 0)
        + (if rowPart row SYSTEM = ''XXX'' \<and> inferredNames row SYSTEM = None \<and>
              (partsCompatible SYSTEM (jsHead (parts m SYSTEM)) (Some (SPECIMEN_SOURCE row)) row \<or>
               partsCompatible SYSTEM (jsHead (parts m SYSTEM)) (getDefaultSpecimen row) row)
           then 35 else 0)
        + (if cellTruthy (RAW_UNIT row) \<and> RAW_UNIT row = Str (EXAMPLE_UCUM_UNITS m) then 10 else 0)
        + (if countMatchedParts row m = 7 then 50 else 0))\<rparr>"
proof -
  define u where "u \<longleftrightarrow> cellTruthy (RAW_UNIT row) \<and> RAW_UNIT row = Str (EXAMPLE_UCUM_UNITS m)"
  show ?thesis
    unfolding scoreCandidate_def Let_def u_def [symmetric]
    by (cases "relaxations m") (simp_all add: PartTypeList_def)
qed

lemma set_selectBestMatch:
  assumes "2 \<le> length allMatches" "selectBestMatch row allMatches = (Some best, Some rest)"
  shows "set (best # rest) \<subseteq> scoreCandidate row ` set allMatches"
proof -
  from assms(1) obtain m m' ms where am: "allMatches = m # m' # ms"
    by (cases allMatches; cases "tl allMatches") auto
  let ?sorted = "sort_key scoreKey (map (scoreCandidate row) allMatches)"
  from assms(2) am obtain c0 cs where s: "?sorted = c0 # cs"
    and b: "best = c0" and r: "rest = dedupLoinc [LOINC_NUM c0] cs"
    by (cases ?sorted) (auto simp: selectBestMatch_def)
  have "set (c0 # cs) = scoreCandidate row ` set allMatches"
    using s by (metis set_sort set_map)
  with b r set_dedupLoinc [of "[LOINC_NUM c0]" cs] show ?thesis by auto
qed

lemma ex_count: "countMatchedParts exRow (exMatch n st u [''Urine''] rel) = 6"
  by (simp add: countMatchedParts_def partCounts_def PartTypeList_def exRow_def exMatch_def
      inferredNames_def jsHead_def falsy_def)

lemma ex_count_nounit: "countMatchedParts (exRow\<lparr>RAW_UNIT := Str []\<rparr>) (exMatch n st u [''Urine''] rel) = 6"
  by (simp add: countMatchedParts_def partCounts_def PartTypeList_def exRow_def exMatch_def
      inferredNames_def jsHead_def falsy_def)

lemma ex_score1:
  "scoreCandidate exRow (exMatch ''5792-7'' ''ACTIVE'' ''mg/dL'' [''Urine''] (Some [''METHOD-match-waived''])) =
     (exMatch ''5792-7'' ''ACTIVE'' ''mg/dL'' [''Urine''] (Some [''METHOD-match-waived'']))\<lparr>score := Some 35\<rparr>"
  unfolding scoreCandidate_formula ex_count
  apply (simp add: exRow_def cellTruthy_def)
  apply (simp add: exMatch_def)
  done

lemma ex_score2:
  "scoreCandidate exRow (exMatch ''2350-7'' ''DEPRECATED'' ''g/L'' [''Urine''] None) =
     (exMatch ''2350-7'' ''DEPRECATED'' ''g/L'' [''Urine''] None)\<lparr>score := Some 30\<rparr>"
  unfolding scoreCandidate_formula ex_count
  apply (simp add: exRow_def cellTruthy_def)
  apply (simp add: exMatch_def)
  done

lemma ex_select:
  "selectBestMatch exRow
     [exMatch ''2350-7'' ''DEPRECATED'' ''g/L'' [''Urine''] None,
      exMatch ''5792-7'' ''ACTIVE'' ''mg/dL'' [''Urine''] (Some [''METHOD-match-waived''])] =
   (Some ((exMatch ''5792-7'' ''ACTIVE'' ''mg/dL'' [''Urine''] (Some [''METHOD-match-waived'']))\<lparr>score := Some 35\<rparr>),
    Some [(exMatch ''2350-7'' ''DEPRECATED'' ''g/L'' [''Urine''] None)\<lparr>score := Some 30\<rparr>])"
  unfolding selectBestMatch_def
  apply (simp add: ex_score1 ex_score2 scoreKey_def)
  apply (simp add: exMatch_def)
  done

lemma ex_serum_inferred: "inferAndFlag exRowSerum0 SYSTEM [''Ser/Plas''] ''parsed'' = Inr exRowSerum"
  by (simp add: inferAndFlag_def addInferredLoincParts_def addAlgoIssueAndJudgementIfPartsDisagree_def
     exRowSerum0_def exRowSerum_def exRow_def addPartSynonyms_def getPartSynonyms_def partSynonymsMap_def partSynonyms_def
     partsCompatible_def Let_def addAlgoMappingIssue_def partTypeName_def setAdd_def bothInList_def
     falsy_def synonymsInclude_def)

lemma ex_serum_target:
  "exTargetSerum = (\<lambda>pt. Some (case pt of CLASS \<Rightarrow> [''CHEM''] | COMPONENT \<Rightarrow> [''Glucose'']
                 | PROPERTY \<Rightarrow> [''MCnc''] | TIME \<Rightarrow> [''Pt''] | SYSTEM \<Rightarrow> [''Ser/Plas'', ''Ser'', ''Plas'']
                 | SCALE \<Rightarrow> [''Qn''] | METHOD \<Rightarrow> []))"
proof
  fix pt
  show "exTargetSerum pt = Some (case pt of CLASS \<Rightarrow> [''CHEM''] | COMPONENT \<Rightarrow> [''Glucose'']
                 | PROPERTY \<Rightarrow> [''MCnc''] | TIME \<Rightarrow> [''Pt''] | SYSTEM \<Rightarrow> [''Ser/Plas'', ''Ser'', ''Plas'']
                 | SCALE \<Rightarrow> [''Qn''] | METHOD \<Rightarrow> [])"
    by (cases pt) (simp_all add: exTargetSerum_def targetTermOf_def exCandidate_def addPartSynonyms_def
        getPartSynonyms_def partSynonymsMap_def partSynonyms_def setAdd_def)
qed

lemma ex_serum_accept:
  assumes "s \<in> {''Ser/Plas'', ''Ser'', ''Plas''}"
  shows "isAltLoinc exRowSerum exTargetSerum (exCandidate n [s] [''Qn''] []) 0 =
           Inr \<lparr>st_matched = True, st_relaxations = None\<rparr>"
  using assms
  by (auto simp add: isAltLoinc.simps PartTypeList_def matchPart_def ex_serum_target exCandidate_def
      maxRelaxLevel_def)

lemma ex_serum_table:
  "loincToParts (loincTable exEnvSerum) =
     [(''2345-7'', exCandidate ''2345-7'' [''Ser/Plas''] [''Qn''] []),
      (''2350-7'', exCandidate ''2350-7'' [''Urine''] [''Qn''] []),
      (''9101-1'', exCandidate ''9101-1'' [''Ser''] [''Qn''] []),
      (''9102-9'', exCandidate ''9102-9'' [''Plas''] [''Qn''] [])]"
  apply (simp add: loincToParts_def addLoincRow_def exEnvSerum_def exEnv_def exLoincRow_def exCandidate_def)
  apply (intro conjI ext)
  subgoal for pt by (cases pt) simp_all
  subgoal for pt by (cases pt) simp_all
  subgoal for pt by (cases pt) simp_all
  subgoal for pt by (cases pt) simp_all
  done

lemma ex_serum_query:
  "getLoincForParts exEnvSerum (filterPartsOf exTargetSerum) = Inr (SetOf [''2345-7'', ''9101-1'', ''9102-9''])"
  unfolding getLoincForParts_def ex_serum_table ex_serum_target
  by (simp add: buildLoincPartsIndex_def indexForPart_def exCandidate_def indexAdd_def jsGet_def
      objectPrototypeKeys_def setAdd_def PartTypeList_def Let_def filterPartsOf_def
      getLoincForPartsInternal_def indexLookup_def setOR_def setAND_def sortBy_def sizeLess_def
      elementsOf_def)

lemma ex_serum_find:
  "map_sum id snd (replaceAndFind exEnvSerum (loincToParts (loincTable exEnvSerum)) (Some ''2350-7'')
                     (getAltPartsFromInferred exRowSerum) exRowSerum) =
   Inr \<lparr>altLoincs = Some [toAltLoinc (exCandidate ''2345-7'' [''Ser/Plas''] [''Qn''] []) None,
                          toAltLoinc (exCandidate ''9101-1'' [''Ser''] [''Qn''] []) None,
                          toAltLoinc (exCandidate ''9102-9'' [''Plas''] [''Qn''] []) None],
        targetTerm = Some ''CHEM; Glucose; MCnc; Pt; Ser/Plas,Ser,Plas; Qn; -''\<rparr>"
proof -
  have alt: "getAltPartsFromInferred exRowSerum = [(SYSTEM, [''Ser/Plas''])]"
    by (simp add: getAltPartsFromInferred_def exRowSerum_def exRowSerum0_def exRow_def)
  have t: "targetTermOf [(SYSTEM, Some [''Ser/Plas''])] (parts (exCandidate ''2350-7'' [''Urine''] [''Qn''] [])) = exTargetSerum"
    by (simp add: exTargetSerum_def)
  have s: "targetTermString exTargetSerum = ''CHEM; Glucose; MCnc; Pt; Ser/Plas,Ser,Plas; Qn; -''"
    by (simp add: targetTermString_def ex_serum_target PartTypeList_def)
  show ?thesis
    unfolding alt replaceAndFind_def ex_serum_table
    apply (simp add: jsGet_def jsString_def Let_def t ex_serum_query elementsOf_def ex_serum_accept s)
    apply (simp add: exCandidate_def)
    done
qed

lemma ex_serum_count7:
  "countMatchedParts exRowSerum (toAltLoinc (exCandidate n [''Ser/Plas''] [''Qn''] []) rel) = 7"
  by (simp add: countMatchedParts_def partCounts_def PartTypeList_def exRowSerum_def exRowSerum0_def
      exRow_def toAltLoinc_def exCandidate_def inferredNames_def jsHead_def falsy_def)

lemma ex_serum_count6_Ser:
  "countMatchedParts exRowSerum (toAltLoinc (exCandidate n [''Ser''] [''Qn''] []) rel) = 6"
  by (simp add: countMatchedParts_def partCounts_def PartTypeList_def exRowSerum_def exRowSerum0_def
      exRow_def toAltLoinc_def exCandidate_def inferredNames_def jsHead_def falsy_def)

lemma ex_serum_count6_Plas:
  "countMatchedParts exRowSerum (toAltLoinc (exCandidate n [''Plas''] [''Qn''] []) rel) = 6"
  by (simp add: countMatchedParts_def partCounts_def PartTypeList_def exRowSerum_def exRowSerum0_def
      exRow_def toAltLoinc_def exCandidate_def inferredNames_def jsHead_def falsy_def)

lemma ex_serum_score110:
  "scoreCandidate exRowSerum (toAltLoinc (exCandidate n [''Ser/Plas''] [''Qn''] []) None) =
     (toAltLoinc (exCandidate n [''Ser/Plas''] [''Qn''] []) None)\<lparr>score := Some 110\<rparr>"
  unfolding scoreCandidate_formula
  apply (simp add: ex_serum_count7)
  apply (simp add: exRowSerum_def exRowSerum0_def exRow_def cellTruthy_def)
  apply (simp add: toAltLoinc_def exCandidate_def)
  done

lemma ex_serum_score60_Ser:
  "scoreCandidate exRowSerum (toAltLoinc (exCandidate n [''Ser''] [''Qn''] []) None) =
     (toAltLoinc (exCandidate n [''Ser''] [''Qn''] []) None)\<lparr>score := Some 60\<rparr>"
  unfolding scoreCandidate_formula
  apply (simp add: ex_serum_count6_Ser)
  apply (simp add: exRowSerum_def exRowSerum0_def exRow_def cellTruthy_def)
  apply (simp add: toAltLoinc_def exCandidate_def)
  done

lemma ex_serum_score60_Plas:
  "scoreCandidate exRowSerum (toAltLoinc (exCandidate n [''Plas''] [''Qn''] []) None) =
     (toAltLoinc (exCandidate n [''Plas''] [''Qn''] []) None)\<lparr>score := Some 60\<rparr>"
  unfolding scoreCandidate_formula
  apply (simp add: ex_serum_count6_Plas)
  apply (simp add: exRowSerum_def exRowSerum0_def exRow_def cellTruthy_def)
  apply (simp add: toAltLoinc_def exCandidate_def)
  done

lemma ex_serum_select:
  "selectBestMatch exRowSerum
     [toAltLoinc (exCandidate ''2345-7'' [''Ser/Plas''] [''Qn''] []) None,
      toAltLoinc (exCandidate ''9101-1'' [''Ser''] [''Qn''] []) None,
      toAltLoinc (exCandidate ''9102-9'' [''Plas''] [''Qn''] []) None] =
   (Some ((toAltLoinc (exCandidate ''2345-7'' [''Ser/Plas''] [''Qn''] []) None)\<lparr>score := Some 110\<rparr>),
    Some [(toAltLoinc (exCandidate ''9101-1'' [''Ser''] [''Qn''] []) None)\<lparr>score := Some 60\<rparr>,
          (toAltLoinc (exCandidate ''9102-9'' [''Plas''] [''Qn''] []) None)\<lparr>score := Some 60\<rparr>])"
proof -
  define a where "a = (toAltLoinc (exCandidate ''2345-7'' [''Ser/Plas''] [''Qn''] []) None)\<lparr>score := Some 110\<rparr>"
  define b where "b = (toAltLoinc (exCandidate ''9101-1'' [''Ser''] [''Qn''] []) None)\<lparr>score := Some 60\<rparr>"
  define c where "c = (toAltLoinc (exCandidate ''9102-9'' [''Plas''] [''Qn''] []) None)\<lparr>score := Some 60\<rparr>"
  have k: "scoreKey a = - 110" "scoreKey b = - 60" "scoreKey c = - 60"
    by (simp_all add: scoreKey_def a_def b_def c_def)
  have n: "LOINC_NUM a = ''2345-7''" "LOINC_NUM b = ''9101-1''" "LOINC_NUM c = ''9102-9''"
    by (simp_all add: a_def b_def c_def toAltLoinc_def exCandidate_def)
  have s: "sort_key scoreKey [a, b, c] = [a, b, c]"
    by (simp add: k)
  have d: "dedupLoinc [LOINC_NUM a] [b, c] = [b, c]"
    by (simp add: n)
  have "selectBestMatch exRowSerum
     [toAltLoinc (exCandidate ''2345-7'' [''Ser/Plas''] [''Qn''] []) None,
      toAltLoinc (exCandidate ''9101-1'' [''Ser''] [''Qn''] []) None,
      toAltLoinc (exCandidate ''9102-9'' [''Plas''] [''Qn''] []) None] = (Some a, Some [b, c])"
    unfolding selectBestMatch_def
    by (simp add: ex_serum_score110 ex_serum_score60_Ser ex_serum_score60_Plas a_def [symmetric]
        b_def [symmetric] c_def [symmetric] s d del: sort_key_simps dedupLoinc.simps)
  then show ?thesis by (simp add: a_def b_def c_def)
qed

text \<open>
  Claim C4, as stated, fails.  For a record without a raw unit and a candidate without an
  example unit the two units are literally equal (both are the empty string), so the claim
  adds ten points and gives 60, but the selector gives 50: the ten points are given only when
  the raw unit is not empty.  A candidate that is passed alone is returned at once, without
  any score.  And the fifty points do not go to every candidate that the matcher accepts on
  all seven part types without a relaxation: for the record \<open>exRowSerum\<close>, whose name says
  serum, the target term takes the inferred system Ser/Plas with its synonyms Ser and Plas;
  glucose in serum matches that target on all seven part types at level 0 with no
  relaxation tag, but its system is not literally the inferred name, so the selector counts
  six parts and gives it 60, where the claim gives 110, the score of glucose in serum or
  plasma.
\<close>

theorem C4_counterexample:
  "selectBestMatch (exRow\<lparr>RAW_UNIT := Str []\<rparr>)
     [exMatch ''2350-7'' ''ACTIVE'' [] [''Urine''] None,
      exMatch ''5792-7'' ''DEPRECATED'' [] [''Urine''] None] =
   (Some ((exMatch ''2350-7'' ''ACTIVE'' [] [''Urine''] None)\<lparr>score := Some 50\<rparr>),
    Some [(exMatch ''5792-7'' ''DEPRECATED'' [] [''Urine''] None)\<lparr>score := Some 30\<rparr>]) \<and>
   specScore (exRow\<lparr>RAW_UNIT := Str []\<rparr>) (exMatch ''2350-7'' ''ACTIVE'' [] [''Urine''] None) = 60 \<and>
   selectBestMatch (exRow\<lparr>RAW_UNIT := Str []\<rparr>) [exMatch ''2350-7'' ''ACTIVE'' [] [''Urine''] None] =
     (Some (exMatch ''2350-7'' ''ACTIVE'' [] [''Urine''] None), Some []) \<and>
   score (exMatch ''2350-7'' ''ACTIVE'' [] [''Urine''] None) = None \<and>
   isAltLoinc exRowSerum exTargetSerum (exCandidate ''9101-1'' [''Ser''] [''Qn''] []) 0 =
     Inr \<lparr>st_matched = True, st_relaxations = None\<rparr> \<and>
   mismatchedParts exRowSerum exTargetSerum (exCandidate ''9101-1'' [''Ser''] [''Qn''] []) 0 = [] \<and>
   countMatchedParts exRowSerum (toAltLoinc (exCandidate ''9101-1'' [''Ser''] [''Qn''] []) None) = 6 \<and>
   selectBestMatch exRowSerum
     [toAltLoinc (exCandidate ''2345-7'' [''Ser/Plas''] [''Qn''] []) None,
      toAltLoinc (exCandidate ''9101-1'' [''Ser''] [''Qn''] []) None,
      toAltLoinc (exCandidate ''9102-9'' [''Plas''] [''Qn''] []) None] =
   (Some ((toAltLoinc (exCandidate ''2345-7'' [''Ser/Plas''] [''Qn''] []) None)\<lparr>score := Some 110\<rparr>),
    Some [(toAltLoinc (exCandidate ''9101-1'' [''Ser''] [''Qn''] []) None)\<lparr>score := Some 60\<rparr>,
          (toAltLoinc (exCandidate ''9102-9'' [''Plas''] [''Qn''] []) None)\<lparr>score := Some 60\<rparr>])"
proof -
  have s1: "scoreCandidate (exRow\<lparr>RAW_UNIT := Str []\<rparr>) (exMatch ''2350-7'' ''ACTIVE'' [] [''Urine''] None) =
              (exMatch ''2350-7'' ''ACTIVE'' [] [''Urine''] None)\<lparr>score := Some 50\<rparr>"
    unfolding scoreCandidate_formula ex_count_nounit
    by (simp add: exRow_def cellTruthy_def) (simp add: exMatch_def)
  have s2: "scoreCandidate (exRow\<lparr>RAW_UNIT := Str []\<rparr>) (exMatch ''5792-7'' ''DEPRECATED'' [] [''Urine''] None) =
              (exMatch ''5792-7'' ''DEPRECATED'' [] [''Urine''] None)\<lparr>score := Some 30\<rparr>"
    unfolding scoreCandidate_formula ex_count_nounit
    by (simp add: exRow_def cellTruthy_def) (simp add: exMatch_def)
  have a: "selectBestMatch (exRow\<lparr>RAW_UNIT := Str []\<rparr>)
     [exMatch ''2350-7'' ''ACTIVE'' [] [''Urine''] None,
      exMatch ''5792-7'' ''DEPRECATED'' [] [''Urine''] None] =
   (Some ((exMatch ''2350-7'' ''ACTIVE'' [] [''Urine''] None)\<lparr>score := Some 50\<rparr>),
    Some [(exMatch ''5792-7'' ''DEPRECATED'' [] [''Urine''] None)\<lparr>score := Some 30\<rparr>])"
    unfolding selectBestMatch_def
    by (simp add: s1 s2 scoreKey_def) (simp add: exMatch_def)
  have b: "specScore (exRow\<lparr>RAW_UNIT := Str []\<rparr>) (exMatch ''2350-7'' ''ACTIVE'' [] [''Urine''] None) = 60"
    unfolding specScore_def ex_count_nounit
    by (simp add: exRow_def cellTruthy_def) (simp add: exMatch_def)
  have c: "selectBestMatch (exRow\<lparr>RAW_UNIT := Str []\<rparr>) [exMatch ''2350-7'' ''ACTIVE'' [] [''Urine''] None] =
     (Some (exMatch ''2350-7'' ''ACTIVE'' [] [''Urine''] None), Some [])"
    by (simp add: selectBestMatch_def)
  have d: "score (exMatch ''2350-7'' ''ACTIVE'' [] [''Urine''] None) = None"
    by (simp add: exMatch_def)
  have e: "isAltLoinc exRowSerum exTargetSerum (exCandidate ''9101-1'' [''Ser''] [''Qn''] []) 0 =
             Inr \<lparr>st_matched = True, st_relaxations = None\<rparr>"
    by (rule ex_serum_accept) simp
  have f: "mismatchedParts exRowSerum exTargetSerum (exCandidate ''9101-1'' [''Ser''] [''Qn''] []) 0 = []"
    by (simp add: mismatchedParts_def partMatches_def PartTypeList_def matchPart_def ex_serum_target
        exCandidate_def)
  note g = ex_serum_count6_Ser [of "''9101-1''" None]
  note h = ex_serum_select
  show ?thesis by (intro conjI a b c d e f g h)
qed

text \<open>
  Claim C4, amended.  The score the selector computes for a candidate is 50, minus 25 times the
  fourth root of the number of relaxation tags, minus 20 if the status is DEPRECATED, minus 10
  if it is DISCOURAGED, plus 35 if the record's system is XXX with no inferred system and the
  candidate's system is compatible with the record's specimen hint or with the default
  specimen of its class, plus 10 if the record's raw unit is not empty and equals the
  candidate's example unit, plus 50 if all seven part types of the candidate literally equal
  an inferred name (or, without inferred names, the record's own part).  When at least two
  candidates are passed, the primary suggestion and the alternates are candidates scored in
  this way.
\<close>

theorem C4_candidate_score:
  "scoreCandidate row m = m\<lparr>score := Some (
     50 - 25 * root 4 (real (case relaxations m of None \<Rightarrow> 0 | Some rs \<Rightarrow> length rs))
        - (if STATUS m = ''DEPRECATED'' then 20 else 0)
        - (if STATUS m = ''DISCOURAGED'' then 10 else 0)
        + (if rowPart row SYSTEM = ''XXX'' \<and> inferredNames row SYSTEM = None \<and>
              (partsCompatible SYSTEM (jsHead (parts m SYSTEM)) (Some (SPECIMEN_SOURCE row)) row \<or>
               partsCompatible SYSTEM (jsHead (parts m SYSTEM)) (getDefaultSpecimen row) row)
           then 35 else 0)
        + (if cellTruthy (RAW_UNIT row) \<and> RAW_UNIT row = Str (EXAMPLE_UCUM_UNITS m) then 10 else 0)
        + (if countMatchedParts row m = 7 then 50 else 0))\<rparr> \<and>
   (2 \<le> length allMatches \<and> selectBestMatch row allMatches = (Some best, Some rest) \<longrightarrow>
      set (best # rest) \<subseteq> scoreCandidate row ` set allMatches)"
  using scoreCandidate_formula set_selectBestMatch by blast

theorem C4_candidate_score_witness:
  "2 \<le> length [exMatch ''2350-7'' ''DEPRECATED'' ''g/L'' [''Urine''] None,
                exMatch ''5792-7'' ''ACTIVE'' ''mg/dL'' [''Urine''] (Some [''METHOD-match-waived''])] \<and>
   selectBestMatch exRow
     [exMatch ''2350-7'' ''DEPRECATED'' ''g/L'' [''Urine''] None,
      exMatch ''5792-7'' ''ACTIVE'' ''mg/dL'' [''Urine''] (Some [''METHOD-match-waived''])] =
   (Some ((exMatch ''5792-7'' ''ACTIVE'' ''mg/dL'' [''Urine''] (Some [''METHOD-match-waived'']))\<lparr>score := Some 35\<rparr>),
    Some [(exMatch ''2350-7'' ''DEPRECATED'' ''g/L'' [''Urine''] None)\<lparr>score := Some 30\<rparr>]) \<and>
   set ((exMatch ''5792-7'' ''ACTIVE'' ''mg/dL'' [''Urine''] (Some [''METHOD-match-waived'']))\<lparr>score := Some 35\<rparr> #
        [(exMatch ''2350-7'' ''DEPRECATED'' ''g/L'' [''Urine''] None)\<lparr>score := Some 30\<rparr>]) \<subseteq>
     scoreCandidate exRow `
       set [exMatch ''2350-7'' ''DEPRECATED'' ''g/L'' [''Urine''] None,
            exMatch ''5792-7'' ''ACTIVE'' ''mg/dL'' [''Urine''] (Some [''METHOD-match-waived''])]"
proof -
  have len: "2 \<le> length [exMatch ''2350-7'' ''DEPRECATED'' ''g/L'' [''Urine''] None,
                exMatch ''5792-7'' ''ACTIVE'' ''mg/dL'' [''Urine''] (Some [''METHOD-match-waived''])]"
    by simp
  from C4_candidate_score [of exRow "exMatch ''2350-7'' ''DEPRECATED'' ''g/L'' [''Urine''] None"
      "[exMatch ''2350-7'' ''DEPRECATED'' ''g/L'' [''Urine''] None,
        exMatch ''5792-7'' ''ACTIVE'' ''mg/dL'' [''Urine''] (Some [''METHOD-match-waived''])]"
      "(exMatch ''5792-7'' ''ACTIVE'' ''mg/dL'' [''Urine''] (Some [''METHOD-match-waived'']))\<lparr>score := Some 35\<rparr>"
      "[(exMatch ''2350-7'' ''DEPRECATED'' ''g/L'' [''Urine''] None)\<lparr>score := Some 30\<rparr>]"]
  have "2 \<le> length [exMatch ''2350-7'' ''DEPRECATED'' ''g/L'' [''Urine''] None,
                exMatch ''5792-7'' ''ACTIVE'' ''mg/dL'' [''Urine''] (Some [''METHOD-match-waived''])] \<and>
        selectBestMatch exRow
          [exMatch ''2350-7'' ''DEPRECATED'' ''g/L'' [''Urine''] None,
           exMatch ''5792-7'' ''ACTIVE'' ''mg/dL'' [''Urine''] (Some [''METHOD-match-waived''])] =
        (Some ((exMatch ''5792-7'' ''ACTIVE'' ''mg/dL'' [''Urine''] (Some [''METHOD-match-waived'']))\<lparr>score := Some 35\<rparr>),
         Some [(exMatch ''2350-7'' ''DEPRECATED'' ''g/L'' [''Urine''] None)\<lparr>score := Some 30\<rparr>]) \<longrightarrow>
        set ((exMatch ''5792-7'' ''ACTIVE'' ''mg/dL'' [''Urine''] (Some [''METHOD-match-waived'']))\<lparr>score := Some 35\<rparr> #
             [(exMatch ''2350-7'' ''DEPRECATED'' ''g/L'' [''Urine''] None)\<lparr>score := Some 30\<rparr>]) \<subseteq>
          scoreCandidate exRow `
            set [exMatch ''2350-7'' ''DEPRECATED'' ''g/L'' [''Urine''] None,
                 exMatch ''5792-7'' ''ACTIVE'' ''mg/dL'' [''Urine''] (Some [''METHOD-match-waived''])]"
    by (rule conjunct2)
  with len ex_select show ?thesis by blast
qed

text \<open>
  Claim C5.  For every non-empty list of accepted candidates the selector returns a primary
  suggestion and alternates such that every alternate has a score not above the primary's,
  and no LOINC number occurs twice among the primary and the alternates.
\<close>

theorem C5_selection_sound:
  assumes "allMatches \<noteq> []"
  shows "\<exists>best rest. selectBestMatch row allMatches = (Some best, Some rest) \<and>
           (\<forall>a\<in>set rest. \<exists>sa sb. score a = Some sa \<and> score best = Some sb \<and> sa \<le> sb) \<and>
           distinct (map LOINC_NUM (best # rest))"
proof (cases allMatches)
  case Nil
  with assms show ?thesis by simp
next
  case (Cons m ms)
  show ?thesis
  proof (cases ms)
    case Nil
    with Cons show ?thesis by (simp add: selectBestMatch_def)
  next
    case (Cons m' ms')
    let ?scored = "map (scoreCandidate row) allMatches"
    have ne: "sort_key scoreKey ?scored \<noteq> []"
      using \<open>allMatches = m # ms\<close> by (metis length_sort list.map_disc_iff list.simps(3) length_0_conv)
    then obtain c0 cs where s: "sort_key scoreKey ?scored = c0 # cs"
      by (cases "sort_key scoreKey ?scored") auto
    have sel: "selectBestMatch row allMatches = (Some c0, Some (dedupLoinc [LOINC_NUM c0] cs))"
      using s \<open>allMatches = m # ms\<close> Cons by (simp add: selectBestMatch_def)
    have allscored: "\<exists>s. score c = Some s" if "c \<in> set (c0 # cs)" for c
    proof -
      from that s have "c \<in> set ?scored" by (metis set_sort)
      then show ?thesis using score_scoreCandidate by auto
    qed
    have ord: "\<exists>sa sb. score a = Some sa \<and> score c0 = Some sb \<and> sa \<le> sb"
      if "a \<in> set (dedupLoinc [LOINC_NUM c0] cs)" for a
    proof -
      from that have a: "a \<in> set cs" using set_dedupLoinc by blast
      from allscored [of a] a obtain sa where sa: "score a = Some sa" by auto
      from allscored [of c0] obtain sb where sb: "score c0 = Some sb" by auto
      from sort_key_head_least [OF s a] sa sb have "sa \<le> sb" by (simp add: scoreKey_def)
      with sa sb show ?thesis by blast
    qed
    have "LOINC_NUM c0 \<notin> LOINC_NUM ` set (dedupLoinc [LOINC_NUM c0] cs)"
      using dedupLoinc_disjoint [of "[LOINC_NUM c0]" cs] by auto
    then have "distinct (map LOINC_NUM (c0 # dedupLoinc [LOINC_NUM c0] cs))"
      using distinct_dedupLoinc [of "[LOINC_NUM c0]" cs] by simp
    with sel ord show ?thesis by blast
  qed
qed

theorem C5_selection_sound_witness:
  "[exMatch ''2350-7'' ''DEPRECATED'' ''g/L'' [''Urine''] None,
    exMatch ''5792-7'' ''ACTIVE'' ''mg/dL'' [''Urine''] (Some [''METHOD-match-waived''])] \<noteq> [] \<and>
   (\<exists>best rest.
      selectBestMatch exRow
        [exMatch ''2350-7'' ''DEPRECATED'' ''g/L'' [''Urine''] None,
         exMatch ''5792-7'' ''ACTIVE'' ''mg/dL'' [''Urine''] (Some [''METHOD-match-waived''])] =
        (Some best, Some rest) \<and>
      (\<forall>a\<in>set rest. \<exists>sa sb. score a = Some sa \<and> score best = Some sb \<and> sa \<le> sb) \<and>
      distinct (map LOINC_NUM (best # rest)))"
proof -
  have ne: "[exMatch ''2350-7'' ''DEPRECATED'' ''g/L'' [''Urine''] None,
             exMatch ''5792-7'' ''ACTIVE'' ''mg/dL'' [''Urine''] (Some [''METHOD-match-waived''])] \<noteq> []"
    by simp
  from C5_selection_sound [OF ne, of exRow] ne show ?thesis by blast
qed

section \<open>Properties of the processing of a row\<close>

lemma parts_shape_addLoincRow:
  "map_of (addLoincRow r tbl) k = Some info \<Longrightarrow>
   (\<forall>i. map_of tbl k = Some i \<longrightarrow> parts i pt = [] \<or> (\<exists>x. x \<noteq> [] \<and> parts i pt = [x])) \<Longrightarrow>
   parts info pt = [] \<or> (\<exists>x. x \<noteq> [] \<and> parts info pt = [x])"
proof (cases "k = csv_LOINC_NUM r")
  case True
  assume "map_of (addLoincRow r tbl) k = Some info"
  with True have "parts info pt = (if csv_part r pt \<noteq> [] then [csv_part r pt] else [])"
    by (auto simp: addLoincRow_def Let_def update_conv')
  then show ?thesis by simp
next
  case False
  assume "map_of (addLoincRow r tbl) k = Some info"
    and a: "\<forall>i. map_of tbl k = Some i \<longrightarrow> parts i pt = [] \<or> (\<exists>x. x \<noteq> [] \<and> parts i pt = [x])"
  with False have "map_of tbl k = Some info"
    by (simp add: addLoincRow_def Let_def update_conv')
  with a show ?thesis by blast
qed

lemma parts_shape_fold:
  "map_of (fold addLoincRow rs tbl) k = Some info \<Longrightarrow>
   (\<forall>k i. map_of tbl k = Some i \<longrightarrow> parts i pt = [] \<or> (\<exists>x. x \<noteq> [] \<and> parts i pt = [x])) \<Longrightarrow>
   parts info pt = [] \<or> (\<exists>x. x \<noteq> [] \<and> parts info pt = [x])"
proof (induction rs arbitrary: tbl)
  case Nil
  then show ?case by simp
next
  case (Cons r rs)
  have "\<forall>k i. map_of (addLoincRow r tbl) k = Some i \<longrightarrow>
          parts i pt = [] \<or> (\<exists>x. x \<noteq> [] \<and> parts i pt = [x])"
    using Cons.prems(2) parts_shape_addLoincRow by blast
  with Cons.IH [of "addLoincRow r tbl"] Cons.prems(1) show ?case by simp
qed

lemma parts_shape:
  "map_of (loincToParts ls) k = Some info \<Longrightarrow>
   parts info pt = [] \<or> (\<exists>x. x \<noteq> [] \<and> parts info pt = [x])"
  using parts_shape_fold [of ls "[]" k info pt]
  by (simp add: loincToParts_def)

lemma hasLoincWithPart_iff:
  assumes "c \<noteq> []" and "c \<notin> set objectPrototypeKeys"
    and "hasLoincWithPart e pt c = Inr found"
  shows "found =
           (\<exists>loinc info. map_of (loincToParts (loincTable e)) loinc = Some info \<and> parts info pt = [c])"
proof -
  let ?tbl = "loincToParts (loincTable e)"
  have d: "distinct (map fst ?tbl)" by (rule distinct_keys_loincToParts)
  from assms(3) obtain idx where b: "buildLoincPartsIndex ?tbl = Inr idx"
    and f: "found = hasLoincWithPartInternal idx pt c"
    unfolding hasLoincWithPart_def by (auto elim!: bindE_InrE)
  from build_part [OF b, of pt]
  have "foldE (\<lambda>(loinc, info) idx. indexAdd (jsArrayToString (parts info pt)) loinc idx) ?tbl [] =
          Inr (idx pt)"
    by (simp add: indexForPart_def)
  from index_fold_dom [OF this, of c]
  have "(map_of (idx pt) c \<noteq> None) =
          (\<exists>loinc info. (loinc, info) \<in> set ?tbl \<and> jsArrayToString (parts info pt) = c)"
    by simp
  with assms(2) have "found =
          (\<exists>loinc info. (loinc, info) \<in> set ?tbl \<and> jsArrayToString (parts info pt) = c)"
    unfolding f by (auto simp: hasLoincWithPartInternal_def jsGet_def split: option.splits)
  also have "\<dots> = (\<exists>loinc info. map_of ?tbl loinc = Some info \<and> jsArrayToString (parts info pt) = c)"
    using d by (auto simp: map_of_eq_Some_iff)
  also have "\<dots> = (\<exists>loinc info. map_of ?tbl loinc = Some info \<and> parts info pt = [c])"
  proof -
    have "jsArrayToString (parts info pt) = c \<longleftrightarrow> parts info pt = [c]"
      if "map_of ?tbl loinc = Some info" for loinc info
      using parts_shape [OF that, of pt] assms(1) by auto
    then show ?thesis by blast
  qed
  finally show ?thesis .
qed

lemma judgement_addAlgoMappingIssue [simp]:
  "ALGO_JUDGEMENT (addAlgoMappingIssue row x) = ALGO_JUDGEMENT row"
  by (simp add: addAlgoMappingIssue_def)

lemma inferred_addAlgoMappingIssue [simp]:
  "inferred (addAlgoMappingIssue row x) = inferred row"
  by (simp add: addAlgoMappingIssue_def)

lemma inferred_addAlgoIssue:
  "inferred (snd (addAlgoIssueAndJudgementIfPartsDisagree row pt names ok)) = inferred row"
  by (simp add: addAlgoIssueAndJudgementIfPartsDisagree_def Let_def)

lemma judgement_addAlgoIssue:
  "ALGO_JUDGEMENT (snd (addAlgoIssueAndJudgementIfPartsDisagree row pt names ok)) = ALGO_JUDGEMENT row \<or>
   ALGO_JUDGEMENT (snd (addAlgoIssueAndJudgementIfPartsDisagree row pt names ok)) = ''INCORRECT_aj''"
  by (simp add: addAlgoIssueAndJudgementIfPartsDisagree_def Let_def)

lemma judgement_addInferredLoincParts:
  "addInferredLoincParts row pt names ty = Inr row' \<Longrightarrow> ALGO_JUDGEMENT row' = ALGO_JUDGEMENT row"
  by (auto simp: addInferredLoincParts_def Let_def split: if_splits)

lemma fold_add_names:
  "fst (fold (\<lambda>partName (names, tys).
              if partName \<in> set names then (names, tys)
              else (names @ [partName], tys @ [ty])) new entry) = ns \<Longrightarrow>
   set ns = set (fst entry) \<union> set new"
proof (induction new arbitrary: entry ns)
  case Nil
  then show ?case by simp
next
  case (Cons a new)
  obtain names tys where e: "entry = (names, tys)" by (cases entry)
  from Cons.prems Cons.IH show ?case
    unfolding e by (cases "a \<in> set names") auto
qed

lemma names_addInferredLoincParts:
  assumes "addInferredLoincParts row pt names ty = Inr row'"
  shows "set (namesOf row' pt) = set (namesOf row pt) \<union> set names"
proof -
  let ?infd = "case inferred row of None \<Rightarrow> [] | Some i \<Rightarrow> i"
  let ?entry = "case map_of ?infd pt of None \<Rightarrow> ([], []) | Some en \<Rightarrow> en"
  let ?entry' = "fold (\<lambda>partName (names, tys).
                        if partName \<in> set names then (names, tys)
                        else (names @ [partName], tys @ [ty])) names ?entry"
  from assms have r: "row' = row\<lparr>inferred := Some (AList.update pt ?entry' ?infd)\<rparr>"
    by (auto simp: addInferredLoincParts_def Let_def split: if_splits)
  have a: "namesOf row' pt = fst ?entry'"
    unfolding r by (simp add: namesOf_def inferredNames_def update_conv' split: prod.splits)
  have b: "namesOf row pt = fst ?entry"
    by (simp add: namesOf_def inferredNames_def split: option.splits prod.splits)
  from fold_add_names [of ty names ?entry "fst ?entry'"] a b show ?thesis by simp
qed

lemma namesOf_addAlgoIssue:
  "namesOf (snd (addAlgoIssueAndJudgementIfPartsDisagree row pt names ok)) pt' = namesOf row pt'"
  by (simp add: namesOf_def inferredNames_def inferred_addAlgoIssue)

lemma inferAndFlag_total:
  "names \<noteq> [] \<Longrightarrow> \<exists>row'. inferAndFlag row pt names ty = Inr row'"
  by (simp add: inferAndFlag_def addInferredLoincParts_def bindE_def Let_def)

lemma names_inferAndFlag:
  assumes "inferAndFlag row pt names ty = Inr row'"
  shows "set (namesOf row' pt) = set (namesOf row pt) \<union> set names"
proof -
  from assms obtain r where r: "addInferredLoincParts row pt names ty = Inr r"
    and r': "row' = snd (addAlgoIssueAndJudgementIfPartsDisagree r pt names True)"
    by (auto simp: inferAndFlag_def bindE_def split: sum.splits)
  from names_addInferredLoincParts [OF r] show ?thesis
    unfolding r' by (simp add: namesOf_addAlgoIssue)
qed

text \<open>
  For a catalog whose index can be built and a row whose candidate component (built by
  adding or removing a modifier, or by replacing the immunoglobulin class) does not name a
  member of \<open>Object.prototype\<close>, the component-modifier inference returns, any COMPONENT
  name that it adds to the inferred parts of the row is the COMPONENT of some entry of the
  catalog, and a candidate that is the COMPONENT of no entry is discarded, the row being left
  as it was.
\<close>

lemma component_in_catalog:
  assumes "buildLoincPartsIndex (loincToParts (loincTable e)) = Inr idx"
    and "\<And>c. adj_component (getAdjustedComponentByModifier row) = Some c \<Longrightarrow>
              c \<notin> set objectPrototypeKeys"
  shows "\<exists>row'. inferComponentByModifier e row = Inr row' \<and>
     (\<forall>c. c \<in> set (namesOf row' COMPONENT) \<and> c \<notin> set (namesOf row COMPONENT) \<longrightarrow>
          (\<exists>loinc info. map_of (loincToParts (loincTable e)) loinc = Some info \<and>
                        parts info COMPONENT = [c])) \<and>
     (\<forall>c. adj_component (getAdjustedComponentByModifier row) = Some c \<and>
          \<not> (\<exists>loinc info. map_of (loincToParts (loincTable e)) loinc = Some info \<and>
                           parts info COMPONENT = [c]) \<longrightarrow>
          row' = row)"
proof (cases "adj_component (getAdjustedComponentByModifier row)")
  case None
  then have i: "inferComponentByModifier e row = Inr row"
    by (simp add: inferComponentByModifier_def)
  show ?thesis
  proof (intro exI [of _ row] conjI allI impI)
    show "inferComponentByModifier e row = Inr row" by (rule i)
  next
    fix x assume "x \<in> set (namesOf row COMPONENT) \<and> x \<notin> set (namesOf row COMPONENT)"
    then show "\<exists>loinc info. map_of (loincToParts (loincTable e)) loinc = Some info \<and>
                      parts info COMPONENT = [x]" by blast
  next
    show "row = row" by (rule refl)
  qed
next
  case (Some c)
  define found where "found = hasLoincWithPartInternal idx COMPONENT c"
  have h: "hasLoincWithPart e COMPONENT c = Inr found"
    by (simp add: hasLoincWithPart_def assms(1) found_def)
  have p: "c \<notin> set objectPrototypeKeys" using assms(2) Some by simp
  show ?thesis
  proof (cases "c \<noteq> [] \<and> found")
    case True
    then obtain row' where r: "inferAndFlag row COMPONENT [c] ''inferred'' = Inr row'"
      using inferAndFlag_total [of "[c]" row COMPONENT "''inferred''"] by auto
    with True Some h have i: "inferComponentByModifier e row = Inr row'"
      by (simp add: inferComponentByModifier_def)
    from True have ex: "\<exists>loinc info. map_of (loincToParts (loincTable e)) loinc = Some info \<and>
                          parts info COMPONENT = [c]"
      using hasLoincWithPart_iff [OF _ p h] by simp
    from names_inferAndFlag [OF r] have "set (namesOf row' COMPONENT) = set (namesOf row COMPONENT) \<union> {c}"
      by simp
    then have n: "\<And>x. x \<in> set (namesOf row' COMPONENT) \<Longrightarrow> x \<notin> set (namesOf row COMPONENT) \<Longrightarrow> x = c"
      by blast
    show ?thesis
    proof (intro exI [of _ row'] conjI allI impI)
      show "inferComponentByModifier e row = Inr row'" by (rule i)
    next
      fix x assume "x \<in> set (namesOf row' COMPONENT) \<and> x \<notin> set (namesOf row COMPONENT)"
      then have "x = c" using n by blast
      with ex show "\<exists>loinc info. map_of (loincToParts (loincTable e)) loinc = Some info \<and>
                        parts info COMPONENT = [x]" by simp
    next
      fix x assume a: "adj_component (getAdjustedComponentByModifier row) = Some x \<and>
          \<not> (\<exists>loinc info. map_of (loincToParts (loincTable e)) loinc = Some info \<and>
                           parts info COMPONENT = [x])"
      with Some have "x = c" by simp
      with a ex show "row' = row" by blast
    qed
  next
    case False
    with Some h have i: "inferComponentByModifier e row = Inr row"
      by (auto simp: inferComponentByModifier_def)
    show ?thesis
    proof (intro exI [of _ row] conjI allI impI)
      show "inferComponentByModifier e row = Inr row" by (rule i)
    next
      fix x assume "x \<in> set (namesOf row COMPONENT) \<and> x \<notin> set (namesOf row COMPONENT)"
      then show "\<exists>loinc info. map_of (loincToParts (loincTable e)) loinc = Some info \<and>
                        parts info COMPONENT = [x]" by blast
    next
      show "row = row" by (rule refl)
    qed
  qed
qed

lemma ex_T4_status:
  "getAdjustedComponentByModifier exRowT4 =
     \<lparr>adj_status = ''name'', adj_modifier = Some ''.free'', adj_component = Some ''Thyroxine.free''\<rparr>"
  by code_simp

lemma ex_FG_status:
  "getAdjustedComponentByModifier exRowFG =
     \<lparr>adj_status = ''name'', adj_modifier = Some ''.free'', adj_component = Some ''Glucose.free''\<rparr>"
  by code_simp

lemma ex_T4_infer:
  "inferComponentByModifier exEnv exRowT4 =
     Inr (exRowT4\<lparr>inferred := Some [(COMPONENT, ([''Thyroxine.free''], [''inferred'']))],
                   ALGO_MAPPING_ISSUES := Some [''COMPONENT''],
                   ALGO_JUDGEMENT := ''INCORRECT_aj''\<rparr>)"
  apply (simp add: inferComponentByModifier_def ex_T4_status)
  apply (simp add: index_eval_defs)
  apply (simp add: inferAndFlag_def addInferredLoincParts_def addAlgoIssueAndJudgementIfPartsDisagree_def
     exRowT4_def exRow_def addPartSynonyms_def getPartSynonyms_def partSynonymsMap_def partSynonyms_def
     partsCompatible_def Let_def addAlgoMappingIssue_def partTypeName_def setAdd_def bothInList_def
     falsy_def synonymsInclude_def)
  done

lemma ex_FG_infer: "inferComponentByModifier exEnv exRowFG = Inr exRowFG"
  apply (simp add: inferComponentByModifier_def ex_FG_status)
  apply (simp add: index_eval_defs)
  done

lemma ex_proto_status:
  "getAdjustedComponentByModifier exRowProto =
     \<lparr>adj_status = ''component'', adj_modifier = Some ''.free'', adj_component = Some ''constructor''\<rparr>"
  by code_simp

lemma ex_proto_has: "hasLoincWithPart exEnvProto COMPONENT ''constructor'' = Inr True"
  by (simp add: index_eval_defs exEnvProto_def)

lemma ex_proto_none:
  "\<not> (\<exists>loinc info. map_of (loincToParts (loincTable exEnvProto)) loinc = Some info \<and>
                    parts info COMPONENT = [''constructor''])"
  by (auto simp: loincToParts_def addLoincRow_def exEnvProto_def exEnv_def exLoincRow_def Let_def
      split: if_splits)

lemma ex_proto_infer:
  "inferComponentByModifier exEnvProto exRowProto =
     Inr (exRowProto\<lparr>inferred := Some [(COMPONENT, ([''constructor''], [''inferred'']))],
                      ALGO_MAPPING_ISSUES := Some [''COMPONENT''],
                      ALGO_JUDGEMENT := ''INCORRECT_aj''\<rparr>)"
  apply (simp add: inferComponentByModifier_def ex_proto_status ex_proto_has)
  apply (simp add: inferAndFlag_def addInferredLoincParts_def addAlgoIssueAndJudgementIfPartsDisagree_def
     exRowProto_def exRow_def addPartSynonyms_def getPartSynonyms_def partSynonymsMap_def partSynonyms_def
     partsCompatible_def Let_def addAlgoMappingIssue_def partTypeName_def setAdd_def bothInList_def
     falsy_def synonymsInclude_def)
  done

text \<open>
  Claim C9 fails on the code.  \<^verbatim>\<open>hasLoincWithPart\<close> is
  \<^verbatim>\<open>!!loincPartIndexex[partType][partName]\<close> on a plain object, which is true for a set of the
  index and also for a member that the object inherits.  The row below is mapped to a term
  whose component is \<^verbatim>\<open>constructor.free\<close> and its name does not say \<^verbatim>\<open>FREE\<close>, so the
  candidate component is \<^verbatim>\<open>constructor\<close>.  No entry of the catalog has that component, yet
  the test answers true and the inference adds the candidate to the inferred parts of the row
  and flags the row; the comment of \<^verbatim>\<open>inferComponentByModifier\<close> says that such a component
  is recorded only if it exists in the LOINC table.  For candidates that are not such names
  the code does what the claim says: free thyroxine, which the catalog has, is added, and
  free glucose, which it has not, is discarded.
\<close>

theorem C9_inherited_member_added:
  "adj_component (getAdjustedComponentByModifier exRowProto) = Some ''constructor'' \<and>
   \<not> (\<exists>loinc info. map_of (loincToParts (loincTable exEnvProto)) loinc = Some info \<and>
                    parts info COMPONENT = [''constructor'']) \<and>
   hasLoincWithPart exEnvProto COMPONENT ''constructor'' = Inr True \<and>
   namesOf exRowProto COMPONENT = [] \<and>
   inferComponentByModifier exEnvProto exRowProto =
     Inr (exRowProto\<lparr>inferred := Some [(COMPONENT, ([''constructor''], [''inferred'']))],
                      ALGO_MAPPING_ISSUES := Some [''COMPONENT''],
                      ALGO_JUDGEMENT := ''INCORRECT_aj''\<rparr>) \<and>
   namesOf (exRowProto\<lparr>inferred := Some [(COMPONENT, ([''constructor''], [''inferred'']))],
                         ALGO_MAPPING_ISSUES := Some [''COMPONENT''],
                         ALGO_JUDGEMENT := ''INCORRECT_aj''\<rparr>) COMPONENT = [''constructor''] \<and>
   inferComponentByModifier exEnv exRowFG = Inr exRowFG \<and>
   inferComponentByModifier exEnv exRowT4 =
     Inr (exRowT4\<lparr>inferred := Some [(COMPONENT, ([''Thyroxine.free''], [''inferred'']))],
                   ALGO_MAPPING_ISSUES := Some [''COMPONENT''],
                   ALGO_JUDGEMENT := ''INCORRECT_aj''\<rparr>)"
proof -
  have a: "adj_component (getAdjustedComponentByModifier exRowProto) = Some ''constructor''"
    by (simp add: ex_proto_status)
  have b: "namesOf exRowProto COMPONENT = []"
    by (simp add: namesOf_def inferredNames_def exRowProto_def exRow_def)
  have c: "namesOf (exRowProto\<lparr>inferred := Some [(COMPONENT, ([''constructor''], [''inferred'']))],
                         ALGO_MAPPING_ISSUES := Some [''COMPONENT''],
                         ALGO_JUDGEMENT := ''INCORRECT_aj''\<rparr>) COMPONENT = [''constructor'']"
    by (simp add: namesOf_def inferredNames_def)
  show ?thesis
    by (intro conjI a b c ex_proto_none ex_proto_has ex_proto_infer ex_FG_infer ex_T4_infer)
qed

theorem C9_inherited_member_added_witness:
  "namesOf exRowProto COMPONENT = [] \<and>
   map_sum id (\<lambda>r. namesOf r COMPONENT) (inferComponentByModifier exEnvProto exRowProto) =
     Inr [''constructor'']"
  using C9_inherited_member_added by simp

subsection \<open>Rows with an invalid LOINC number\<close>

lemma getXformedRawUnit_returns:
  assumes "\<not> cellTruthy (RAW_UNIT row) \<or> (\<exists>u. RAW_UNIT row = Str u)"
  shows "\<exists>u. getXformedRawUnit row = Inr u"
  using assms by (cases "RAW_UNIT row") (auto simp: getXformedRawUnit_def)

lemma getXformedRawUnit_cong:
  "RAW_UNIT r = RAW_UNIT r' \<Longrightarrow> RAW_LAB_NAME r = RAW_LAB_NAME r' \<Longrightarrow>
   getXformedRawUnit r = getXformedRawUnit r'"
  by (auto simp: getXformedRawUnit_def split: cell.splits)

lemma jsGet_empty: "jsGet tbl [] \<noteq> Inherited k"
  by (simp add: jsGet_def objectPrototypeKeys_def split: option.splits)

lemma fill_returns:
  assumes "LAB_LOINC row = [] \<or> jsGet tbl (LAB_LOINC row) = Undefined"
  shows "\<exists>r0. addLoincPartsFillMissingColumns tbl row = Inr r0 \<and> LAB_LOINC r0 = LAB_LOINC row \<and>
           RAW_UNIT r0 = RAW_UNIT row \<and> RAW_LAB_NAME r0 = RAW_LAB_NAME row"
proof (cases "jsGet tbl (LAB_LOINC row)")
  case (Own loinc)
  then show ?thesis by (simp add: addLoincPartsFillMissingColumns_def)
next
  case (Inherited k)
  with assms jsGet_empty [of tbl k] show ?thesis by auto
next
  case Undefined
  then show ?thesis by (simp add: addLoincPartsFillMissingColumns_def)
qed

lemma preProcessRow_excluded:
  assumes inv: "LAB_LOINC r0 = [] \<or> jsGet (loincToParts (loincTable e)) (LAB_LOINC r0) = Undefined"
    and unit: "\<not> cellTruthy (RAW_UNIT r0) \<or> (\<exists>u. RAW_UNIT r0 = Str u)"
  shows "\<exists>r. preProcessRow e r0 = Inr r \<and>
           ALGO_JUDGEMENT r = ''WACKO_INVALID_LOINC'' \<and>
           inferred r = None \<and> inferred_parts r = [] \<and> parsed_parts r = [] \<and>
           ALGO_MAPPING_ISSUES r = None \<and> ALGO_MAPPING_ISSUES_string r = [] \<and>
           SGG_LOINC r = [] \<and> SGG_LONG_COMMON_NAME r = [] \<and> SGG_OTHER r = [] \<and>
           RULE_RELAXED_BY r = [] \<and> TARGET_TERM r = [] \<and> TARGET_TERM_string r = []"
proof -
  let ?tbl = "loincToParts (loincTable e)"
  let ?r3 = "normalizeSPECIMEN_SOURCE e (clearComputedFields r0)"
  have u3: "RAW_UNIT ?r3 = RAW_UNIT r0" and n3: "RAW_LAB_NAME ?r3 = RAW_LAB_NAME r0"
    and l3: "LAB_LOINC ?r3 = LAB_LOINC r0"
    by (simp_all add: normalizeSPECIMEN_SOURCE_def clearComputedFields_def Let_def)
  from getXformedRawUnit_returns [OF unit] obtain u where "getXformedRawUnit r0 = Inr u" by blast
  with getXformedRawUnit_cong [OF u3 n3] have x: "getXformedRawUnit ?r3 = Inr u" by simp
  define r4 where "r4 = ?r3\<lparr>ucum_converted :=
                 (if u \<noteq> [] then
                    (let u1 = mapToUcum e u (LAB_LOINC ?r3) False in
                     if \<not> falsy u1 then jsString u1
                     else (let u2 = mapToUcum e u (LAB_LOINC ?r3) True in
                           if \<not> falsy u2 then jsString u2 else []))
                  else [])\<rparr>"
  have c: "convertToUcum e ?r3 = Inr r4"
    by (simp add: convertToUcum_def x r4_def)
  have l4: "LAB_LOINC r4 = LAB_LOINC r0" by (simp add: r4_def l3)
  with inv have s: "getInitialRowStatus ?tbl r4 = ''WACKO_INVALID_LOINC''"
    unfolding getInitialRowStatus_def by (simp only: if_True)
  define r where "r = r4\<lparr>ALGO_JUDGEMENT := ''WACKO_INVALID_LOINC''\<rparr>"
  have ex: "isExcludeStatus r" by (simp add: isExcludeStatus_def r_def)
  have p: "preProcessRow e r0 = Inr r"
    unfolding preProcessRow_def Let_def c bindE_simps s using ex unfolding r_def
    by (simp only: not_True_eq_False if_False)
  have f: "ALGO_JUDGEMENT r = ''WACKO_INVALID_LOINC'' \<and>
           inferred r = None \<and> inferred_parts r = [] \<and> parsed_parts r = [] \<and>
           ALGO_MAPPING_ISSUES r = None \<and> ALGO_MAPPING_ISSUES_string r = [] \<and>
           SGG_LOINC r = [] \<and> SGG_LONG_COMMON_NAME r = [] \<and> SGG_OTHER r = [] \<and>
           RULE_RELAXED_BY r = [] \<and> TARGET_TERM r = [] \<and> TARGET_TERM_string r = []"
    by (simp add: r_def r4_def normalizeSPECIMEN_SOURCE_def clearComputedFields_def Let_def)
  from p f show ?thesis by blast
qed

lemma executeRulesRow_excluded:
  "isExcludeStatus r \<Longrightarrow> executeRulesRow e tbl r = Inr (tbl, r)"
  by (simp add: executeRulesRow_def)

lemma executeRules_excluded_head:
  "isExcludeStatus r \<Longrightarrow>
   executeRules e tbl (r # rs) = bindE (executeRules e tbl rs) (\<lambda>(tbl', rs'). Inr (tbl', r # rs'))"
  by (simp add: executeRulesRow_excluded)

lemma preProcessAndValidate_head:
  assumes "addLoincPartsFillMissingColumns (loincToParts (loincTable e)) row = Inr r0"
    and "preProcessRow e r0 = Inr r"
  shows "preProcessAndValidate e (row # rows) =
           bindE (preProcessAndValidate e rows) (\<lambda>rs. Inr (r # rs))"
  by (cases "mapE (addLoincPartsFillMissingColumns (loincToParts (loincTable e))) rows")
    (simp_all add: preProcessAndValidate_def assms bindE_def split: sum.splits)

text \<open>
  For a row whose LOINC number is empty, or is neither a key of the catalog nor the name of a
  member of \<open>Object.prototype\<close>, and whose unit cell is a text or is falsy, the code does what
  claim C7 says (the unit mappers, which are parameters here, return): the copy of the parts
  and the preprocessing return, the Judgment is \<^verbatim>\<open>WACKO_INVALID_LOINC\<close>, the inference
  has not touched the row, so it has no inferred parts and no mapping issues, the search for
  alternative terms returns the row and the table as they are, so the row has no suggested
  term, also after the final formatting, and a batch that starts with such a row is processed
  as the rest of the batch is, the row being put in front of the result.
\<close>

lemma invalid_code_excluded:
  assumes "LAB_LOINC row = [] \<or> jsGet (loincToParts (loincTable e)) (LAB_LOINC row) = Undefined"
    and "\<not> cellTruthy (RAW_UNIT row) \<or> (\<exists>u. RAW_UNIT row = Str u)"
  shows "\<exists>r0 r. addLoincPartsFillMissingColumns (loincToParts (loincTable e)) row = Inr r0 \<and>
           preProcessRow e r0 = Inr r \<and>
           ALGO_JUDGEMENT r = ''WACKO_INVALID_LOINC'' \<and>
           inferred r = None \<and> inferred_parts r = [] \<and> parsed_parts r = [] \<and>
           ALGO_MAPPING_ISSUES r = None \<and>
           SGG_LOINC r = [] \<and> SGG_LONG_COMMON_NAME r = [] \<and> SGG_OTHER r = [] \<and>
           (\<forall>tbl. executeRulesRow e tbl r = Inr (tbl, r)) \<and>
           ALGO_JUDGEMENT (reformatValuesToString r) = ''WACKO_INVALID_LOINC'' \<and>
           ALGO_MAPPING_ISSUES_string (reformatValuesToString r) = [] \<and>
           SGG_LOINC (reformatValuesToString r) = [] \<and>
           SGG_LONG_COMMON_NAME (reformatValuesToString r) = [] \<and>
           SGG_OTHER (reformatValuesToString r) = [] \<and>
           (\<forall>rows. preProcessAndValidate e (row # rows) =
                      bindE (preProcessAndValidate e rows) (\<lambda>rs. Inr (r # rs))) \<and>
           (\<forall>tbl rs. executeRules e tbl (r # rs) =
                      bindE (executeRules e tbl rs) (\<lambda>(tbl', rs'). Inr (tbl', r # rs')))"
proof -
  let ?tbl = "loincToParts (loincTable e)"
  from fill_returns [OF assms(1)] obtain r0 where
    fill: "addLoincPartsFillMissingColumns ?tbl row = Inr r0"
    and l0: "LAB_LOINC r0 = LAB_LOINC row" and u0: "RAW_UNIT r0 = RAW_UNIT row"
    by blast
  from assms l0 u0 have
    "LAB_LOINC r0 = [] \<or> jsGet ?tbl (LAB_LOINC r0) = Undefined"
    "\<not> cellTruthy (RAW_UNIT r0) \<or> (\<exists>u. RAW_UNIT r0 = Str u)"
    by simp_all
  from preProcessRow_excluded [OF this] obtain r where
    p: "preProcessRow e r0 = Inr r"
    and j: "ALGO_JUDGEMENT r = ''WACKO_INVALID_LOINC''"
    and c: "inferred r = None" "inferred_parts r = []" "parsed_parts r = []"
      "ALGO_MAPPING_ISSUES r = None" "ALGO_MAPPING_ISSUES_string r = []"
      "SGG_LOINC r = []" "SGG_LONG_COMMON_NAME r = []" "SGG_OTHER r = []" "TARGET_TERM r = []"
    by blast
  from j have x: "isExcludeStatus r" by (simp add: isExcludeStatus_def)
  have f: "ALGO_JUDGEMENT (reformatValuesToString r) = ''WACKO_INVALID_LOINC'' \<and>
           ALGO_MAPPING_ISSUES_string (reformatValuesToString r) = [] \<and>
           SGG_LOINC (reformatValuesToString r) = [] \<and>
           SGG_LONG_COMMON_NAME (reformatValuesToString r) = [] \<and>
           SGG_OTHER (reformatValuesToString r) = []"
    using j c by (simp add: reformatValuesToString_def)
  have b1: "\<forall>rows. preProcessAndValidate e (row # rows) =
                      bindE (preProcessAndValidate e rows) (\<lambda>rs. Inr (r # rs))"
    using preProcessAndValidate_head [OF fill p] by blast
  have b2: "\<forall>tbl rs. executeRules e tbl (r # rs) =
                      bindE (executeRules e tbl rs) (\<lambda>(tbl', rs'). Inr (tbl', r # rs'))"
    using executeRules_excluded_head [OF x] by blast
  have b3: "\<forall>tbl. executeRulesRow e tbl r = Inr (tbl, r)"
    using executeRulesRow_excluded [OF x] by blast
  from fill p j c f b1 b2 b3 show ?thesis by blast
qed

lemma ex_bad_judged:
  "map_sum id (map ALGO_JUDGEMENT) (validateAndSuggest exEnv [exRowBad]) = Inr [''WACKO_INVALID_LOINC'']"
proof -
  have a: "LAB_LOINC exRowBad = [] \<or> jsGet (loincToParts (loincTable exEnv)) (LAB_LOINC exRowBad) = Undefined"
    by (simp add: index_eval_defs exRowBad_def exRow_def)
  have b: "\<not> cellTruthy (RAW_UNIT exRowBad) \<or> (\<exists>u. RAW_UNIT exRowBad = Str u)"
    by (simp add: exRowBad_def exRow_def)
  from invalid_code_excluded [OF a b] obtain r where
    j: "ALGO_JUDGEMENT (reformatValuesToString r) = ''WACKO_INVALID_LOINC''"
    and p: "preProcessAndValidate exEnv [exRowBad] = bindE (preProcessAndValidate exEnv []) (\<lambda>rs. Inr (r # rs))"
    and x: "executeRules exEnv (loincToParts (loincTable exEnv)) [r] =
              bindE (executeRules exEnv (loincToParts (loincTable exEnv)) [])
                (\<lambda>(tbl', rs'). Inr (tbl', r # rs'))"
    by blast
  from p have p': "preProcessAndValidate exEnv [exRowBad] = Inr [r]"
    by (simp add: preProcessAndValidate_def)
  from x have x': "executeRules exEnv (loincToParts (loincTable exEnv)) [r] =
                     Inr (loincToParts (loincTable exEnv), [r])"
    by simp
  show ?thesis
    unfolding validateAndSuggest_def p' bindE_simps x' using j by simp
qed

lemma ex_ctor_not_in_table: "map_of (loincToParts (loincTable exEnv)) ''constructor'' = None"
  by (simp add: loincToParts_def addLoincRow_def exEnv_def exLoincRow_def Let_def)

lemma ex_ctor_fill:
  "addLoincPartsFillMissingColumns (loincToParts (loincTable exEnv)) exRowCtor = Inl TypeError"
  by (simp add: addLoincPartsFillMissingColumns_def exRowCtor_def jsGet_def ex_ctor_not_in_table
      objectPrototypeKeys_def)

lemma ex_ctor_batch: "validateAndSuggest exEnv [exRow, exRowCtor] = Inl TypeError"
proof -
  have "\<exists>r. addLoincPartsFillMissingColumns (loincToParts (loincTable exEnv)) exRow = Inr r"
    by (simp add: addLoincPartsFillMissingColumns_def index_eval_defs exRow_def)
  then obtain r where "addLoincPartsFillMissingColumns (loincToParts (loincTable exEnv)) exRow = Inr r" ..
  then show ?thesis
    by (simp add: validateAndSuggest_def preProcessAndValidate_def ex_ctor_fill)
qed

lemma ex_num_not_in_table:
  "map_of (loincToParts (loincTable exEnv)) (LAB_LOINC exRowNumUnit) = None"
  by (simp add: loincToParts_def addLoincRow_def exEnv_def exLoincRow_def Let_def exRowNumUnit_def
      exRowBad_def exRow_def)

lemma ex_num_unit: "getXformedRawUnit exRowNumUnit = Inl TypeError"
  by (simp add: getXformedRawUnit_def exRowNumUnit_def cellTruthy_def)

lemma ex_num_batch: "validateAndSuggest exEnv [exRowNumUnit, exRow] = Inl TypeError"
proof -
  have f: "addLoincPartsFillMissingColumns (loincToParts (loincTable exEnv)) exRowNumUnit = Inr exRowNumUnit"
    by (simp add: addLoincPartsFillMissingColumns_def jsGet_def ex_num_not_in_table)
      (simp add: exRowNumUnit_def exRowBad_def exRow_def objectPrototypeKeys_def)
  have "\<exists>r. addLoincPartsFillMissingColumns (loincToParts (loincTable exEnv)) exRow = Inr r"
    by (simp add: addLoincPartsFillMissingColumns_def index_eval_defs exRow_def)
  then obtain r where g: "addLoincPartsFillMissingColumns (loincToParts (loincTable exEnv)) exRow = Inr r" ..
  have u: "getXformedRawUnit (normalizeSPECIMEN_SOURCE exEnv (clearComputedFields exRowNumUnit)) =
             Inl TypeError"
    using getXformedRawUnit_cong [of "normalizeSPECIMEN_SOURCE exEnv (clearComputedFields exRowNumUnit)" exRowNumUnit]
      ex_num_unit
    by (simp add: normalizeSPECIMEN_SOURCE_def clearComputedFields_def Let_def)
  have p: "preProcessRow exEnv exRowNumUnit = Inl TypeError"
    by (simp add: preProcessRow_def Let_def convertToUcum_def u)
  show ?thesis
    by (simp add: validateAndSuggest_def preProcessAndValidate_def f g p)
qed

text \<open>
  Claim C7 fails on the code.  \<^verbatim>\<open>addLoincPartsFillMissingColumns\<close> and
  \<^verbatim>\<open>getInitialRowStatus\<close> read \<^verbatim>\<open>loincToParts[row.LAB_LOINC]\<close> on a plain object.  The
  LOINC number \<^verbatim>\<open>constructor\<close> is not in the catalog below, yet the expression is the
  function that every object inherits under that name: it is truthy, so the parts of the
  term are copied from it, which throws a \<^verbatim>\<open>TypeError\<close>, and the whole batch is aborted,
  a valid row with it; no Judgment is set.  A second way to the same end: a row whose LOINC
  number is not in the catalog and whose unit cell holds a number makes
  \<^verbatim>\<open>getXformedRawUnit\<close> throw (\<^verbatim>\<open>rawUnit.endsWith\<close> is not a function) before the status
  of the row is set, although the name of the test is turned into a string first because
  some are numeric.  A row whose LOINC number is not in the catalog, is not such a name and
  comes with a text unit is excluded as the claim says.
\<close>

theorem C7_batch_aborted:
  "LAB_LOINC exRowCtor = ''constructor'' \<and>
   map_of (loincToParts (loincTable exEnv)) (LAB_LOINC exRowCtor) = None \<and>
   addLoincPartsFillMissingColumns (loincToParts (loincTable exEnv)) exRowCtor = Inl TypeError \<and>
   validateAndSuggest exEnv [exRow, exRowCtor] = Inl TypeError \<and>
   RAW_UNIT exRowNumUnit = Num ''5'' \<and>
   map_of (loincToParts (loincTable exEnv)) (LAB_LOINC exRowNumUnit) = None \<and>
   getXformedRawUnit exRowNumUnit = Inl TypeError \<and>
   validateAndSuggest exEnv [exRowNumUnit, exRow] = Inl TypeError \<and>
   map_of (loincToParts (loincTable exEnv)) (LAB_LOINC exRowBad) = None \<and>
   map_sum id (map ALGO_JUDGEMENT) (validateAndSuggest exEnv [exRowBad]) =
     Inr [''WACKO_INVALID_LOINC'']"
proof -
  have a: "LAB_LOINC exRowCtor = ''constructor''" by (simp add: exRowCtor_def)
  have b: "map_of (loincToParts (loincTable exEnv)) (LAB_LOINC exRowCtor) = None"
    by (simp add: a ex_ctor_not_in_table)
  have c: "RAW_UNIT exRowNumUnit = Num ''5''" by (simp add: exRowNumUnit_def)
  have d: "map_of (loincToParts (loincTable exEnv)) (LAB_LOINC exRowBad) = None"
    using ex_num_not_in_table by (simp add: exRowNumUnit_def)
  show ?thesis
    by (intro conjI a b c d ex_ctor_fill ex_ctor_batch ex_num_not_in_table ex_num_unit
        ex_num_batch ex_bad_judged)
qed

subsection \<open>The Judgment along a pass\<close>

lemma laterJudgement_refl [simp]: "laterJudgement a a"
  by (simp add: laterJudgement_def)

lemma laterJudgement_trans:
  "laterJudgement a b \<Longrightarrow> laterJudgement b c \<Longrightarrow> laterJudgement a c"
  by (auto simp: laterJudgement_def)

lemma later_bindE:
  assumes "bindE x f = Inr r'"
    and "\<And>v. x = Inr v \<Longrightarrow> laterJudgement a (ALGO_JUDGEMENT v)"
    and "\<And>v. f v = Inr r' \<Longrightarrow> laterJudgement (ALGO_JUDGEMENT v) (ALGO_JUDGEMENT r')"
  shows "laterJudgement a (ALGO_JUDGEMENT r')"
proof -
  from assms(1) obtain v where "x = Inr v" "f v = Inr r'" by (rule bindE_InrE)
  with assms(2) [of v] assms(3) [of v] show ?thesis by (blast intro: laterJudgement_trans)
qed

lemma later_addAlgoIssue:
  "laterJudgement (ALGO_JUDGEMENT row)
     (ALGO_JUDGEMENT (snd (addAlgoIssueAndJudgementIfPartsDisagree row pt names ok)))"
  using judgement_addAlgoIssue [of row pt names ok] by (auto simp: laterJudgement_def)

lemma later_inferAndFlag:
  assumes "inferAndFlag row pt names ty = Inr r'"
  shows "laterJudgement (ALGO_JUDGEMENT row) (ALGO_JUDGEMENT r')"
proof -
  from assms obtain r where r: "addInferredLoincParts row pt names ty = Inr r"
    and r': "r' = snd (addAlgoIssueAndJudgementIfPartsDisagree r pt names True)"
    unfolding inferAndFlag_def by (auto dest!: bindE_Inr)
  from judgement_addInferredLoincParts [OF r] later_addAlgoIssue [of r pt names True]
  show ?thesis unfolding r' by simp
qed

lemma later_flagThenInfer:
  assumes "flagThenInfer row pt names = Inr r'"
  shows "laterJudgement (ALGO_JUDGEMENT row) (ALGO_JUDGEMENT r')"
proof (cases "fst (addAlgoIssueAndJudgementIfPartsDisagree row pt names True)")
  case True
  with assms have "addInferredLoincParts (snd (addAlgoIssueAndJudgementIfPartsDisagree row pt names True))
                     pt names ''inferred'' = Inr r'"
    by (simp add: flagThenInfer_def split: prod.splits)
  from judgement_addInferredLoincParts [OF this] later_addAlgoIssue [of row pt names True]
  show ?thesis by simp
next
  case False
  with assms have "r' = snd (addAlgoIssueAndJudgementIfPartsDisagree row pt names True)"
    by (simp add: flagThenInfer_def split: prod.splits)
  then show ?thesis by (simp add: later_addAlgoIssue)
qed

lemma later_defaultJudgement:
  "laterJudgement (ALGO_JUDGEMENT row) (ALGO_JUDGEMENT (defaultJudgement row))"
  by (simp add: defaultJudgement_def jsBoolEqString_def)

lemma later_inferComponentByModifier:
  "inferComponentByModifier e row = Inr r' \<Longrightarrow> laterJudgement (ALGO_JUDGEMENT row) (ALGO_JUDGEMENT r')"
  unfolding inferComponentByModifier_def Let_def
  by (auto split: option.splits if_splits elim!: bindE_InrE dest: later_inferAndFlag)

lemma later_inferLoincSystem:
  "inferLoincSystem row = Inr r' \<Longrightarrow> laterJudgement (ALGO_JUDGEMENT row) (ALGO_JUDGEMENT r')"
  unfolding inferLoincSystem_def Let_def
  by (auto dest!: bindE_Inr split: if_splits dest: later_inferAndFlag)

lemma later_inferLoincTime:
  assumes "inferLoincTime row = Inr r'"
  shows "laterJudgement (ALGO_JUDGEMENT row) (ALGO_JUDGEMENT r')"
  using assms unfolding inferLoincTime_def Let_def
  apply (elim bindE_InrE)
  apply (auto simp: laterJudgement_def split: if_splits option.splits dest!: later_inferAndFlag)
  done

lemma later_inferScaleAndProperty:
  assumes "inferScaleAndProperty e row altUnits ps = Inr r'"
  shows "laterJudgement (ALGO_JUDGEMENT row) (ALGO_JUDGEMENT r')"
  using assms unfolding inferScaleAndProperty_def Let_def
  apply (elim bindE_InrE)
  apply (auto simp: laterJudgement_def split: if_splits option.splits cell.splits
      dest!: later_flagThenInfer)
  done

lemma later_inferWithHfpLpf:
  "inferWithHfpLpf row altUnits = Inr r' \<Longrightarrow> laterJudgement (ALGO_JUDGEMENT row) (ALGO_JUDGEMENT r')"
  by (auto simp: inferWithHfpLpf_def Let_def laterJudgement_def
      split: option.splits if_splits dest!: judgement_addInferredLoincParts)

lemma later_inferLoincPartsUAxPF:
  assumes "inferLoincPartsUAxPF row = Inr r'"
  shows "laterJudgement (ALGO_JUDGEMENT row) (ALGO_JUDGEMENT r')"
proof (cases "inferLoincPartsUAxPF row = Inr row")
  case True
  with assms show ?thesis by simp
next
  case False
  from assms obtain rawXpf where x: "extractHpfLpfCell (RAW_UNIT row) = Inr rawXpf"
    unfolding inferLoincPartsUAxPF_def by (auto elim!: bindE_InrE)
  define mw where "mw = (rawXpf \<noteq>
      (case extractHpfLpf (rowPart row METHOD) of
         Some x \<Rightarrow> Some x | None \<Rightarrow> extractHpfLpf (example_ucum row)) \<and>
      ((case extractHpfLpf (rowPart row METHOD) of
         Some x \<Rightarrow> Some x | None \<Rightarrow> extractHpfLpf (example_ucum row)) \<noteq> None \<or>
       startsWith (rowPart row METHOD) ''Microscopy.light''))"
  from False assms obtain rx where
    "bindE (addInferredLoincParts row SYSTEM [''Urine'', ''Urine sed''] ''inferred'')
       (\<lambda>r1. bindE (if rowPart r1 SCALE \<noteq> ''Qn'' then inferAndFlag r1 SCALE [''Qn''] ''inferred''
                     else Inr r1)
         (\<lambda>r2. bindE (if rowPart r2 PROPERTY \<noteq> ''Naric''
                       then inferAndFlag r2 PROPERTY [''Naric''] ''inferred'' else Inr r2)
           (\<lambda>r3. if mw
                  then inferAndFlag r3 METHOD [''Microscopy.light.'' @ rx] ''inferred''
                  else Inr r3))) = Inr r'"
    unfolding inferLoincPartsUAxPF_def x bindE_simps Let_def mw_def [symmetric]
    by (cases rawXpf) (simp_all split: if_splits)
  then show ?thesis
    apply (rule later_bindE)
     apply (simp add: judgement_addInferredLoincParts)
    apply (erule later_bindE)
     apply (auto split: if_splits dest: later_inferAndFlag)[1]
    apply (erule later_bindE)
     apply (auto split: if_splits dest: later_inferAndFlag)
    done
qed

lemma later_inferEach:
  "inferEach row ps = Inr r' \<Longrightarrow> laterJudgement (ALGO_JUDGEMENT row) (ALGO_JUDGEMENT r')"
proof (induction ps arbitrary: row)
  case Nil
  then show ?case by simp
next
  case (Cons p ps)
  obtain pt v where p: "p = (pt, v)" by (cases p)
  from Cons.prems obtain r where
    a: "(if rowPart row pt \<noteq> v then inferAndFlag row pt [v] ''inferred'' else Inr row) = Inr r"
    and b: "inferEach r ps = Inr r'"
    unfolding p by (auto dest!: bindE_Inr)
  from a have 1: "laterJudgement (ALGO_JUDGEMENT row) (ALGO_JUDGEMENT r)"
    by (auto split: if_splits dest: later_inferAndFlag)
  from 1 Cons.IH [OF b] show ?case by (rule laterJudgement_trans)
qed

lemma later_inferLoincPartsCDxAntibody:
  "inferLoincPartsCDxAntibody row = Inr r' \<Longrightarrow> laterJudgement (ALGO_JUDGEMENT row) (ALGO_JUDGEMENT r')"
  unfolding inferLoincPartsCDxAntibody_def
  by (auto simp del: inferEach.simps split: option.splits if_splits cell.splits
      dest: later_inferEach)

lemma later_inferCreatinineRatio:
  "inferCreatinineRatio e row = Inr r' \<Longrightarrow> laterJudgement (ALGO_JUDGEMENT row) (ALGO_JUDGEMENT r')"
  unfolding inferCreatinineRatio_def Let_def
  by (auto split: if_splits elim!: bindE_InrE dest: later_inferAndFlag)

lemma later_combineInferredParts:
  "laterJudgement (ALGO_JUDGEMENT row) (ALGO_JUDGEMENT (combineInferredParts row))"
  by (simp add: combineInferredParts_def Let_def split: option.splits)

lemma judgement_executeRulesForRecord:
  "executeRulesForRecord e tbl p row = Inr (tbl', row', ms) \<Longrightarrow> ALGO_JUDGEMENT row' = ALGO_JUDGEMENT row"
  unfolding executeRulesForRecord_def Let_def
  by (auto split: if_splits option.splits elim!: bindE_InrE)

lemma judgement_executeForUnits:
  "executeForUnits e p units (tbl, row, ms) = Inr (tbl', row', ms') \<Longrightarrow>
   ALGO_JUDGEMENT row' = ALGO_JUDGEMENT row"
proof (induction units arbitrary: tbl row ms)
  case Nil
  then show ?case by simp
next
  case (Cons u units)
  from Cons.prems obtain t1 r1 m1 where
    a: "executeRulesForRecord e tbl p row = Inr (t1, r1, m1)"
    and b: "executeForUnits e p units (t1, r1, ms @ m1) = Inr (tbl', row', ms')"
    by (auto dest!: bindE_Inr)
  from Cons.IH [OF b] judgement_executeRulesForRecord [OF a] show ?case by simp
qed

lemma later_executeRulesRow:
  assumes "executeRulesRow e tbl row = Inr (tbl', r')"
  shows "laterJudgement (ALGO_JUDGEMENT row) (ALGO_JUDGEMENT r')"
proof (cases "isExcludeStatus row")
  case True
  with assms show ?thesis by (simp add: executeRulesRow_def)
next
  case False
  with assms obtain units0 where "getAllPossibleUnits e row = Inr units0"
    unfolding executeRulesRow_def by (auto elim!: bindE_InrE)
  with assms False obtain units where
    "bindE (executeForUnits e (jsGet tbl (LAB_LOINC row)) units (tbl, row, []))
       (\<lambda>(tbl', row', allMatches).
          if allMatches = [] then Inr (tbl', row')
          else (case selectBestMatch row' allMatches of
                  (Some bestMatch, Some rest) \<Rightarrow>
                    Inr (tbl',
                         row'\<lparr>SGG_LOINC := LOINC_NUM bestMatch,
                              SGG_LONG_COMMON_NAME := LONG_COMMON_NAME bestMatch,
                              RULE_RELAXED_BY :=
                                jsJoin ''; '' (fold setAdd
                                  (case relaxations bestMatch of None \<Rightarrow> [] | Some rs \<Rightarrow> rs) []),
                              ALGO_JUDGEMENT := ''FIXED'',
                              SGG_OTHER :=
                                jsJoin ''; '' (map (\<lambda>m. LOINC_NUM m @ '':{'' @ LONG_COMMON_NAME m @ ''}'')
                                                rest)\<rparr>)
                | _ \<Rightarrow> Inl TypeError)) = Inr (tbl', r')"
    unfolding executeRulesRow_def Let_def by simp
  then obtain v where
    a: "executeForUnits e (jsGet tbl (LAB_LOINC row)) units (tbl, row, []) = Inr v"
    and b: "(case v of (tbl', row', allMatches) \<Rightarrow>
          if allMatches = [] then Inr (tbl', row')
          else (case selectBestMatch row' allMatches of
                  (Some bestMatch, Some rest) \<Rightarrow>
                    Inr (tbl',
                         row'\<lparr>SGG_LOINC := LOINC_NUM bestMatch,
                              SGG_LONG_COMMON_NAME := LONG_COMMON_NAME bestMatch,
                              RULE_RELAXED_BY :=
                                jsJoin ''; '' (fold setAdd
                                  (case relaxations bestMatch of None \<Rightarrow> [] | Some rs \<Rightarrow> rs) []),
                              ALGO_JUDGEMENT := ''FIXED'',
                              SGG_OTHER :=
                                jsJoin ''; '' (map (\<lambda>m. LOINC_NUM m @ '':{'' @ LONG_COMMON_NAME m @ ''}'')
                                                rest)\<rparr>)
                | _ \<Rightarrow> Inl TypeError)) = Inr (tbl', r')"
    by (rule bindE_InrE)
  obtain t1 r1 ms where v: "v = (t1, r1, ms)" by (cases v)
  from b have c: "r' = r1 \<or> ALGO_JUDGEMENT r' = ''FIXED''"
    unfolding v by (auto split: if_splits prod.splits option.splits)
  from judgement_executeForUnits [OF a [unfolded v]] c show ?thesis
    by (auto simp: laterJudgement_def)
qed

lemma later_passSteps:
  assumes "s \<in> set (passSteps e tbl altUnits)" and "s row = Inr r'"
  shows "laterJudgement (ALGO_JUDGEMENT row) (ALGO_JUDGEMENT r')"
proof -
  from assms(1) consider
      "s = (\<lambda>row. Inr (defaultJudgement row))"
    | "s = inferComponentByModifier e"
    | "s = inferLoincSystem"
    | "s = inferLoincTime"
    | "s = (\<lambda>row. inferScaleAndProperty e row altUnits (propsOfUnits e altUnits))"
    | "s = (\<lambda>row. inferWithHfpLpf row altUnits)"
    | "s = inferLoincPartsUAxPF"
    | "s = inferLoincPartsCDxAntibody"
    | "s = inferCreatinineRatio e"
    | "s = (\<lambda>row. Inr (combineInferredParts row))"
    | "s = (\<lambda>row. bindE (executeRulesRow e tbl row) (\<lambda>(tbl', row'). Inr row'))"
    | "s = (\<lambda>row. Inr (reformatValuesToString row))"
    unfolding passSteps_def inferSteps_def by auto
  then show ?thesis
  proof cases
    case 1
    with assms(2) show ?thesis using later_defaultJudgement [of row] by auto
  next
    case 2
    with assms(2) show ?thesis by (simp add: later_inferComponentByModifier)
  next
    case 3
    with assms(2) show ?thesis by (simp add: later_inferLoincSystem)
  next
    case 4
    with assms(2) show ?thesis by (simp add: later_inferLoincTime)
  next
    case 5
    with assms(2) show ?thesis using later_inferScaleAndProperty by simp
  next
    case 6
    with assms(2) show ?thesis using later_inferWithHfpLpf by simp
  next
    case 7
    with assms(2) show ?thesis by (simp add: later_inferLoincPartsUAxPF)
  next
    case 8
    with assms(2) show ?thesis by (simp add: later_inferLoincPartsCDxAntibody)
  next
    case 9
    with assms(2) show ?thesis by (simp add: later_inferCreatinineRatio)
  next
    case 10
    with assms(2) show ?thesis using later_combineInferredParts [of row] by auto
  next
    case 11
    with assms(2) have "bindE (executeRulesRow e tbl row) (\<lambda>(tbl', row'). Inr row') = Inr r'"
      by simp
    then obtain t where "executeRulesRow e tbl row = Inr (t, r')"
      by (auto elim!: bindE_InrE)
    then show ?thesis by (rule later_executeRulesRow)
  next
    case 12
    with assms(2) have "r' = reformatValuesToString row" by simp
    then show ?thesis by (simp add: reformatValuesToString_def)
  qed
qed

lemma trace_later:
  assumes "\<And>s row r'. s \<in> set ss \<Longrightarrow> s row = Inr r' \<Longrightarrow>
             laterJudgement (ALGO_JUDGEMENT row) (ALGO_JUDGEMENT r')"
    and "x \<in> set (judgementTrace ss row)"
  shows "laterJudgement (ALGO_JUDGEMENT row) x"
  using assms
proof (induction ss arbitrary: row)
  case Nil
  then show ?case by simp
next
  case (Cons s ss)
  from Cons.prems(2) obtain r where r: "s row = Inr r"
    and x: "x = ALGO_JUDGEMENT r \<or> x \<in> set (judgementTrace ss r)"
    by (cases "s row") auto
  have 1: "laterJudgement (ALGO_JUDGEMENT row) (ALGO_JUDGEMENT r)"
    using Cons.prems(1) [of s row r] r by simp
  from x show ?case
  proof
    assume "x = ALGO_JUDGEMENT r"
    with 1 show ?thesis by simp
  next
    assume m: "x \<in> set (judgementTrace ss r)"
    have "laterJudgement (ALGO_JUDGEMENT row) (ALGO_JUDGEMENT r')"
      if "s' \<in> set ss" "s' row = Inr r'" for s' row r'
      using Cons.prems(1) [of s' row r'] that by simp
    from Cons.IH [of r, OF this m] have "laterJudgement (ALGO_JUDGEMENT r) x" by simp
    with 1 show ?thesis by (rule laterJudgement_trans)
  qed
qed

lemma trace_no_revert:
  assumes "\<And>s row r'. s \<in> set ss \<Longrightarrow> s row = Inr r' \<Longrightarrow>
             laterJudgement (ALGO_JUDGEMENT row) (ALGO_JUDGEMENT r')"
    and "i < j" and "j < length (judgementTrace ss row)"
    and "judgementTrace ss row ! i = ''INCORRECT_aj''"
  shows "laterJudgement ''INCORRECT_aj'' (judgementTrace ss row ! j)"
  using assms
proof (induction ss arbitrary: row i j)
  case Nil
  then show ?case by simp
next
  case (Cons s ss)
  from Cons.prems(3) obtain r where r: "s row = Inr r"
    by (cases "s row") auto
  then have t: "judgementTrace (s # ss) row = ALGO_JUDGEMENT r # judgementTrace ss r" by simp
  from Cons.prems(2) obtain j' where j: "j = Suc j'" by (cases j) auto
  from Cons.prems(3) have lj: "j' < length (judgementTrace ss r)" unfolding t j by simp
  have steps: "laterJudgement (ALGO_JUDGEMENT row) (ALGO_JUDGEMENT r')"
    if "s' \<in> set ss" "s' row = Inr r'" for s' row r'
    using Cons.prems(1) [of s' row r'] that by simp
  show ?case
  proof (cases i)
    case 0
    with Cons.prems(4) have "ALGO_JUDGEMENT r = ''INCORRECT_aj''" unfolding t by simp
    moreover from lj have "judgementTrace ss r ! j' \<in> set (judgementTrace ss r)" by simp
    ultimately have "laterJudgement ''INCORRECT_aj'' (judgementTrace ss r ! j')"
      using trace_later [of ss "judgementTrace ss r ! j'" r] steps by simp
    then show ?thesis unfolding t j by simp
  next
    case (Suc i')
    with Cons.prems(2,4) have "i' < j'" "judgementTrace ss r ! i' = ''INCORRECT_aj''"
      unfolding t j by simp_all
    from Cons.IH [OF steps this(1) lj this(2)] show ?thesis unfolding t j by simp
  qed
qed

text \<open>
  Claim C6.  Take the steps of one pass over a row that follow the assignment of the initial
  status (the checks of the inference, the search for alternative terms, the final
  formatting), started at any of them on any row, and the Judgment after each step.  Once
  the Judgment is \<^verbatim>\<open>INCORRECT_aj\<close>, after every later step it is \<^verbatim>\<open>INCORRECT_aj\<close> or \<^verbatim>\<open>FIXED\<close>,
  and so it is never \<^verbatim>\<open>CORRECT_aj\<close> again.
\<close>

theorem C6_judgement_never_reverts:
  assumes "i < j"
    and "j < length (judgementTrace (drop k (passSteps e tbl altUnits)) row)"
    and "judgementTrace (drop k (passSteps e tbl altUnits)) row ! i = ''INCORRECT_aj''"
  shows "judgementTrace (drop k (passSteps e tbl altUnits)) row ! j \<noteq> ''CORRECT_aj'' \<and>
         (judgementTrace (drop k (passSteps e tbl altUnits)) row ! j = ''INCORRECT_aj'' \<or>
          judgementTrace (drop k (passSteps e tbl altUnits)) row ! j = ''FIXED'')"
proof -
  have steps: "\<And>s row r'. s \<in> set (drop k (passSteps e tbl altUnits)) \<Longrightarrow> s row = Inr r' \<Longrightarrow>
             laterJudgement (ALGO_JUDGEMENT row) (ALGO_JUDGEMENT r')"
    using later_passSteps by (blast dest: in_set_dropD)
  from trace_no_revert [OF steps assms]
  have "laterJudgement ''INCORRECT_aj'' (judgementTrace (drop k (passSteps e tbl altUnits)) row ! j)"
    by simp
  then show ?thesis by (auto simp: laterJudgement_def)
qed

lemma ex_LPF_step:
  "\<exists>r1. inferWithHfpLpf exRowLPF [''/HPF''] = Inr r1 \<and> ALGO_JUDGEMENT r1 = ''INCORRECT_aj'' \<and>
        RAW_UNIT r1 = Str []"
  by (simp add: inferWithHfpLpf_def firstXpf_def extractHpfLpf_def stripBracket_def toUpperCase_def
      toUpperChar_def endsWith_def falsy_def isSpace_def addInferredLoincParts_def
      addAlgoMappingIssue_def exRowLPF_def exRow_def Let_def)

theorem C6_judgement_never_reverts_witness:
  "1 < length (judgementTrace (drop 5 (passSteps exEnv (loincToParts (loincTable exEnv)) [''/HPF''])) exRowLPF) \<and>
   judgementTrace (drop 5 (passSteps exEnv (loincToParts (loincTable exEnv)) [''/HPF''])) exRowLPF ! 0 =
     ''INCORRECT_aj'' \<and>
   judgementTrace (drop 5 (passSteps exEnv (loincToParts (loincTable exEnv)) [''/HPF''])) exRowLPF ! 1 \<noteq>
     ''CORRECT_aj''"
proof -
  let ?ss = "passSteps exEnv (loincToParts (loincTable exEnv)) [''/HPF'']"
  from ex_LPF_step obtain r1 where a: "inferWithHfpLpf exRowLPF [''/HPF''] = Inr r1"
    and j: "ALGO_JUDGEMENT r1 = ''INCORRECT_aj''" and u: "RAW_UNIT r1 = Str []" by blast
  from u have b: "inferLoincPartsUAxPF r1 = Inr r1"
    by (simp add: inferLoincPartsUAxPF_def extractHpfLpfCell_def extractHpfLpf_def Let_def)
  have d: "drop 5 ?ss = (\<lambda>row. inferWithHfpLpf row [''/HPF'']) # inferLoincPartsUAxPF # drop 7 ?ss"
    by (simp add: passSteps_def inferSteps_def)
  have t: "judgementTrace (drop 5 ?ss) exRowLPF =
             ''INCORRECT_aj'' # ''INCORRECT_aj'' # judgementTrace (drop 7 ?ss) r1"
    unfolding d by (simp add: a b j)
  have l: "1 < length (judgementTrace (drop 5 ?ss) exRowLPF)" unfolding t by simp
  have z: "judgementTrace (drop 5 ?ss) exRowLPF ! 0 = ''INCORRECT_aj''" unfolding t by simp
  have "(0::nat) < 1" by simp
  from C6_judgement_never_reverts [OF this l z] l z show ?thesis by blast
qed

end
